theory Spec2Isabelle
  imports Complex_Main
begin

section \<open>Vector collaborator\<close>

text \<open>
  The 3D vector type of the rendering library, with the operations the animator and the
  particle system call on it: \<open>add\<close>, \<open>subVectors\<close>, \<open>multiplyScalar\<close>, \<open>length\<close>,
  \<open>normalize\<close> (division by the length, or by 1 when the length is 0) and
  \<open>distanceTo\<close>. JavaScript numbers are modelled as real numbers: rounding and
  infinities are outside the model, and so is NaN, except as the absent number of the
  next section.
\<close>

datatype vec3 = Vec3 (vx: real) (vy: real) (vz: real)

definition add3 :: "vec3 \<Rightarrow> vec3 \<Rightarrow> vec3" where
  "add3 a b = Vec3 (vx a + vx b) (vy a + vy b) (vz a + vz b)"

definition subVectors :: "vec3 \<Rightarrow> vec3 \<Rightarrow> vec3" where
  "subVectors a b = Vec3 (vx a - vx b) (vy a - vy b) (vz a - vz b)"

definition multiplyScalar :: "vec3 \<Rightarrow> real \<Rightarrow> vec3" where
  "multiplyScalar a k = Vec3 (vx a * k) (vy a * k) (vz a * k)"

definition length3 :: "vec3 \<Rightarrow> real" where
  "length3 a = sqrt (vx a * vx a + vy a * vy a + vz a * vz a)"

definition normalize :: "vec3 \<Rightarrow> vec3" where
  "normalize a = multiplyScalar a (1 / (if length3 a = 0 then 1 else length3 a))"

definition distanceTo :: "vec3 \<Rightarrow> vec3 \<Rightarrow> real" where
  "distanceTo a b = length3 (subVectors a b)"

definition zero3 :: vec3 where
  "zero3 = Vec3 0 0 0"

section \<open>Numbers that may be absent\<close>

text \<open>
  \<open>userData.life\<close>, \<open>userData.decay\<close> and \<open>material.opacity\<close> are tested for presence by
  the code, so they are optional numbers. \<open>None\<close> stands for \<open>undefined\<close> and for the NaN
  that arithmetic on \<open>undefined\<close> produces: it propagates through arithmetic and fails
  every comparison.
\<close>

type_synonym jsnum = "real option"

definition jsub :: "jsnum \<Rightarrow> jsnum \<Rightarrow> jsnum" where
  "jsub a b = (case a of None \<Rightarrow> None
               | Some x \<Rightarrow> (case b of None \<Rightarrow> None | Some y \<Rightarrow> Some (x - y)))"

definition jmul :: "jsnum \<Rightarrow> real \<Rightarrow> jsnum" where
  "jmul a k = (case a of None \<Rightarrow> None | Some x \<Rightarrow> Some (x * k))"

definition jmax0 :: "jsnum \<Rightarrow> jsnum" where
  "jmax0 a = (case a of None \<Rightarrow> None | Some x \<Rightarrow> Some (max 0 x))"

definition jpos :: "jsnum \<Rightarrow> bool" where
  "jpos a = (case a of None \<Rightarrow> False | Some x \<Rightarrow> 0 < x)"

definition jnonpos :: "jsnum \<Rightarrow> bool" where
  "jnonpos a = (case a of None \<Rightarrow> False | Some x \<Rightarrow> x \<le> 0)"

section \<open>Scene objects\<close>

text \<open>
  A \<open>part\<close> is a child mesh of an effect (ring, flash sphere, beam, core, shell): the
  fields the update functions read or write. \<open>c_kids\<close> are the materials of the part's
  own children (the glow of a gamma beam), as a presence flag and an opacity. Every part
  owns its material: the sharing of one material between cloned rings of an energy wave
  is not modelled.
\<close>

record part =
  c_scale :: vec3
  c_material :: bool
  c_opacity :: jsnum
  c_emissiveIntensity :: real
  c_rotationZ :: real
  c_rotationSpeed :: "real option"
  c_oscillateSpeed :: "real option"
  c_oscillatePhase :: real
  c_delay :: "real option"
  c_kids :: "(bool \<times> jsnum) list"

definition mesh :: "real \<Rightarrow> part" where
  "mesh op = \<lparr> c_scale = Vec3 1 1 1, c_material = True, c_opacity = Some op,
     c_emissiveIntensity = 1, c_rotationZ = 0, c_rotationSpeed = None,
     c_oscillateSpeed = None, c_oscillatePhase = 0, c_delay = None, c_kids = [] \<rparr>"

text \<open>
  An \<open>obj\<close> is a renderable handle: its position and visibility, its material (when it is
  a mesh), its child parts, and the \<open>userData\<close> fields of all the variants the factory
  builds. \<open>ring\<close>, \<open>flash\<close>, \<open>beam\<close>, \<open>core\<close>, \<open>hot\<close> and \<open>shell\<close> refer to children by
  index, \<open>particle\<close> refers to another object by its identity. The decorative children of
  nucleons, projectiles and the target are never read or written by the update code and
  are left out.
\<close>

record obj =
  position :: vec3
  visible :: bool
  material :: bool
  opacity :: jsnum
  children :: "part list"
  utype :: string
  charge :: real
  velocity :: "vec3 option"
  life :: jsnum
  decay :: jsnum
  ring :: "nat option"
  flash :: "nat option"
  beam :: "nat option"
  core :: "nat option"
  hot :: "nat option"
  shell :: "nat option"
  maxRadius :: real
  currentRadius :: real
  pulsePhase :: real
  excitationLevel :: real
  vibPhase :: real
  particle :: "nat option"
  points :: "vec3 list option"

definition group :: "vec3 \<Rightarrow> obj" where
  "group pos = \<lparr> position = pos, visible = True, material = False, opacity = None,
     children = [], utype = [], charge = 0, velocity = None, life = None, decay = None,
     ring = None, flash = None, beam = None, core = None, hot = None, shell = None,
     maxRadius = 0, currentRadius = 0, pulsePhase = 0, excitationLevel = 0, vibPhase = 0,
     particle = None, points = None \<rparr>"

text \<open>
  The world outside the animator: the objects by identity, the next fresh identity, the
  render scene as the set of identities of its members (\<open>add\<close> inserts, \<open>remove\<close> deletes
  and is idempotent), the stream of values \<open>Math.random()\<close> returns with the number of
  draws made so far, and the particle system's \<open>trailsEnabled\<close> flag.
\<close>

record world =
  heap :: "nat \<Rightarrow> obj"
  nextId :: nat
  scene :: "nat set"
  randoms :: "nat \<Rightarrow> real"
  drawn :: nat
  trailsEnabled :: bool

datatype 'a outcome = Returned 'a | Threw

definition alloc :: "obj \<Rightarrow> world \<Rightarrow> nat \<times> world" where
  "alloc ob w = (nextId w, w\<lparr>heap := (heap w)(nextId w := ob), nextId := Suc (nextId w)\<rparr>)"

definition random :: "world \<Rightarrow> real \<times> world" where
  "random w = (randoms w (drawn w), w\<lparr>drawn := Suc (drawn w)\<rparr>)"

definition scene_add :: "nat \<Rightarrow> world \<Rightarrow> world" where
  "scene_add i w = w\<lparr>scene := insert i (scene w)\<rparr>"

definition scene_remove :: "nat \<Rightarrow> world \<Rightarrow> world" where
  "scene_remove i w = w\<lparr>scene := scene w - {i}\<rparr>"

definition modify :: "nat \<Rightarrow> (obj \<Rightarrow> obj) \<Rightarrow> world \<Rightarrow> world" where
  "modify i f w = w\<lparr>heap := (heap w)(i := f (heap w i))\<rparr>"

fun scene_add_all :: "nat list \<Rightarrow> world \<Rightarrow> world" where
  "scene_add_all [] w = w"
| "scene_add_all (i # is) w = scene_add_all is (scene_add i w)"

fun scene_remove_all :: "nat list \<Rightarrow> world \<Rightarrow> world" where
  "scene_remove_all [] w = w"
| "scene_remove_all (i # is) w = scene_remove_all is (scene_remove i w)"

section \<open>Particle system: factory\<close>

text \<open>
  Colours, geometries and sizes only affect drawing and are dropped; a size or colour
  argument that no other field depends on is not a parameter of the model.
\<close>

definition trailLength :: nat where
  "trailLength = 50"

definition createProton :: "vec3 \<Rightarrow> world \<Rightarrow> nat \<times> world" where
  "createProton pos = alloc ((group pos)\<lparr>material := True, opacity := Some 1,
     utype := ''proton'', charge := 1, velocity := Some zero3\<rparr>)"

definition createNeutron :: "vec3 \<Rightarrow> world \<Rightarrow> nat \<times> world" where
  "createNeutron pos = alloc ((group pos)\<lparr>material := True, opacity := Some 1,
     utype := ''neutron'', charge := 0, velocity := Some zero3\<rparr>)"

definition createAlpha :: "vec3 \<Rightarrow> world \<Rightarrow> nat \<times> world" where
  "createAlpha pos = alloc ((group pos)\<lparr>utype := ''alpha'', charge := 2,
     velocity := Some zero3\<rparr>)"

definition createDeuteron :: "vec3 \<Rightarrow> world \<Rightarrow> nat \<times> world" where
  "createDeuteron pos = alloc ((group pos)\<lparr>utype := ''deuteron'', charge := 1,
     velocity := Some zero3\<rparr>)"

definition createTargetNucleus :: "vec3 \<Rightarrow> world \<Rightarrow> nat \<times> world" where
  "createTargetNucleus pos = alloc ((group pos)\<lparr>utype := ''target'', charge := 50\<rparr>)"

definition createTrail :: "nat \<Rightarrow> world \<Rightarrow> nat \<times> world" where
  "createTrail p w = alloc ((group zero3)\<lparr>material := True, opacity := Some 0.6,
     particle := Some p,
     points := Some (replicate trailLength (position (heap w p)))\<rparr>) w"

definition createExplosionParticle :: "vec3 \<Rightarrow> world \<Rightarrow> nat \<times> world" where
  "createExplosionParticle pos w0 =
     (let (r1, w1) = random w0; theta = r1 * pi * 2;
          (r2, w2) = random w1; phi = arccos (2 * r2 - 1);
          (r3, w3) = random w2; speed = 0.5 + r3 * 1;
          (r4, w4) = random w3
      in alloc ((group pos)\<lparr>material := True, opacity := Some 1,
           velocity := Some (Vec3 (speed * sin phi * cos theta)
                                  (speed * sin phi * sin theta)
                                  (speed * cos phi)),
           life := Some 1, decay := Some (0.02 + r4 * 0.02)\<rparr>) w4)"

fun createExplosion_loop :: "nat \<Rightarrow> vec3 \<Rightarrow> world \<Rightarrow> nat list \<times> world" where
  "createExplosion_loop 0 pos w = ([], w)"
| "createExplosion_loop (Suc n) pos w =
     (let (p, w1) = createExplosionParticle pos w;
          (ps, w2) = createExplosion_loop n pos w1
      in (p # ps, w2))"

definition createExplosion :: "vec3 \<Rightarrow> world \<Rightarrow> nat list \<times> world" where
  "createExplosion pos w = createExplosion_loop 50 pos w"

definition createAbsorptionFlash :: "vec3 \<Rightarrow> world \<Rightarrow> nat \<times> world" where
  "createAbsorptionFlash pos = alloc ((group pos)\<lparr>children := [mesh 1, mesh 0.8],
     life := Some 1, ring := Some 0, flash := Some 1\<rparr>)"

definition createGammaRay :: "vec3 \<Rightarrow> world \<Rightarrow> nat \<times> world" where
  "createGammaRay origin w0 =
     (let (r1, w1) = random w0; theta = r1 * pi * 2;
          (r2, w2) = random w1; phi = arccos (2 * r2 - 1);
          direction = normalize (Vec3 (sin phi * cos theta) (sin phi * sin theta) (cos phi))
      in alloc ((group origin)\<lparr>children := [(mesh 1)\<lparr>c_kids := [(True, Some 0.4)]\<rparr>],
           utype := ''gamma'', velocity := Some (multiplyScalar direction 0.8),
           life := Some 1, decay := Some 0.025, beam := Some 0\<rparr>) w2)"

fun createGammaRays :: "vec3 \<Rightarrow> nat \<Rightarrow> world \<Rightarrow> nat list \<times> world" where
  "createGammaRays origin 0 w = ([], w)"
| "createGammaRays origin (Suc n) w =
     (let (g, w1) = createGammaRay origin w;
          (gs, w2) = createGammaRays origin n w1
      in (g # gs, w2))"

definition waveRing :: "nat \<Rightarrow> part" where
  "waveRing i = (mesh (0.8 - real i * 0.2))\<lparr>c_delay := Some (real i * 0.1)\<rparr>"

definition createEnergyWave :: "vec3 \<Rightarrow> real \<Rightarrow> world \<Rightarrow> nat \<times> world" where
  "createEnergyWave origin maxR = alloc ((group origin)\<lparr>
     children := concat (map (\<lambda>i. [waveRing i, waveRing i, waveRing i]) [0, 1, 2]),
     utype := ''energyWave'', life := Some 1, decay := Some 0.02,
     maxRadius := maxR, currentRadius := 0.1\<rparr>)"

definition compoundRing :: "nat \<Rightarrow> part" where
  "compoundRing i = (mesh (0.5 - real i * 0.1))\<lparr>c_rotationZ := real i * pi / 4,
     c_rotationSpeed := Some (0.05 + real i * 0.02)\<rparr>"

definition createCompoundNucleus :: "vec3 \<Rightarrow> world \<Rightarrow> nat \<times> world" where
  "createCompoundNucleus pos = alloc ((group pos)\<lparr>
     children := [(mesh 0.9)\<lparr>c_emissiveIntensity := 1.2\<rparr>, mesh 0.95, mesh 0.4]
       @ map (\<lambda>i. mesh (0.2 / real i)) [1, 2, 3]
       @ map compoundRing [0, 1, 2],
     utype := ''compoundNucleus'', life := Some 1, decay := Some 0.008, pulsePhase := 0,
     core := Some 0, hot := Some 1, shell := Some 2\<rparr>)"

definition excitedShell :: "nat \<Rightarrow> part" where
  "excitedShell i = (mesh (0.25 - real i * 0.08))\<lparr>
     c_oscillateSpeed := Some (0.1 + real i * 0.05), c_oscillatePhase := real i * pi / 2\<rparr>"

definition createExcitedTarget :: "vec3 \<Rightarrow> real \<Rightarrow> world \<Rightarrow> nat \<times> world" where
  "createExcitedTarget pos lvl = alloc ((group pos)\<lparr>
     children := [(mesh 0.85)\<lparr>c_emissiveIntensity := 0.9 + lvl * 0.3\<rparr>, mesh 0.9]
       @ map excitedShell [0, 1] @ [mesh (0.12 * lvl)],
     utype := ''excitedTarget'', excitationLevel := lvl, life := Some 1,
     decay := Some 0.015, vibPhase := 0, core := Some 0\<rparr>)"

section \<open>Particle system: per-tick updates\<close>

definition upd_child :: "nat \<Rightarrow> (part \<Rightarrow> part) \<Rightarrow> part list \<Rightarrow> part list" where
  "upd_child i f cs = (if i < length cs then cs[i := f (cs ! i)] else cs)"

definition via :: "nat option \<Rightarrow> (part \<Rightarrow> part) \<Rightarrow> part list \<Rightarrow> part list" where
  "via r f cs = (case r of None \<Rightarrow> cs | Some i \<Rightarrow> upd_child i f cs)"

definition set_scale :: "real \<Rightarrow> part \<Rightarrow> part" where
  "set_scale s c = c\<lparr>c_scale := Vec3 s s s\<rparr>"

text \<open>
  \<open>updateTrail\<close>: nothing when trails are disabled; otherwise the oldest point is dropped
  and the particle's position is put in front. Reading \<open>points\<close> or the particle of an
  object that has none throws, the second after the oldest point has been dropped.
\<close>

definition updateTrail :: "nat \<Rightarrow> world \<Rightarrow> unit outcome \<times> world" where
  "updateTrail t w =
     (if \<not> trailsEnabled w then (Returned (), w)
      else case points (heap w t) of
        None \<Rightarrow> (Threw, w)
      | Some pts \<Rightarrow>
          (case particle (heap w t) of
             None \<Rightarrow> (Threw, modify t (\<lambda>ob. ob\<lparr>points := Some (butlast pts)\<rparr>) w)
           | Some p \<Rightarrow>
               (Returned (),
                modify t (\<lambda>ob. ob\<lparr>points := Some (position (heap w p) # butlast pts)\<rparr>) w)))"

text \<open>
  \<open>updateExplosion\<close> visits the array from its last element to its first and splices
  the dead particles out of that array. \<open>updateExplosion_from\<close> takes the particles in
  visiting order and returns the ones kept, in visiting order.
\<close>

fun updateExplosion_from :: "nat list \<Rightarrow> world \<Rightarrow> nat list outcome \<times> world" where
  "updateExplosion_from [] w = (Returned [], w)"
| "updateExplosion_from (p # ps) w =
     (case velocity (heap w p) of
        None \<Rightarrow> (Threw, w)
      | Some v \<Rightarrow>
          (let w1 = modify p (\<lambda>ob. ob\<lparr>position := add3 (position ob) v,
                                       velocity := Some (multiplyScalar v 0.95),
                                       life := jsub (life ob) (decay ob)\<rparr>) w
           in if \<not> material (heap w1 p) then (Threw, w1)
              else (let w2 = modify p (\<lambda>ob. ob\<lparr>opacity := life ob\<rparr>) w1
                    in case updateExplosion_from ps w2 of
                         (Threw, w3) \<Rightarrow> (Threw, w3)
                       | (Returned kept, w3) \<Rightarrow>
                           (Returned (if jnonpos (life (heap w2 p)) then kept else p # kept),
                            w3))))"

definition updateExplosion :: "nat list \<Rightarrow> world \<Rightarrow> nat list outcome \<times> world" where
  "updateExplosion ps w =
     (case updateExplosion_from (rev ps) w of
        (Threw, w') \<Rightarrow> (Threw, w')
      | (Returned kept, w') \<Rightarrow> (Returned (rev kept), w'))"

definition updateAbsorptionFlash_on :: "obj \<Rightarrow> bool \<times> obj" where
  "updateAbsorptionFlash_on f =
     (case life f of
        None \<Rightarrow> (False, f)
      | Some l0 \<Rightarrow>
          (let l = l0 - 0.03;
               s = 1 + (1 - l) * 2;
               cs1 = via (ring f) (\<lambda>c. (set_scale s c)\<lparr>c_opacity :=
                        (if c_material c then Some l else c_opacity c)\<rparr>) (children f);
               fs = 1 + (1 - l);
               cs2 = via (flash f) (\<lambda>c. (set_scale fs c)\<lparr>c_opacity :=
                        (if c_material c then Some (l * 0.8) else c_opacity c)\<rparr>) cs1
           in (0 < l, f\<lparr>life := Some l, children := cs2\<rparr>)))"

definition updateAbsorptionFlash :: "nat \<Rightarrow> world \<Rightarrow> bool \<times> world" where
  "updateAbsorptionFlash i w =
     (let (alive, ob) = updateAbsorptionFlash_on (heap w i) in (alive, modify i (\<lambda>_. ob) w))"

definition updateGammaRay_on :: "obj \<Rightarrow> bool outcome \<times> obj" where
  "updateGammaRay_on g =
     (case velocity g of
        None \<Rightarrow> (Threw, g)
      | Some v \<Rightarrow>
          (let l = jsub (life g) (decay g);
               cs = via (beam g) (\<lambda>b. if c_material b
                      then b\<lparr>c_opacity := l,
                             c_kids := map (\<lambda>(m, op). if m then (m, jmul l 0.4) else (m, op))
                                           (c_kids b)\<rparr>
                      else b) (children g)
           in (Returned (jpos l),
               g\<lparr>position := add3 (position g) v, life := l, children := cs\<rparr>)))"

definition updateGammaRay :: "nat \<Rightarrow> world \<Rightarrow> bool outcome \<times> world" where
  "updateGammaRay i w =
     (let (r, ob) = updateGammaRay_on (heap w i) in (r, modify i (\<lambda>_. ob) w))"

definition updateEnergyWave_on :: "obj \<Rightarrow> bool \<times> obj" where
  "updateEnergyWave_on wv =
     (let l = jsub (life wv) (decay wv);
          r = currentRadius wv + 0.15;
          cs = map (\<lambda>(i, c).
                 (let d = (case c_delay c of None \<Rightarrow> 0 | Some x \<Rightarrow> x);
                      e = max 0.1 (r - d * 5)
                  in (set_scale e c)\<lparr>c_opacity :=
                       (if c_material c then jmul l (0.8 - real (i mod 3) * 0.2)
                        else c_opacity c)\<rparr>))
               (enumerate 0 (children wv))
      in (jpos l \<and> r < maxRadius wv, wv\<lparr>life := l, currentRadius := r, children := cs\<rparr>))"

definition updateEnergyWave :: "nat \<Rightarrow> world \<Rightarrow> bool \<times> world" where
  "updateEnergyWave i w =
     (let (alive, ob) = updateEnergyWave_on (heap w i) in (alive, modify i (\<lambda>_. ob) w))"

definition updateCompoundNucleus_on :: "obj \<Rightarrow> bool \<times> obj" where
  "updateCompoundNucleus_on c =
     (let l = jsub (life c) (decay c);
          ph = pulsePhase c + 0.15;
          pulse = sin ph;
          cs1 = via (core c) (\<lambda>k. (set_scale (1 + pulse * 0.08) k)\<lparr>c_emissiveIntensity :=
                   (if c_material k then 1.0 + pulse * 0.4 else c_emissiveIntensity k)\<rparr>)
                  (children c);
          cs2 = via (hot c) (\<lambda>k. (set_scale (1 + pulse * 0.15) k)\<lparr>c_opacity :=
                   (if c_material k then Some (0.8 + pulse * 0.2) else c_opacity k)\<rparr>) cs1;
          cs3 = via (shell c) (set_scale (1 + sin (ph * 1.5) * 0.1)) cs2;
          cs4 = map (\<lambda>k. case c_rotationSpeed k of
                      None \<Rightarrow> k
                    | Some r \<Rightarrow> (if r \<noteq> 0 then k\<lparr>c_rotationZ := c_rotationZ k + r\<rparr> else k))
                  cs3;
          cs5 = (case l of
                   None \<Rightarrow> cs4
                 | Some x \<Rightarrow>
                     (if x < 0.3
                      then map (\<lambda>k. if c_material k
                                     then k\<lparr>c_opacity := jmul (c_opacity k) (x / 0.3)\<rparr>
                                     else k) cs4
                      else cs4))
      in (jpos l, c\<lparr>life := l, pulsePhase := ph, children := cs5\<rparr>))"

definition updateCompoundNucleus :: "nat \<Rightarrow> world \<Rightarrow> bool \<times> world" where
  "updateCompoundNucleus i w =
     (let (alive, ob) = updateCompoundNucleus_on (heap w i) in (alive, modify i (\<lambda>_. ob) w))"

definition updateExcitedTarget_on :: "obj \<Rightarrow> bool \<times> obj" where
  "updateExcitedTarget_on e =
     (let l = jsub (life e) (decay e);
          ph = vibPhase e + 0.12;
          vibration = sin ph;
          cs1 = via (core e) (set_scale (1 + vibration * 0.03 * excitationLevel e))
                  (children e);
          cs2 = map (\<lambda>k. case c_oscillateSpeed k of
                      None \<Rightarrow> k
                    | Some sp \<Rightarrow>
                        (if sp \<noteq> 0
                         then (set_scale (1 + sin (c_oscillatePhase k + sp) * 0.05) k)
                                \<lparr>c_oscillatePhase := c_oscillatePhase k + sp\<rparr>
                         else k))
                  cs1
      in (jpos l, e\<lparr>life := l, vibPhase := ph, children := cs2\<rparr>))"

definition updateExcitedTarget :: "nat \<Rightarrow> world \<Rightarrow> bool \<times> world" where
  "updateExcitedTarget i w =
     (let (alive, ob) = updateExcitedTarget_on (heap w i) in (alive, modify i (\<lambda>_. ob) w))"

section \<open>Animations\<close>

datatype phase = Approach | Breakup | Compound | Decay | Absorption | Escape | Complete

text \<open>
  The animation object. An elastic animation has no \<open>gammaRays\<close> and no \<open>energyWaves\<close>
  array (\<open>None\<close>); its resonance counters, which its update never reads, are 0.
\<close>

record animation =
  atype :: string
  projectile :: "nat option"
  target :: "nat option"
  phase :: phase
  time :: real
  impactParam :: real
  fragments :: "nat list"
  trails :: "nat list"
  effects :: "nat list"
  absorbedFragment :: "nat option"
  escapingFragment :: "nat option"
  compoundNucleus :: "nat option"
  excitedTarget :: "nat option"
  gammaRays :: "nat list option"
  energyWaves :: "nat list option"
  resonanceTime :: real
  maxResonanceTime :: real

definition placeProjectile :: "nat \<Rightarrow> nat \<Rightarrow> real \<Rightarrow> world \<Rightarrow> world" where
  "placeProjectile p t ip w =
     (let startX = vx (position (heap w t)) - 12;
          w1 = modify p (\<lambda>ob. ob\<lparr>position := Vec3 startX ip 0\<rparr>) w
      in modify p (\<lambda>ob. ob\<lparr>velocity := Some (Vec3 0.2 0 0)\<rparr>) w1)"

definition createElasticBreakup :: "nat \<Rightarrow> nat \<Rightarrow> real \<Rightarrow> world \<Rightarrow> animation \<times> world" where
  "createElasticBreakup p t ip w =
     (\<lparr> atype = ''elastic'', projectile = Some p, target = Some t, phase = Approach,
         time = 0, impactParam = ip, fragments = [], trails = [], effects = [],
         absorbedFragment = None, escapingFragment = None, compoundNucleus = None,
         excitedTarget = None, gammaRays = None, energyWaves = None,
         resonanceTime = 0, maxResonanceTime = 0 \<rparr>,
      placeProjectile p t ip w)"

definition createNonelasticBreakup :: "nat \<Rightarrow> nat \<Rightarrow> real \<Rightarrow> world \<Rightarrow> animation \<times> world" where
  "createNonelasticBreakup p t ip w =
     (\<lparr> atype = ''nonelastic'', projectile = Some p, target = Some t, phase = Approach,
         time = 0, impactParam = ip, fragments = [], trails = [], effects = [],
         absorbedFragment = None, escapingFragment = None, compoundNucleus = None,
         excitedTarget = None, gammaRays = Some [], energyWaves = Some [],
         resonanceTime = 0, maxResonanceTime = 80 \<rparr>,
      placeProjectile p t ip w)"

definition createInelasticBreakup :: "nat \<Rightarrow> nat \<Rightarrow> real \<Rightarrow> world \<Rightarrow> animation \<times> world" where
  "createInelasticBreakup p t ip w =
     (\<lparr> atype = ''inelastic'', projectile = Some p, target = Some t, phase = Approach,
         time = 0, impactParam = ip, fragments = [], trails = [], effects = [],
         absorbedFragment = None, escapingFragment = None, compoundNucleus = None,
         excitedTarget = None, gammaRays = Some [], energyWaves = Some [],
         resonanceTime = 0, maxResonanceTime = 0 \<rparr>,
      placeProjectile p t ip w)"

subsection \<open>Motion shared by the phases\<close>

text \<open>
  The approach of the three kinds is the same code up to the force constant \<open>k\<close>
  (0.003, 0.002, 0.0025): the projectile moves by its velocity times the speed, and
  within distance 6 of the target its velocity gains the repulsion
  \<open>k / d\<^sup>2 * speed\<close> along the direction from the target. The distance is returned.
  A missing projectile, velocity or target throws. The arithmetic is that of the reals:
  the step always moves the projectile, where the doubles of the code absorb a step of
  0.2 at positions beyond about 2.3e15; and at distance 0 the repulsion is 0 here, not
  the code's infinity.
\<close>

definition approachMove :: "real \<Rightarrow> real \<Rightarrow> animation \<Rightarrow> world \<Rightarrow> real outcome \<times> world" where
  "approachMove k speed a w =
     (case projectile a of
        None \<Rightarrow> (Threw, w)
      | Some p \<Rightarrow>
          (case velocity (heap w p) of
             None \<Rightarrow> (Threw, w)
           | Some v \<Rightarrow>
               (let w1 = modify p (\<lambda>ob. ob\<lparr>position :=
                            add3 (position ob) (multiplyScalar v speed)\<rparr>) w
                in case target a of
                     None \<Rightarrow> (Threw, w1)
                   | Some t \<Rightarrow>
                       (let pp = position (heap w1 p);
                            tp = position (heap w1 t);
                            d = distanceTo pp tp;
                            force = multiplyScalar (normalize (subVectors pp tp))
                                      (k / (d * d) * speed)
                        in (Returned d,
                            if d < 6
                            then modify p (\<lambda>ob. ob\<lparr>velocity := Some (add3 v force)\<rparr>) w1
                            else w1)))))"

text \<open>
  One fragment in flight: beyond distance 0.5 of the target its velocity gains the
  Coulomb term \<open>0.001 * charge / d\<^sup>2 * speed\<close>, then it moves by its velocity times
  the speed.
\<close>

definition fragmentStep :: "real \<Rightarrow> nat option \<Rightarrow> nat \<Rightarrow> world \<Rightarrow> unit outcome \<times> world" where
  "fragmentStep speed tgt f w =
     (case tgt of
        None \<Rightarrow> (Threw, w)
      | Some t \<Rightarrow>
          (case velocity (heap w f) of
             None \<Rightarrow> (Threw, w)
           | Some v \<Rightarrow>
               (let fp = position (heap w f);
                    tp = position (heap w t);
                    d = distanceTo fp tp;
                    v' = (if 0.5 < d
                          then add3 v (multiplyScalar (normalize (subVectors fp tp))
                                 (0.001 * charge (heap w f) / (d * d) * speed))
                          else v)
                in (Returned (),
                    modify f (\<lambda>ob. ob\<lparr>velocity := Some v',
                                       position := add3 fp (multiplyScalar v' speed)\<rparr>) w))))"

text \<open>A fragment that only drifts: \<open>position.add(velocity.clone().multiplyScalar(speed))\<close>.\<close>

definition drift :: "real \<Rightarrow> nat \<Rightarrow> world \<Rightarrow> unit outcome \<times> world" where
  "drift speed f w =
     (case velocity (heap w f) of
        None \<Rightarrow> (Threw, w)
      | Some v \<Rightarrow>
          (Returned (),
           modify f (\<lambda>ob. ob\<lparr>position := add3 (position ob) (multiplyScalar v speed)\<rparr>) w))"

text \<open>\<open>if (animation.trails[index]) updateTrail(animation.trails[index])\<close>\<close>

definition trailAt :: "nat list \<Rightarrow> nat \<Rightarrow> world \<Rightarrow> unit outcome \<times> world" where
  "trailAt trs i w = (if i < length trs then updateTrail (trs ! i) w else (Returned (), w))"

fun forEachFragment ::
  "(nat \<Rightarrow> world \<Rightarrow> unit outcome \<times> world) \<Rightarrow> nat list \<Rightarrow> nat \<Rightarrow> nat list \<Rightarrow> world
     \<Rightarrow> unit outcome \<times> world" where
  "forEachFragment step trs i [] w = (Returned (), w)"
| "forEachFragment step trs i (f # fs) w =
     (case step f w of
        (Threw, w1) \<Rightarrow> (Threw, w1)
      | (Returned _, w1) \<Rightarrow>
          (case trailAt trs i w1 of
             (Threw, w2) \<Rightarrow> (Threw, w2)
           | (Returned _, w2) \<Rightarrow> forEachFragment step trs (Suc i) fs w2))"

text \<open>\<open>fragments.every(f => f.position.distanceTo(target.position) > 15)\<close>\<close>

definition allBeyond :: "nat option \<Rightarrow> nat list \<Rightarrow> world \<Rightarrow> bool outcome" where
  "allBeyond tgt fs w =
     (case tgt of
        None \<Rightarrow> (if fs = [] then Returned True else Threw)
      | Some t \<Rightarrow>
          Returned (list_all (\<lambda>f. 15 < distanceTo (position (heap w f)) (position (heap w t)))
                      fs))"

text \<open>
  The \<open>filter\<close> loops over gamma rays and energy waves: each element is updated, a dead
  one is removed from the scene and dropped from the result.
\<close>

fun filterGammas :: "nat list \<Rightarrow> world \<Rightarrow> nat list outcome \<times> world" where
  "filterGammas [] w = (Returned [], w)"
| "filterGammas (g # gs) w =
     (case updateGammaRay g w of
        (Threw, w1) \<Rightarrow> (Threw, w1)
      | (Returned alive, w1) \<Rightarrow>
          (case filterGammas gs (if alive then w1 else scene_remove g w1) of
             (Threw, w2) \<Rightarrow> (Threw, w2)
           | (Returned kept, w2) \<Rightarrow> (Returned (if alive then g # kept else kept), w2)))"

fun filterWaves :: "nat list \<Rightarrow> world \<Rightarrow> nat list \<times> world" where
  "filterWaves [] w = ([], w)"
| "filterWaves (e # es) w =
     (let (alive, w1) = updateEnergyWave e w;
          (kept, w2) = filterWaves es (if alive then w1 else scene_remove e w1)
      in (if alive then e # kept else kept, w2))"

definition updateGammas :: "animation \<Rightarrow> world \<Rightarrow> unit outcome \<times> animation \<times> world" where
  "updateGammas a w =
     (case gammaRays a of
        None \<Rightarrow> (Threw, a, w)
      | Some gs \<Rightarrow>
          (case filterGammas gs w of
             (Threw, w1) \<Rightarrow> (Threw, a, w1)
           | (Returned kept, w1) \<Rightarrow> (Returned (), a\<lparr>gammaRays := Some kept\<rparr>, w1)))"

definition updateWaves :: "animation \<Rightarrow> world \<Rightarrow> unit outcome \<times> animation \<times> world" where
  "updateWaves a w =
     (case energyWaves a of
        None \<Rightarrow> (Threw, a, w)
      | Some es \<Rightarrow>
          (let (kept, w1) = filterWaves es w
           in (Returned (), a\<lparr>energyWaves := Some kept\<rparr>, w1)))"

subsection \<open>Breakup of the projectile\<close>

text \<open>
  The dispatch on the projectile's \<open>userData.type\<close>: the two factory calls and the two
  initial velocities, in the order of the \<open>switch\<close>.
\<close>

definition elasticDispatch ::
  "string \<Rightarrow> (vec3 \<Rightarrow> world \<Rightarrow> nat \<times> world) \<times> (vec3 \<Rightarrow> world \<Rightarrow> nat \<times> world) \<times> vec3 \<times> vec3" where
  "elasticDispatch ty =
     (if ty = ''deuteron''
        then (createProton, createNeutron, Vec3 0.08 0.06 0.02, Vec3 0.08 (- 0.04) (- 0.02))
      else if ty = ''li6''
        then (createAlpha, createDeuteron, Vec3 0.06 0.05 0.01, Vec3 0.1 (- 0.03) (- 0.01))
      else if ty = ''li7''
        then (createAlpha, createProton, Vec3 0.06 0.04 0, Vec3 0.1 (- 0.05) 0)
      else (createProton, createNeutron, Vec3 0.08 0.05 0, Vec3 0.08 (- 0.05) 0))"

text \<open>
  The part common to \<open>initiateElasticBreakup\<close> and \<open>initiateInelasticBreakup\<close>: the
  projectile leaves the scene, the two fragments are made at its position, given their
  velocities, offset by \<open>(0, off, 0)\<close> and \<open>(0, -off, 0)\<close>, added to the scene and pushed
  onto \<open>fragments\<close>, and each gets a trail, added to the scene and pushed onto \<open>trails\<close>.
\<close>

definition splitProjectile ::
  "nat \<Rightarrow> ((vec3 \<Rightarrow> world \<Rightarrow> nat \<times> world) \<times> (vec3 \<Rightarrow> world \<Rightarrow> nat \<times> world) \<times> vec3 \<times> vec3)
     \<Rightarrow> real \<Rightarrow> animation \<Rightarrow> world \<Rightarrow> animation \<times> world" where
  "splitProjectile p table off a w =
     (let w1 = scene_remove p w;
          (mk1, mk2, v1, v2) = table;
          (f1, w2) = mk1 (position (heap w1 p)) w1;
          (f2, w3) = mk2 (position (heap w2 p)) w2;
          w4 = modify f1 (\<lambda>ob. ob\<lparr>velocity := Some v1\<rparr>) w3;
          w5 = modify f2 (\<lambda>ob. ob\<lparr>velocity := Some v2\<rparr>) w4;
          w6 = modify f1 (\<lambda>ob. ob\<lparr>position := add3 (position ob) (Vec3 0 off 0)\<rparr>) w5;
          w7 = modify f2 (\<lambda>ob. ob\<lparr>position := add3 (position ob) (Vec3 0 (- off) 0)\<rparr>) w6;
          w8 = scene_add f2 (scene_add f1 w7);
          a1 = a\<lparr>fragments := fragments a @ [f1, f2]\<rparr>;
          (t1, w9) = createTrail f1 w8;
          (t2, w10) = createTrail f2 w9;
          w11 = scene_add t2 (scene_add t1 w10)
      in (a1\<lparr>trails := trails a1 @ [t1, t2]\<rparr>, w11))"

text \<open>The breakup flash: an explosion at the projectile's position, pushed onto \<open>effects\<close>.\<close>

definition breakupFlash :: "nat \<Rightarrow> animation \<Rightarrow> world \<Rightarrow> animation \<times> world" where
  "breakupFlash p a w =
     (let (fl, w1) = createExplosion (position (heap w p)) w
      in (a\<lparr>effects := effects a @ fl\<rparr>, scene_add_all fl w1))"

definition initiateElasticBreakup :: "animation \<Rightarrow> world \<Rightarrow> unit outcome \<times> animation \<times> world" where
  "initiateElasticBreakup a w =
     (case projectile a of
        None \<Rightarrow> (Threw, a, w)
      | Some p \<Rightarrow>
          (let (a1, w1) = splitProjectile p (elasticDispatch (utype (heap w p))) 0.3 a w;
               (a2, w2) = breakupFlash p a1 w1
           in (Returned (), a2, w2)))"

definition inelasticDispatch ::
  "string \<Rightarrow> (vec3 \<Rightarrow> world \<Rightarrow> nat \<times> world) \<times> (vec3 \<Rightarrow> world \<Rightarrow> nat \<times> world) \<times> vec3 \<times> vec3" where
  "inelasticDispatch ty =
     (if ty = ''deuteron''
        then (createProton, createNeutron, Vec3 0.1 0.04 0.01, Vec3 0.08 (- 0.03) (- 0.01))
      else (createProton, createNeutron, Vec3 0.1 0.04 0, Vec3 0.08 (- 0.04) 0))"

definition pushWave :: "nat \<Rightarrow> animation \<Rightarrow> world \<Rightarrow> unit outcome \<times> animation \<times> world" where
  "pushWave e a w =
     (case energyWaves a of
        None \<Rightarrow> (Threw, a, w)
      | Some es \<Rightarrow> (Returned (), a\<lparr>energyWaves := Some (es @ [e])\<rparr>, w))"

text \<open>
  \<open>gammas.forEach(gamma => { scene.add(gamma); animation.gammaRays.push(gamma) })\<close>: the
  push throws on an animation without a \<open>gammaRays\<close> array, after the \<open>add\<close>.
\<close>

fun pushGammas :: "nat list \<Rightarrow> animation \<Rightarrow> world \<Rightarrow> unit outcome \<times> animation \<times> world" where
  "pushGammas [] a w = (Returned (), a, w)"
| "pushGammas (g # gs) a w =
     (case gammaRays a of
        None \<Rightarrow> (Threw, a, scene_add g w)
      | Some old \<Rightarrow> pushGammas gs (a\<lparr>gammaRays := Some (old @ [g])\<rparr>) (scene_add g w))"

definition initiateInelasticBreakup :: "animation \<Rightarrow> world \<Rightarrow> unit outcome \<times> animation \<times> world" where
  "initiateInelasticBreakup a w =
     (case projectile a of
        None \<Rightarrow> (Threw, a, w)
      | Some p \<Rightarrow>
          (let (a1, w1) = splitProjectile p (inelasticDispatch (utype (heap w p))) 0.2 a w
           in case target a1 of
                None \<Rightarrow> (Threw, a1, w1)
              | Some t \<Rightarrow>
                  (let w2 = modify t (\<lambda>ob. ob\<lparr>visible := False\<rparr>) w1;
                       (ex, w3) = createExcitedTarget (position (heap w2 t)) 1.5 w2;
                       w4 = scene_add ex w3;
                       a2 = a1\<lparr>excitedTarget := Some ex\<rparr>;
                       (wave, w5) = createEnergyWave (position (heap w4 t)) 5 w4;
                       w6 = scene_add wave w5
                   in case pushWave wave a2 w6 of
                        (Threw, a3, w7) \<Rightarrow> (Threw, a3, w7)
                      | (Returned _, a3, w7) \<Rightarrow>
                          (let (a4, w8) = breakupFlash p a3 w7 in (Returned (), a4, w8)))))"

definition emitTargetGammas :: "animation \<Rightarrow> world \<Rightarrow> unit outcome \<times> animation \<times> world" where
  "emitTargetGammas a w =
     (case target a of
        None \<Rightarrow> (Threw, a, w)
      | Some t \<Rightarrow>
          (let origin = position (heap w t);
               w1 = modify t (\<lambda>ob. ob\<lparr>visible := True\<rparr>) w;
               (gammas, w2) = createGammaRays origin 2 w1
           in case pushGammas gammas a w2 of
                (Threw, a1, w3) \<Rightarrow> (Threw, a1, w3)
              | (Returned _, a1, w3) \<Rightarrow>
                  (let (wave, w4) = createEnergyWave origin 6 w3
                   in pushWave wave a1 (scene_add wave w4))))"

text \<open>
  The nonelastic dispatch: the factory calls of the escaping and of the absorbed
  fragment, and the escaping fragment's velocity.
\<close>

definition nonelasticDispatch ::
  "string \<Rightarrow> (vec3 \<Rightarrow> world \<Rightarrow> nat \<times> world) \<times> (vec3 \<Rightarrow> world \<Rightarrow> nat \<times> world) \<times> vec3" where
  "nonelasticDispatch ty =
     (if ty = ''deuteron'' then (createNeutron, createProton, Vec3 0.1 0.08 0.02)
      else if ty = ''li6'' then (createAlpha, createDeuteron, Vec3 0.08 0.06 0)
      else if ty = ''li7'' then (createAlpha, createProton, Vec3 0.08 0.05 0)
      else (createNeutron, createProton, Vec3 0.1 0.06 0))"

definition initiateNonelasticBreakup :: "animation \<Rightarrow> world \<Rightarrow> unit outcome \<times> animation \<times> world" where
  "initiateNonelasticBreakup a w =
     (case projectile a of
        None \<Rightarrow> (Threw, a, w)
      | Some p \<Rightarrow>
          (let w1 = scene_remove p w;
               (mkE, mkA, vE) = nonelasticDispatch (utype (heap w1 p));
               (esc, w2) = mkE (position (heap w1 p)) w1;
               (ab, w3) = mkA (position (heap w2 p)) w2;
               w4 = modify esc (\<lambda>ob. ob\<lparr>velocity := Some vE\<rparr>) w3;
               w5 = modify esc (\<lambda>ob. ob\<lparr>position := add3 (position ob) (Vec3 0 0.5 0)\<rparr>) w4;
               w6 = modify ab (\<lambda>ob. ob\<lparr>position := add3 (position ob) (Vec3 0 (- 0.3) 0)\<rparr>) w5;
               w7 = scene_add ab (scene_add esc w6);
               a1 = a\<lparr>escapingFragment := Some esc, absorbedFragment := Some ab,
                      fragments := fragments a @ [esc, ab]\<rparr>;
               (tr, w8) = createTrail esc w7;
               w9 = scene_add tr w8;
               a2 = a1\<lparr>trails := trails a1 @ [tr]\<rparr>;
               (a3, w10) = breakupFlash p a2 w9
           in (Returned (), a3, w10)))"

subsection \<open>Compound nucleus, gamma cascade and decay\<close>

definition createCompoundNucleusEffect ::
  "animation \<Rightarrow> nat \<Rightarrow> world \<Rightarrow> unit outcome \<times> animation \<times> world" where
  "createCompoundNucleusEffect a absorbed w =
     (let w1 = scene_remove absorbed w
      in case target a of
           None \<Rightarrow> (Threw, a, w1)
         | Some t \<Rightarrow>
             (let w2 = modify t (\<lambda>ob. ob\<lparr>visible := False\<rparr>) w1;
                  (compound, w3) = createCompoundNucleus (position (heap w2 t)) w2;
                  w4 = scene_add compound w3;
                  a1 = a\<lparr>compoundNucleus := Some compound\<rparr>;
                  (wave, w5) = createEnergyWave (position (heap w4 t)) 6 w4;
                  w6 = scene_add wave w5
              in case pushWave wave a1 w6 of
                   (Threw, a2, w7) \<Rightarrow> (Threw, a2, w7)
                 | (Returned _, a2, w7) \<Rightarrow>
                     (let (fl, w8) = createAbsorptionFlash (position (heap w7 t)) w7
                      in (Returned (), a2\<lparr>effects := effects a2 @ [fl]\<rparr>, scene_add fl w8))))"

text \<open>
  \<open>3 + Math.floor(Math.random() * 3)\<close>, on the real product: the code floors the rounded
  product of doubles, which for a draw just below \<open>1/3\<close> or \<open>2/3\<close> can give one ray more.
\<close>

definition gammaCount :: "real \<Rightarrow> nat" where
  "gammaCount r = 3 + nat \<lfloor>r * 3\<rfloor>"

definition emitGammaRays :: "animation \<Rightarrow> world \<Rightarrow> unit outcome \<times> animation \<times> world" where
  "emitGammaRays a w =
     (case target a of
        None \<Rightarrow> (Threw, a, w)
      | Some t \<Rightarrow>
          (let origin = position (heap w t);
               (r, w1) = random w;
               (gammas, w2) = createGammaRays origin (gammaCount r) w1
           in pushGammas gammas a w2))"

definition initiateDecayPhase :: "animation \<Rightarrow> world \<Rightarrow> unit outcome \<times> animation \<times> world" where
  "initiateDecayPhase a w =
     (let (a1, w1) = (case compoundNucleus a of
                        None \<Rightarrow> (a, w)
                      | Some c \<Rightarrow> (a\<lparr>compoundNucleus := None\<rparr>, scene_remove c w))
      in case target a1 of
           None \<Rightarrow> (Threw, a1, w1)
         | Some t \<Rightarrow>
             (let w2 = modify t (\<lambda>ob. ob\<lparr>visible := True\<rparr>) w1;
                  (finalWave, w3) = createEnergyWave (position (heap w2 t)) 8 w2;
                  w4 = scene_add finalWave w3
              in case pushWave finalWave a1 w4 of
                   (Threw, a2, w5) \<Rightarrow> (Threw, a2, w5)
                 | (Returned _, a2, w5) \<Rightarrow>
                     (let (gammas, w6) = createGammaRays (position (heap w5 t)) 2 w5
                      in pushGammas gammas a2 w6)))"

subsection \<open>Effects\<close>

text \<open>
  \<open>updateEffects\<close>: an effect with a \<open>ring\<close> is an absorption flash; one with a velocity
  and a \<open>decay\<close> is an explosion particle, advanced in place; anything else is dropped
  from the collection without being removed from the scene. Elements of the collection
  are objects, so the test \<open>!effect || !effect.userData\<close> never holds.
\<close>

definition updateEffect :: "nat \<Rightarrow> world \<Rightarrow> bool \<times> world" where
  "updateEffect e w =
     (if ring (heap w e) \<noteq> None
      then (let (alive, w1) = updateAbsorptionFlash e w
            in (alive, if alive then w1 else scene_remove e w1))
      else (case velocity (heap w e) of
              None \<Rightarrow> (False, w)
            | Some v \<Rightarrow>
                (if decay (heap w e) = None then (False, w)
                 else (let w1 = modify e (\<lambda>ob. ob\<lparr>position := add3 (position ob) v,
                                  velocity := Some (multiplyScalar v 0.95),
                                  life := jsub (life ob) (decay ob)\<rparr>) w;
                           w2 = (if material (heap w1 e)
                                 then modify e (\<lambda>ob. ob\<lparr>opacity := jmax0 (life ob)\<rparr>) w1
                                 else w1)
                       in if jnonpos (life (heap w2 e)) then (False, scene_remove e w2)
                          else (True, w2)))))"

fun filterEffects :: "nat list \<Rightarrow> world \<Rightarrow> nat list \<times> world" where
  "filterEffects [] w = ([], w)"
| "filterEffects (e # es) w =
     (let (alive, w1) = updateEffect e w;
          (kept, w2) = filterEffects es w1
      in (if alive then e # kept else kept, w2))"

definition updateEffects :: "animation \<Rightarrow> world \<Rightarrow> animation \<times> world" where
  "updateEffects a w = (let (kept, w1) = filterEffects (effects a) w in (a\<lparr>effects := kept\<rparr>, w1))"

section \<open>The three update functions\<close>

text \<open>
  Each takes the animator's speed, the animation, the frame's \<open>delta\<close> and the world, and
  gives what the call returns (or that it threw), with the animation and the world as
  they are at that moment. \<open>phase\<close> is read once, before the \<open>switch\<close>.
\<close>

definition updateElasticBreakup ::
  "real \<Rightarrow> animation \<Rightarrow> real \<Rightarrow> world \<Rightarrow> bool outcome \<times> animation \<times> world" where
  "updateElasticBreakup speed a0 delta w =
     (let a = a0\<lparr>time := time a0 + delta * speed\<rparr>
      in case phase a0 of
           Approach \<Rightarrow>
             (case approachMove 0.003 speed a w of
                (Threw, w1) \<Rightarrow> (Threw, a, w1)
              | (Returned d, w1) \<Rightarrow>
                  (if d < 3.5
                   then (case initiateElasticBreakup (a\<lparr>phase := Breakup\<rparr>) w1 of
                           (Threw, a2, w2) \<Rightarrow> (Threw, a2, w2)
                         | (Returned _, a2, w2) \<Rightarrow> (Returned False, a2, w2))
                   else (Returned False, a, w1)))
         | Breakup \<Rightarrow>
             (case forEachFragment (fragmentStep speed (target a)) (trails a) 0
                     (fragments a) w of
                (Threw, w1) \<Rightarrow> (Threw, a, w1)
              | (Returned _, w1) \<Rightarrow>
                  (case allBeyond (target a) (fragments a) w1 of
                     Threw \<Rightarrow> (Threw, a, w1)
                   | Returned allEscaped \<Rightarrow>
                       (Returned False,
                        if allEscaped then a\<lparr>phase := Complete\<rparr> else a, w1)))
         | Complete \<Rightarrow> (Returned True, a, w)
         | _ \<Rightarrow> (Returned False, a, w))"

text \<open>The escaping fragment in the nonelastic \<open>breakup\<close> phase, with its trail.\<close>

definition escapingStep :: "real \<Rightarrow> animation \<Rightarrow> world \<Rightarrow> unit outcome \<times> world" where
  "escapingStep speed a w =
     (case escapingFragment a of
        None \<Rightarrow> (Returned (), w)
      | Some f \<Rightarrow>
          (case fragmentStep speed (target a) f w of
             (Threw, w1) \<Rightarrow> (Threw, w1)
           | (Returned _, w1) \<Rightarrow> trailAt (trails a) 0 w1))"

text \<open>The absorbed fragment: steered to the target at 0.08 per tick until within 2.2.\<close>

definition absorbedStep :: "real \<Rightarrow> animation \<Rightarrow> world \<Rightarrow> unit outcome \<times> animation \<times> world" where
  "absorbedStep speed a w =
     (case absorbedFragment a of
        None \<Rightarrow> (Returned (), a, w)
      | Some ab \<Rightarrow>
          (case target a of
             None \<Rightarrow> (Threw, a, w)
           | Some t \<Rightarrow>
               (let ap = position (heap w ab);
                    tp = position (heap w t)
                in if 2.2 < distanceTo ap tp
                   then (Returned (), a,
                         modify ab (\<lambda>ob. ob\<lparr>position := add3 ap
                            (multiplyScalar (normalize (subVectors tp ap)) (0.08 * speed))\<rparr>) w)
                   else createCompoundNucleusEffect (a\<lparr>phase := Compound\<rparr>) ab w)))"

text \<open>The escaping fragment during the resonance: it drifts, and its trail follows.\<close>

definition escapingDrift :: "real \<Rightarrow> animation \<Rightarrow> world \<Rightarrow> unit outcome \<times> world" where
  "escapingDrift speed a w =
     (case escapingFragment a of
        None \<Rightarrow> (Returned (), w)
      | Some f \<Rightarrow>
          (case drift speed f w of
             (Threw, w1) \<Rightarrow> (Threw, w1)
           | (Returned _, w1) \<Rightarrow> trailAt (trails a) 0 w1))"

text \<open>
  The escaping fragment in \<open>decay\<close> and in \<open>absorption\<close>: it drifts, its trail follows,
  and beyond distance 15 of the target the animation is complete.
\<close>

definition escapingFlight :: "real \<Rightarrow> animation \<Rightarrow> world \<Rightarrow> unit outcome \<times> animation \<times> world" where
  "escapingFlight speed a w =
     (case escapingFragment a of
        None \<Rightarrow> (Returned (), a, w)
      | Some f \<Rightarrow>
          (case drift speed f w of
             (Threw, w1) \<Rightarrow> (Threw, a, w1)
           | (Returned _, w1) \<Rightarrow>
               (case trailAt (trails a) 0 w1 of
                  (Threw, w2) \<Rightarrow> (Threw, a, w2)
                | (Returned _, w2) \<Rightarrow>
                    (case target a of
                       None \<Rightarrow> (Threw, a, w2)
                     | Some t \<Rightarrow>
                         (Returned (),
                          if 15 < distanceTo (position (heap w2 f)) (position (heap w2 t))
                          then a\<lparr>phase := Complete\<rparr> else a,
                          w2)))))"

text \<open>The pulsating compound nucleus: advanced, and removed when its life is over.\<close>

definition nucleusStep :: "animation \<Rightarrow> world \<Rightarrow> animation \<times> world" where
  "nucleusStep a w =
     (case compoundNucleus a of
        None \<Rightarrow> (a, w)
      | Some c \<Rightarrow>
          (let (alive, w1) = updateCompoundNucleus c w
           in if alive then (a, w1)
              else (a\<lparr>compoundNucleus := None\<rparr>, scene_remove c w1)))"

text \<open>
  \<open>if (resonanceTime > maxResonanceTime * 0.6 && gammaRays.length === 0) emitGammaRays\<close>
\<close>

definition cascadeStep :: "animation \<Rightarrow> world \<Rightarrow> unit outcome \<times> animation \<times> world" where
  "cascadeStep a w =
     (if maxResonanceTime a * 0.6 < resonanceTime a
      then (case gammaRays a of
              None \<Rightarrow> (Threw, a, w)
            | Some gs \<Rightarrow> (if gs = [] then emitGammaRays a w else (Returned (), a, w)))
      else (Returned (), a, w))"

definition compoundPhase :: "real \<Rightarrow> animation \<Rightarrow> world \<Rightarrow> unit outcome \<times> animation \<times> world" where
  "compoundPhase speed a w =
     (let (a2, w1) = nucleusStep (a\<lparr>resonanceTime := resonanceTime a + speed\<rparr>) w
      in case escapingDrift speed a2 w1 of
           (Threw, w2) \<Rightarrow> (Threw, a2, w2)
         | (Returned _, w2) \<Rightarrow>
             (case cascadeStep a2 w2 of
                (Threw, a3, w3) \<Rightarrow> (Threw, a3, w3)
              | (Returned _, a3, w3) \<Rightarrow>
                  (case updateGammas a3 w3 of
                     (Threw, a4, w4) \<Rightarrow> (Threw, a4, w4)
                   | (Returned _, a4, w4) \<Rightarrow>
                       (if maxResonanceTime a4 < resonanceTime a4
                        then initiateDecayPhase (a4\<lparr>phase := Decay\<rparr>) w4
                        else (Returned (), a4, w4)))))"

definition decayPhase :: "real \<Rightarrow> animation \<Rightarrow> world \<Rightarrow> unit outcome \<times> animation \<times> world" where
  "decayPhase speed a w =
     (case updateWaves a w of
        (Threw, a1, w1) \<Rightarrow> (Threw, a1, w1)
      | (Returned _, a1, w1) \<Rightarrow>
          (case updateGammas a1 w1 of
             (Threw, a2, w2) \<Rightarrow> (Threw, a2, w2)
           | (Returned _, a2, w2) \<Rightarrow>
               (let (a3, w3) = updateEffects a2 w2 in escapingFlight speed a3 w3)))"

definition absorptionPhase :: "real \<Rightarrow> animation \<Rightarrow> world \<Rightarrow> unit outcome \<times> animation \<times> world" where
  "absorptionPhase speed a w = (let (a1, w1) = updateEffects a w in escapingFlight speed a1 w1)"

definition nonelasticSwitch :: "real \<Rightarrow> animation \<Rightarrow> world \<Rightarrow> unit outcome \<times> animation \<times> world" where
  "nonelasticSwitch speed a w =
     (case phase a of
        Approach \<Rightarrow>
          (case approachMove 0.002 speed a w of
             (Threw, w1) \<Rightarrow> (Threw, a, w1)
           | (Returned d, w1) \<Rightarrow>
               (if d < 3 then initiateNonelasticBreakup (a\<lparr>phase := Breakup\<rparr>) w1
                else (Returned (), a, w1)))
      | Breakup \<Rightarrow>
          (case escapingStep speed a w of
             (Threw, w1) \<Rightarrow> (Threw, a, w1)
           | (Returned _, w1) \<Rightarrow> absorbedStep speed a w1)
      | Compound \<Rightarrow> compoundPhase speed a w
      | Decay \<Rightarrow> decayPhase speed a w
      | Absorption \<Rightarrow> absorptionPhase speed a w
      | _ \<Rightarrow> (Returned (), a, w))"

text \<open>
  After the \<open>switch\<close>, in every phase but \<open>complete\<close>, the explosion particles among the
  effects are advanced by \<open>updateExplosion\<close>, which is given a filtered copy of
  \<open>animation.effects\<close> and whose result is dropped.
\<close>

definition updateNonelasticBreakup ::
  "real \<Rightarrow> animation \<Rightarrow> real \<Rightarrow> world \<Rightarrow> bool outcome \<times> animation \<times> world" where
  "updateNonelasticBreakup speed a0 delta w =
     (let a = a0\<lparr>time := time a0 + delta * speed\<rparr>
      in if phase a0 = Complete then (Returned True, a, w)
         else (case nonelasticSwitch speed a w of
                 (Threw, a1, w1) \<Rightarrow> (Threw, a1, w1)
               | (Returned _, a1, w1) \<Rightarrow>
                   (case updateExplosion
                           (filter (\<lambda>e. velocity (heap w1 e) \<noteq> None) (effects a1)) w1 of
                      (Threw, w2) \<Rightarrow> (Threw, a1, w2)
                    | (Returned _, w2) \<Rightarrow> (Returned False, a1, w2))))"

definition excitedStep :: "animation \<Rightarrow> world \<Rightarrow> unit outcome \<times> animation \<times> world" where
  "excitedStep a w =
     (case excitedTarget a of
        None \<Rightarrow> (Returned (), a, w)
      | Some ex \<Rightarrow>
          (let (alive, w1) = updateExcitedTarget ex w
           in if alive then (Returned (), a, w1)
              else emitTargetGammas (a\<lparr>excitedTarget := None\<rparr>) (scene_remove ex w1)))"

definition inelasticApproach :: "real \<Rightarrow> animation \<Rightarrow> world \<Rightarrow> unit outcome \<times> animation \<times> world" where
  "inelasticApproach speed a w =
     (case approachMove 0.0025 speed a w of
        (Threw, w1) \<Rightarrow> (Threw, a, w1)
      | (Returned d, w1) \<Rightarrow>
          (case (if d < 3.5 \<and> excitedTarget a = None then initiateInelasticBreakup a w1
                 else (Returned (), a, w1)) of
             (Threw, a2, w2) \<Rightarrow> (Threw, a2, w2)
           | (Returned _, a2, w2) \<Rightarrow>
               (case projectile a2 of
                  None \<Rightarrow> (Threw, a2, w2)
                | Some p \<Rightarrow>
                    (case target a2 of
                       None \<Rightarrow> (Threw, a2, w2)
                     | Some t \<Rightarrow>
                         (Returned (),
                          if vx (position (heap w2 t)) + 5 < vx (position (heap w2 p))
                          then a2\<lparr>phase := Escape\<rparr> else a2,
                          w2)))))"

definition inelasticEscape :: "real \<Rightarrow> animation \<Rightarrow> world \<Rightarrow> unit outcome \<times> animation \<times> world" where
  "inelasticEscape speed a w =
     (case forEachFragment (drift speed) (trails a) 0 (fragments a) w of
        (Threw, w1) \<Rightarrow> (Threw, a, w1)
      | (Returned _, w1) \<Rightarrow>
          (case excitedStep a w1 of
             (Threw, a2, w2) \<Rightarrow> (Threw, a2, w2)
           | (Returned _, a2, w2) \<Rightarrow>
               (case updateGammas a2 w2 of
                  (Threw, a3, w3) \<Rightarrow> (Threw, a3, w3)
                | (Returned _, a3, w3) \<Rightarrow>
                    (case updateWaves a3 w3 of
                       (Threw, a4, w4) \<Rightarrow> (Threw, a4, w4)
                     | (Returned _, a4, w4) \<Rightarrow>
                         (case allBeyond (target a4) (fragments a4) w4 of
                            Threw \<Rightarrow> (Threw, a4, w4)
                          | Returned allFar \<Rightarrow>
                              (Returned (),
                               if allFar \<and> gammaRays a4 = Some [] \<and> excitedTarget a4 = None
                               then a4\<lparr>phase := Complete\<rparr> else a4,
                               w4))))))"

definition updateInelasticBreakup ::
  "real \<Rightarrow> animation \<Rightarrow> real \<Rightarrow> world \<Rightarrow> bool outcome \<times> animation \<times> world" where
  "updateInelasticBreakup speed a0 delta w =
     (let a = a0\<lparr>time := time a0 + delta * speed\<rparr>
      in case phase a0 of
           Approach \<Rightarrow>
             (case inelasticApproach speed a w of
                (Threw, a1, w1) \<Rightarrow> (Threw, a1, w1)
              | (Returned _, a1, w1) \<Rightarrow> (Returned False, a1, w1))
         | Escape \<Rightarrow>
             (case inelasticEscape speed a w of
                (Threw, a1, w1) \<Rightarrow> (Threw, a1, w1)
              | (Returned _, a1, w1) \<Rightarrow> (Returned False, a1, w1))
         | Complete \<Rightarrow> (Returned True, a, w)
         | _ \<Rightarrow> (Returned False, a, w))"

section \<open>The animator\<close>

record animator =
  isPlaying :: bool
  speed :: real
  currentAnimation :: "animation option"

definition newAnimator :: animator where
  "newAnimator = \<lparr> isPlaying = False, speed = 1, currentAnimation = None \<rparr>"

definition setSpeed :: "real \<Rightarrow> animator \<Rightarrow> animator" where
  "setSpeed s an = an\<lparr>speed := s\<rparr>"

definition dispatch ::
  "animator \<Rightarrow> animation \<Rightarrow> real \<Rightarrow> world \<Rightarrow> bool outcome \<times> animation \<times> world" where
  "dispatch an a delta w =
     (if atype a = ''elastic'' then updateElasticBreakup (speed an) a delta w
      else if atype a = ''nonelastic'' then updateNonelasticBreakup (speed an) a delta w
      else if atype a = ''inelastic'' then updateInelasticBreakup (speed an) a delta w
      else updateNonelasticBreakup (speed an) a delta w)"

text \<open>
  \<open>update\<close>: the result, the animator and the world after the call. The \<open>try\<close> block
  spans the dispatch; the \<open>catch\<close> clause stops playback and returns true, and leaves
  the animation as the throwing call left it.
\<close>

definition update :: "real \<Rightarrow> animator \<Rightarrow> world \<Rightarrow> bool \<times> animator \<times> world" where
  "update delta an w =
     (case currentAnimation an of
        None \<Rightarrow> (False, an, w)
      | Some a \<Rightarrow>
          (if \<not> isPlaying an then (False, an, w)
           else (case dispatch an a delta w of
                   (Threw, a1, w1) \<Rightarrow>
                     (True, an\<lparr>currentAnimation := Some a1, isPlaying := False\<rparr>, w1)
                 | (Returned isComplete, a1, w1) \<Rightarrow>
                     (if isComplete
                      then (True, an\<lparr>currentAnimation := Some a1, isPlaying := False\<rparr>, w1)
                      else (False, an\<lparr>currentAnimation := Some a1\<rparr>, w1)))))"


definition stop :: "animator \<Rightarrow> world \<Rightarrow> animator \<times> world" where
  "stop an w = (an\<lparr>isPlaying := False\<rparr>, w)"

definition removeOpt :: "nat option \<Rightarrow> world \<Rightarrow> world" where
  "removeOpt r w = (case r of None \<Rightarrow> w | Some i \<Rightarrow> scene_remove i w)"

definition removeListOpt :: "nat list option \<Rightarrow> world \<Rightarrow> world" where
  "removeListOpt r w = (case r of None \<Rightarrow> w | Some is \<Rightarrow> scene_remove_all is w)"

definition cleanUp :: "animation \<Rightarrow> world \<Rightarrow> world" where
  "cleanUp a w =
     (let w1 = scene_remove_all (fragments a) w;
          w2 = scene_remove_all (trails a) w1;
          w3 = scene_remove_all (effects a) w2;
          w4 = removeListOpt (gammaRays a) w3;
          w5 = removeListOpt (energyWaves a) w4;
          w6 = removeOpt (compoundNucleus a) w5;
          w7 = removeOpt (excitedTarget a) w6;
          w8 = (case target a of
                  None \<Rightarrow> w7
                | Some t \<Rightarrow> modify t (\<lambda>ob. ob\<lparr>visible := True\<rparr>) w7)
      in removeOpt (projectile a) w8)"

definition reset :: "animator \<Rightarrow> world \<Rightarrow> animator \<times> world" where
  "reset an w =
     (an\<lparr>currentAnimation := None, isPlaying := False\<rparr>,
      case currentAnimation an of None \<Rightarrow> w | Some a \<Rightarrow> cleanUp a w)"

section \<open>Example scenes\<close>

text \<open>
  The comparison scene of the page: a target nucleus at \<open>(3, 0, 0)\<close> and a deuteron at
  \<open>(-8, 1.5, 0)\<close>, both in the render scene; the target is object 0, the deuteron
  object 1. Every random draw of the example is \<open>1/2\<close>.
\<close>

definition emptyWorld :: world where
  "emptyWorld = \<lparr> heap = (\<lambda>_. group zero3), nextId = 0, scene = {},
     randoms = (\<lambda>_. 1 / 2), drawn = 0, trailsEnabled = True \<rparr>"

definition demoWorld :: world where
  "demoWorld =
     (let (t, w1) = createTargetNucleus (Vec3 3 0 0) emptyWorld;
          (p, w2) = createDeuteron (Vec3 (- 8) 1.5 0) (scene_add t w1)
      in scene_add p w2)"

text \<open>An animator whose elastic animation has reached \<open>complete\<close> and is still playing.\<close>

definition finishedAnimator :: animator where
  "finishedAnimator = \<lparr> isPlaying = True, speed = 1,
     currentAnimation = Some ((fst (createElasticBreakup 1 0 3 demoWorld))\<lparr>phase := Complete\<rparr>) \<rparr>"

text \<open>The objects an animation holds a reference to, the target apart.\<close>

definition owned :: "animation \<Rightarrow> nat set" where
  "owned a = set (fragments a) \<union> set (trails a) \<union> set (effects a)
     \<union> (case gammaRays a of None \<Rightarrow> {} | Some gs \<Rightarrow> set gs)
     \<union> (case energyWaves a of None \<Rightarrow> {} | Some es \<Rightarrow> set es)
     \<union> set_option (compoundNucleus a) \<union> set_option (excitedTarget a)
     \<union> set_option (projectile a)"

text \<open>
  The comparison scene right after \<open>createElasticBreakup(projectile, target, 3)\<close> and
  \<open>play\<close>.
\<close>

definition approachingAnimator :: animator where
  "approachingAnimator = \<lparr> isPlaying = True, speed = 1,
     currentAnimation = Some (fst (createElasticBreakup 1 0 3 demoWorld)) \<rparr>"

definition approachingWorld :: world where
  "approachingWorld = snd (createElasticBreakup 1 0 3 demoWorld)"

text \<open>An outcome with the animation's \<open>time\<close> replaced.\<close>

definition retime :: "real \<Rightarrow> 'a \<times> animation \<times> world \<Rightarrow> 'a \<times> animation \<times> world" where
  "retime x = (\<lambda>(r, a, w). (r, a\<lparr>time := x\<rparr>, w))"

definition retime2 :: "real \<Rightarrow> animation \<times> world \<Rightarrow> animation \<times> world" where
  "retime2 x = (\<lambda>(a, w). (a\<lparr>time := x\<rparr>, w))"

text \<open>
  The place of a phase in the ordering of its kind, as the specification lists them:
  elastic \<open>approach, breakup, complete\<close>; inelastic \<open>approach, escape, complete\<close>;
  nonelastic (also the kind of any other \<open>type\<close>) \<open>approach, breakup, compound,
  decay/absorption, complete\<close>. A phase outside the ordering of the kind has place 0.
\<close>

definition phaseOrder :: "string \<Rightarrow> phase \<Rightarrow> nat" where
  "phaseOrder ty ph =
     (if ty = ''elastic''
        then (case ph of Approach \<Rightarrow> 0 | Breakup \<Rightarrow> 1 | Complete \<Rightarrow> 2 | _ \<Rightarrow> 0)
      else if ty = ''inelastic''
        then (case ph of Approach \<Rightarrow> 0 | Escape \<Rightarrow> 1 | Complete \<Rightarrow> 2 | _ \<Rightarrow> 0)
      else (case ph of Approach \<Rightarrow> 0 | Breakup \<Rightarrow> 1 | Compound \<Rightarrow> 2 | Decay \<Rightarrow> 3
              | Absorption \<Rightarrow> 3 | Complete \<Rightarrow> 4 | Escape \<Rightarrow> 0))"

text \<open>
  A sequence of ticks, each with the speed set at that moment and the frame's \<open>delta\<close>:
  the animation before the first tick and after each tick, whether the tick returned
  or threw.
\<close>

fun run :: "(real \<times> real) list \<Rightarrow> animation \<Rightarrow> world \<Rightarrow> animation list" where
  "run [] a w = [a]"
| "run ((s, d) # ticks) a w =
     a # (case dispatch (setSpeed s newAnimator) a d w of (_, a', w') \<Rightarrow> run ticks a' w')"

text \<open>An elastic animation in its \<open>breakup\<close> phase that has no fragment left to follow.\<close>

definition bareBreakup :: animation where
  "bareBreakup = (fst (createElasticBreakup 1 0 3 demoWorld))\<lparr>phase := Breakup\<rparr>"

text \<open>
  The dispatch table of the elastic breakup as the specification gives it: the species
  of the two fragments for each projectile species.
\<close>

definition fragmentSpecies :: "string \<Rightarrow> string \<times> string" where
  "fragmentSpecies ty =
     (if ty = ''deuteron'' then (''proton'', ''neutron'')
      else if ty = ''li6'' then (''alpha'', ''deuteron'')
      else if ty = ''li7'' then (''alpha'', ''proton'')
      else (''proton'', ''neutron''))"

text \<open>
  The comparison scene with the deuteron one step before the breakup distance: at
  \<open>(1, 3, 0)\<close>, moving right at 0.2 per tick.
\<close>

definition nearWorld :: world where
  "nearWorld = modify 1 (\<lambda>ob. ob\<lparr>position := Vec3 1 3 0\<rparr>) approachingWorld"

text \<open>
  A gamma ray as the factory builds it, 40 ticks later: its life is used up. And an
  explosion particle one tick before its end, in a world of its own.
\<close>

definition spentGamma :: obj where
  "spentGamma = (group (Vec3 3 0 0))\<lparr>children := [(mesh 0)\<lparr>c_kids := [(True, Some 0)]\<rparr>],
     utype := ''gamma'', velocity := Some (Vec3 0.8 0 0), life := Some 0,
     decay := Some 0.025, beam := Some 0\<rparr>"

definition spentParticle :: obj where
  "spentParticle = (group (Vec3 3 0 0))\<lparr>material := True, opacity := Some 0,
     velocity := Some (Vec3 0.1 0 0), life := Some 0, decay := Some 0.03\<rparr>"

definition spentWorld :: world where
  "spentWorld = scene_add 2 (snd (alloc spentParticle demoWorld))"

text \<open>
  An absorption flash as the factory builds it (no \<open>decay\<close> in its \<open>userData\<close>), with its
  life used up.
\<close>

definition spentFlash :: obj where
  "spentFlash = (heap (snd (createAbsorptionFlash (Vec3 3 0 0) emptyWorld)) 0)\<lparr>life := Some 0\<rparr>"

text \<open>
  An explosion particle of the breakup flash 33 ticks after its creation with decay 0.03:
  its life is 0.01. It is object 2 of the comparison scene, in the scene and in the
  \<open>effects\<close> of a nonelastic animation in its \<open>compound\<close> phase.
\<close>

definition dyingParticle :: obj where
  "dyingParticle = (group (Vec3 3 0 0))\<lparr>material := True, opacity := Some 0.01,
     velocity := Some (Vec3 0.1 0 0), life := Some 0.01, decay := Some 0.03\<rparr>"

definition dyingWorld :: world where
  "dyingWorld = scene_add 2 (snd (alloc dyingParticle demoWorld))"

definition dyingAnimation :: animation where
  "dyingAnimation = (fst (createNonelasticBreakup 1 0 1.5 demoWorld))\<lparr>phase := Compound,
     effects := [2]\<rparr>"

text \<open>
  \<open>touches X w w'\<close>: from \<open>w\<close> to \<open>w'\<close> nothing was allocated or drawn, only objects of
  \<open>X\<close> were changed, and only objects of \<open>X\<close> left the scene.
\<close>

definition touches :: "nat set \<Rightarrow> world \<Rightarrow> world \<Rightarrow> bool" where
  "touches X w w' \<longleftrightarrow>
     nextId w' = nextId w \<and> drawn w' = drawn w \<and> randoms w' = randoms w \<and>
     trailsEnabled w' = trailsEnabled w \<and>
     scene w' \<subseteq> scene w \<and> scene w - X \<subseteq> scene w' \<and>
     (\<forall>i. i \<notin> X \<longrightarrow> heap w' i = heap w i)"

text \<open>
  \<open>agree X w1 w2\<close>: the two worlds hold the same objects in the same state and have the
  same scene, the objects of \<open>X\<close> apart.
\<close>

definition agree :: "nat set \<Rightarrow> world \<Rightarrow> world \<Rightarrow> bool" where
  "agree X w1 w2 \<longleftrightarrow>
     trailsEnabled w1 = trailsEnabled w2 \<and> scene w1 - X = scene w2 - X \<and>
     (\<forall>i. i \<notin> X \<longrightarrow> heap w1 i = heap w2 i)"

text \<open>
  \<open>apart a w X\<close>: no effect, escaping fragment, target, trail or particle followed by a
  trail of the animation is an object of \<open>X\<close>. It holds of the gamma rays and energy
  waves of any animation the factory has built: they are objects of their own.
\<close>

definition apart :: "animation \<Rightarrow> world \<Rightarrow> nat set \<Rightarrow> bool" where
  "apart a w X \<longleftrightarrow>
     set (effects a) \<inter> X = {} \<and> set_option (escapingFragment a) \<inter> X = {} \<and>
     set_option (target a) \<inter> X = {} \<and> set (trails a) \<inter> X = {} \<and>
     (\<forall>t \<in> set (trails a). set_option (particle (heap w t)) \<inter> X = {})"

text \<open>
  The comparison scene during the de-excitation: the dying explosion particle (object 2)
  among the effects, and the spent gamma ray (object 3) among the gamma rays.
\<close>

definition decayWorld :: world where
  "decayWorld = scene_add 3 (snd (alloc spentGamma dyingWorld))"

definition decayAnimation :: animation where
  "decayAnimation = dyingAnimation\<lparr>gammaRays := Some [3]\<rparr>"

text \<open>
  One tick of an animation at speed \<open>s\<close> with frame time \<open>d\<close>: the animation and the
  world after the per-kind update, whether it returned or threw.
\<close>

definition tick :: "real \<Rightarrow> real \<Rightarrow> animation \<times> world \<Rightarrow> animation \<times> world" where
  "tick s d = (\<lambda>(a, w). snd (dispatch (setSpeed s newAnimator) a d w))"

text \<open>
  A nonelastic animation of the comparison scene in its resonance: the compound nucleus
  has faded, the resonance counter stands at 48 of 80, no gamma ray has been emitted.
\<close>

definition cascadeAnimation :: animation where
  "cascadeAnimation = (fst (createNonelasticBreakup 1 0 1.5 demoWorld))\<lparr>phase := Compound,
     resonanceTime := 48\<rparr>"

text \<open>
  \<open>resonating n gs l r (a, w)\<close>: a nonelastic animation in its \<open>compound\<close> phase with
  nothing left to update but its gamma rays \<open>gs\<close>, all with life \<open>l\<close> and decay 0.025,
  its resonance counter at \<open>r\<close> of 80, in a world whose next object is \<open>n\<close> and whose
  random draws are all 1/2.
\<close>

definition resonating :: "nat \<Rightarrow> nat list \<Rightarrow> real \<Rightarrow> real \<Rightarrow> animation \<times> world \<Rightarrow> bool" where
  "resonating n gs l r = (\<lambda>(a, w).
     atype a = ''nonelastic'' \<and> phase a = Compound \<and> compoundNucleus a = None \<and>
     escapingFragment a = None \<and> effects a = [] \<and> target a \<noteq> None \<and>
     maxResonanceTime a = 80 \<and> resonanceTime a = r \<and> gammaRays a = Some gs \<and>
     distinct gs \<and> nextId w = n \<and> randoms w = (\<lambda>_. 1 / 2) \<and>
     (\<forall>g \<in> set gs. velocity (heap w g) \<noteq> None \<and> life (heap w g) = Some l \<and>
        decay (heap w g) = Some 0.025))"













section \<open>Properties\<close>

subsection \<open>What \<open>update\<close> returns\<close>

lemma elastic_true_iff:
  "fst (updateElasticBreakup s a d w) = Returned True \<longleftrightarrow> phase a = Complete"
  unfolding updateElasticBreakup_def
  by (cases "phase a") (auto simp: Let_def split: prod.splits outcome.splits)

lemma nonelastic_true_iff:
  "fst (updateNonelasticBreakup s a d w) = Returned True \<longleftrightarrow> phase a = Complete"
  unfolding updateNonelasticBreakup_def
  by (auto simp: Let_def split: prod.splits outcome.splits)

lemma inelastic_true_iff:
  "fst (updateInelasticBreakup s a d w) = Returned True \<longleftrightarrow> phase a = Complete"
  unfolding updateInelasticBreakup_def
  by (cases "phase a") (auto simp: Let_def split: prod.splits outcome.splits)

lemma dispatch_true_iff:
  "fst (dispatch an a d w) = Returned True \<longleftrightarrow> phase a = Complete"
  unfolding dispatch_def
  by (simp add: elastic_true_iff nonelastic_true_iff inelastic_true_iff)

text \<open>
  C1. \<open>update\<close> always returns a boolean: its result type has no throwing outcome, so
  nothing raised while the animation advances leaves the call. Without a current
  animation, or when not playing, it returns false and changes nothing. Otherwise it
  returns true exactly when the animation's phase is \<open>complete\<close> at the call or the
  per-kind update threw, and in exactly those cases \<open>isPlaying\<close> is false afterwards.
\<close>

theorem update_result:
  "(currentAnimation an = None \<or> \<not> isPlaying an \<longrightarrow> update delta an w = (False, an, w)) \<and>
   (\<forall>a. currentAnimation an = Some a \<and> isPlaying an \<longrightarrow>
      fst (update delta an w) = (phase a = Complete \<or> fst (dispatch an a delta w) = Threw) \<and>
      isPlaying (fst (snd (update delta an w))) = (\<not> fst (update delta an w)))"
proof (intro conjI allI impI)
  assume "currentAnimation an = None \<or> \<not> isPlaying an"
  then show "update delta an w = (False, an, w)"
    by (auto simp: update_def split: option.splits)
next
  fix a assume h: "currentAnimation an = Some a \<and> isPlaying an"
  obtain r a1 w1 where d: "dispatch an a delta w = (r, a1, w1)"
    by (cases "dispatch an a delta w") auto
  have t: "(r = Returned True) = (phase a = Complete)"
    using dispatch_true_iff[of an a delta w] d by simp
  show "fst (update delta an w) = (phase a = Complete \<or> fst (dispatch an a delta w) = Threw)"
    using h d t by (cases r) (auto simp: update_def)
  show "isPlaying (fst (snd (update delta an w))) = (\<not> fst (update delta an w))"
    using h d t by (cases r) (auto simp: update_def)
qed

theorem update_result_witness:
  "isPlaying finishedAnimator \<and>
   currentAnimation finishedAnimator \<noteq> None \<and>
   fst (update 0.016 finishedAnimator demoWorld) \<and>
   \<not> isPlaying (fst (snd (update 0.016 finishedAnimator demoWorld))) \<and>
   update 0.016 (finishedAnimator\<lparr>isPlaying := False\<rparr>) demoWorld
     = (False, finishedAnimator\<lparr>isPlaying := False\<rparr>, demoWorld)"
  using update_result [of finishedAnimator "0.016" demoWorld]
        update_result [of "finishedAnimator\<lparr>isPlaying := False\<rparr>" "0.016" demoWorld]
  by (simp add: finishedAnimator_def createElasticBreakup_def)

subsection \<open>\<open>stop\<close> and \<open>reset\<close>\<close>

lemma scene_remove_all_scene [simp]: "scene (scene_remove_all is w) = scene w - set is"
  by (induction "is" arbitrary: w) (auto simp: scene_remove_def)

lemma scene_remove_all_heap [simp]: "heap (scene_remove_all is w) = heap w"
  by (induction "is" arbitrary: w) (auto simp: scene_remove_def)

lemma removeOpt_scene [simp]: "scene (removeOpt r w) = scene w - set_option r"
  by (cases r) (auto simp: removeOpt_def scene_remove_def)

lemma removeOpt_heap [simp]: "heap (removeOpt r w) = heap w"
  by (cases r) (auto simp: removeOpt_def scene_remove_def)

lemma removeListOpt_scene [simp]:
  "scene (removeListOpt r w) = scene w - (case r of None \<Rightarrow> {} | Some is \<Rightarrow> set is)"
  by (cases r) (auto simp: removeListOpt_def)

lemma removeListOpt_heap [simp]: "heap (removeListOpt r w) = heap w"
  by (cases r) (auto simp: removeListOpt_def)

lemma modify_scene [simp]: "scene (modify i f w) = scene w"
  by (simp add: modify_def)

lemma modify_heap [simp]: "heap (modify i f w) j = (if j = i then f (heap w i) else heap w j)"
  by (simp add: modify_def)

lemma cleanUp_scene: "scene (cleanUp a w) = scene w - owned a"
  by (cases "target a") (auto simp: cleanUp_def owned_def Let_def)

lemma cleanUp_visible: "target a = Some t \<Longrightarrow> visible (heap (cleanUp a w) t)"
  by (simp add: cleanUp_def Let_def)

lemma approachingWorld_scene: "scene approachingWorld = {0, 1}"
  by (auto simp: approachingWorld_def createElasticBreakup_def placeProjectile_def demoWorld_def
      emptyWorld_def createTargetNucleus_def createDeuteron_def alloc_def scene_add_def Let_def)

text \<open>
  C2 fails for \<open>stop\<close>: in the comparison scene, with the elastic animation playing,
  the projectile (object 1) belongs to the animation and is still in the scene after
  \<open>stop\<close>.
\<close>

theorem stop_keeps_scene:
  "currentAnimation approachingAnimator \<noteq> None \<and>
   1 \<in> owned (fst (createElasticBreakup 1 0 3 demoWorld)) \<and>
   1 \<in> scene (snd (stop approachingAnimator approachingWorld))"
  by (simp add: stop_def approachingWorld_scene approachingAnimator_def owned_def
      createElasticBreakup_def)

text \<open>
  C2 (amended). For an animator with a current animation, in any phase, \<open>reset\<close> stops
  playback, clears the current animation, removes from the scene every fragment, trail,
  effect, gamma ray, energy wave, the compound nucleus, the excited target and the
  projectile the animation refers to, and makes the target visible. \<open>stop\<close> only clears
  \<open>isPlaying\<close>: the scene and the animation stay as they are.
\<close>

theorem reset_cleans:
  "currentAnimation an = Some a \<Longrightarrow>
     \<not> isPlaying (fst (reset an w)) \<and>
     currentAnimation (fst (reset an w)) = None \<and>
     scene (snd (reset an w)) = scene w - owned a \<and>
     (\<forall>t. target a = Some t \<longrightarrow> visible (heap (snd (reset an w)) t)) \<and>
     stop an w = (an\<lparr>isPlaying := False\<rparr>, w)"
  by (simp add: reset_def stop_def cleanUp_scene cleanUp_visible)

theorem reset_cleans_witness:
  "currentAnimation approachingAnimator = Some (fst (createElasticBreakup 1 0 3 demoWorld)) \<and>
   target (fst (createElasticBreakup 1 0 3 demoWorld)) = Some 0 \<and>
   scene (snd (reset approachingAnimator approachingWorld)) = {0} \<and>
   visible (heap (snd (reset approachingAnimator approachingWorld)) 0)"
  using reset_cleans [of approachingAnimator "fst (createElasticBreakup 1 0 3 demoWorld)"
          approachingWorld]
  by (auto simp add: approachingAnimator_def approachingWorld_scene owned_def
      createElasticBreakup_def)

subsection \<open>The frame's \<open>delta\<close> only reaches \<open>time\<close>\<close>

named_theorems time_simps \<open>the \<open>time\<close> update moved out of a call\<close>

lemma time_out [time_simps]:
  "phase_update f1 (time_update h a) = time_update h (phase_update f1 a)"
  "fragments_update f2 (time_update h a) = time_update h (fragments_update f2 a)"
  "trails_update f3 (time_update h a) = time_update h (trails_update f3 a)"
  "effects_update f4 (time_update h a) = time_update h (effects_update f4 a)"
  "absorbedFragment_update f5 (time_update h a) = time_update h (absorbedFragment_update f5 a)"
  "escapingFragment_update f6 (time_update h a) = time_update h (escapingFragment_update f6 a)"
  "compoundNucleus_update f7 (time_update h a) = time_update h (compoundNucleus_update f7 a)"
  "excitedTarget_update f8 (time_update h a) = time_update h (excitedTarget_update f8 a)"
  "gammaRays_update f9 (time_update h a) = time_update h (gammaRays_update f9 a)"
  "energyWaves_update f10 (time_update h a) = time_update h (energyWaves_update f10 a)"
  "resonanceTime_update f11 (time_update h a) = time_update h (resonanceTime_update f11 a)"
  by simp_all

lemma approachMove_time [time_simps]: "approachMove k s (a\<lparr>time := x\<rparr>) w = approachMove k s a w"
  by (simp add: time_simps approachMove_def Let_def split: option.splits)

lemma splitProjectile_time [time_simps]:
  "splitProjectile p tb off (a\<lparr>time := x\<rparr>) w = retime2 x (splitProjectile p tb off a w)"
  by (simp add: time_simps splitProjectile_def retime2_def Let_def split: prod.splits)

lemma breakupFlash_time [time_simps]:
  "breakupFlash p (a\<lparr>time := x\<rparr>) w = retime2 x (breakupFlash p a w)"
  by (simp add: time_simps breakupFlash_def retime2_def Let_def split: prod.splits)

lemma initiateElasticBreakup_time [time_simps]:
  "initiateElasticBreakup (a\<lparr>time := x\<rparr>) w = retime x (initiateElasticBreakup a w)"
  by (auto simp add: time_simps initiateElasticBreakup_def retime_def retime2_def Let_def split: prod.splits option.splits)

lemma pushWave_time [time_simps]: "pushWave e (a\<lparr>time := x\<rparr>) w = retime x (pushWave e a w)"
  by (auto simp add: time_simps pushWave_def retime_def split: option.splits)

lemma pushGammas_time [time_simps]: "pushGammas gs (a\<lparr>time := x\<rparr>) w = retime x (pushGammas gs a w)"
  by (induction gs arbitrary: a w) (auto simp add: time_simps retime_def split: option.splits)

lemma initiateInelasticBreakup_time [time_simps]:
  "initiateInelasticBreakup (a\<lparr>time := x\<rparr>) w = retime x (initiateInelasticBreakup a w)"
  by (auto simp add: time_simps initiateInelasticBreakup_def retime_def retime2_def Let_def
      split: prod.splits option.splits outcome.splits)

lemma emitTargetGammas_time [time_simps]:
  "emitTargetGammas (a\<lparr>time := x\<rparr>) w = retime x (emitTargetGammas a w)"
  by (auto simp add: time_simps emitTargetGammas_def retime_def Let_def
      split: prod.splits option.splits outcome.splits)

lemma initiateNonelasticBreakup_time [time_simps]:
  "initiateNonelasticBreakup (a\<lparr>time := x\<rparr>) w = retime x (initiateNonelasticBreakup a w)"
  by (auto simp add: time_simps initiateNonelasticBreakup_def retime_def retime2_def Let_def
      split: prod.splits option.splits outcome.splits)

lemma createCompoundNucleusEffect_time [time_simps]:
  "createCompoundNucleusEffect (a\<lparr>time := x\<rparr>) ab w = retime x (createCompoundNucleusEffect a ab w)"
  by (auto simp add: time_simps createCompoundNucleusEffect_def retime_def Let_def
      split: prod.splits option.splits outcome.splits)

lemma emitGammaRays_time [time_simps]:
  "emitGammaRays (a\<lparr>time := x\<rparr>) w = retime x (emitGammaRays a w)"
  by (auto simp add: time_simps emitGammaRays_def retime_def Let_def
      split: prod.splits option.splits outcome.splits)

lemma initiateDecayPhase_time [time_simps]:
  "initiateDecayPhase (a\<lparr>time := x\<rparr>) w = retime x (initiateDecayPhase a w)"
  by (auto simp add: time_simps initiateDecayPhase_def retime_def Let_def
      split: prod.splits option.splits outcome.splits)

lemma updateEffects_time [time_simps]:
  "updateEffects (a\<lparr>time := x\<rparr>) w = retime2 x (updateEffects a w)"
  by (auto simp add: time_simps updateEffects_def retime2_def Let_def split: prod.splits)

lemma updateGammas_time [time_simps]:
  "updateGammas (a\<lparr>time := x\<rparr>) w = retime x (updateGammas a w)"
  by (auto simp add: time_simps updateGammas_def retime_def Let_def
      split: prod.splits option.splits outcome.splits)

lemma updateWaves_time [time_simps]:
  "updateWaves (a\<lparr>time := x\<rparr>) w = retime x (updateWaves a w)"
  by (auto simp add: time_simps updateWaves_def retime_def Let_def
      split: prod.splits option.splits outcome.splits)

lemma escapingStep_time [time_simps]: "escapingStep s (a\<lparr>time := x\<rparr>) w = escapingStep s a w"
  by (simp add: time_simps escapingStep_def split: option.splits prod.splits outcome.splits)

lemma escapingDrift_time [time_simps]: "escapingDrift s (a\<lparr>time := x\<rparr>) w = escapingDrift s a w"
  by (simp add: time_simps escapingDrift_def split: option.splits prod.splits outcome.splits)

lemma absorbedStep_time [time_simps]:
  "absorbedStep s (a\<lparr>time := x\<rparr>) w = retime x (absorbedStep s a w)"
  by (auto simp add: time_simps absorbedStep_def retime_def Let_def
      split: prod.splits option.splits outcome.splits)

lemma escapingFlight_time [time_simps]:
  "escapingFlight s (a\<lparr>time := x\<rparr>) w = retime x (escapingFlight s a w)"
  by (auto simp add: time_simps escapingFlight_def retime_def Let_def
      split: prod.splits option.splits outcome.splits)

lemma nucleusStep_time [time_simps]:
  "nucleusStep (a\<lparr>time := x\<rparr>) w = retime2 x (nucleusStep a w)"
  by (auto simp add: time_simps nucleusStep_def retime2_def Let_def
      split: prod.splits option.splits)

lemma cascadeStep_time [time_simps]:
  "cascadeStep (a\<lparr>time := x\<rparr>) w = retime x (cascadeStep a w)"
  by (auto simp add: time_simps cascadeStep_def retime_def split: option.splits)

lemma compoundPhase_time [time_simps]:
  "compoundPhase s (a\<lparr>time := x\<rparr>) w = retime x (compoundPhase s a w)"
  by (auto simp add: time_simps compoundPhase_def retime_def retime2_def Let_def
      split: prod.splits option.splits outcome.splits)

lemma decayPhase_time [time_simps]:
  "decayPhase s (a\<lparr>time := x\<rparr>) w = retime x (decayPhase s a w)"
  by (auto simp add: time_simps decayPhase_def retime_def retime2_def Let_def
      split: prod.splits option.splits outcome.splits)

lemma absorptionPhase_time [time_simps]:
  "absorptionPhase s (a\<lparr>time := x\<rparr>) w = retime x (absorptionPhase s a w)"
  by (auto simp add: time_simps absorptionPhase_def retime_def retime2_def Let_def
      split: prod.splits option.splits outcome.splits)

lemma nonelasticSwitch_time [time_simps]:
  "nonelasticSwitch s (a\<lparr>time := x\<rparr>) w = retime x (nonelasticSwitch s a w)"
  by (cases "phase a") (auto simp add: time_simps nonelasticSwitch_def retime_def Let_def
      split: prod.splits option.splits outcome.splits)

lemma excitedStep_time [time_simps]:
  "excitedStep (a\<lparr>time := x\<rparr>) w = retime x (excitedStep a w)"
  by (auto simp add: time_simps excitedStep_def retime_def Let_def
      split: prod.splits option.splits outcome.splits)

lemma inelasticApproach_time [time_simps]:
  "inelasticApproach s (a\<lparr>time := x\<rparr>) w = retime x (inelasticApproach s a w)"
  by (auto simp add: time_simps inelasticApproach_def retime_def Let_def
      split: prod.splits option.splits outcome.splits)

lemma inelasticEscape_time [time_simps]:
  "inelasticEscape s (a\<lparr>time := x\<rparr>) w = retime x (inelasticEscape s a w)"
  by (auto simp add: time_simps inelasticEscape_def retime_def Let_def
      split: prod.splits option.splits outcome.splits)


lemma retime_same: "retime (time (fst (snd z))) z = z"
  by (cases z) (simp add: time_simps retime_def)

lemma elastic_time:
  "updateElasticBreakup s a d w = retime (time a + d * s) (updateElasticBreakup s a 0 w)"
  by (cases "phase a") (auto simp add: time_simps updateElasticBreakup_def retime_def Let_def
      split: prod.splits option.splits outcome.splits)

lemma nonelastic_time:
  "updateNonelasticBreakup s a d w = retime (time a + d * s) (updateNonelasticBreakup s a 0 w)"
  by (auto simp add: time_simps updateNonelasticBreakup_def retime_def Let_def
      split: prod.splits option.splits outcome.splits)

lemma inelastic_time:
  "updateInelasticBreakup s a d w = retime (time a + d * s) (updateInelasticBreakup s a 0 w)"
  by (cases "phase a") (auto simp add: time_simps updateInelasticBreakup_def retime_def Let_def
      split: prod.splits option.splits outcome.splits)

lemma dispatch_time:
  "dispatch an a d w = retime (time a + d * speed an) (dispatch an a 0 w)"
  unfolding dispatch_def
  using elastic_time[of "speed an" a d w] nonelastic_time[of "speed an" a d w]
    inelastic_time[of "speed an" a d w]
  by simp

lemma update_time:
  "update d an w =
     (case currentAnimation an of
        None \<Rightarrow> (False, an, w)
      | Some b \<Rightarrow>
          (if \<not> isPlaying an then (False, an, w)
           else (case dispatch an b 0 w of
                   (Threw, a1, w1) \<Rightarrow>
                     (True, an\<lparr>currentAnimation := Some (a1\<lparr>time := time b + d * speed an\<rparr>),
                                isPlaying := False\<rparr>, w1)
                 | (Returned c, a1, w1) \<Rightarrow>
                     (if c
                      then (True, an\<lparr>currentAnimation :=
                                        Some (a1\<lparr>time := time b + d * speed an\<rparr>),
                                      isPlaying := False\<rparr>, w1)
                      else (False, an\<lparr>currentAnimation :=
                                         Some (a1\<lparr>time := time b + d * speed an\<rparr>)\<rparr>, w1)))))"
  unfolding update_def
  by (subst dispatch_time) (auto simp: time_simps retime_def split: option.splits prod.splits outcome.splits)

text \<open>
  C10. Two calls of \<open>update\<close> from the same animator and world (the same speed, state and
  random draws) with different \<open>delta\<close> return the same result and leave the same world
  (the positions, velocities and every effect's state) and the same animator, up to the
  current animation's \<open>time\<close> field.
\<close>

theorem delta_only_time:
  "fst (update d1 an w) = fst (update d2 an w) \<and>
   snd (snd (update d1 an w)) = snd (snd (update d2 an w)) \<and>
   isPlaying (fst (snd (update d1 an w))) = isPlaying (fst (snd (update d2 an w))) \<and>
   speed (fst (snd (update d1 an w))) = speed (fst (snd (update d2 an w))) \<and>
   map_option (\<lambda>a. a\<lparr>time := 0\<rparr>) (currentAnimation (fst (snd (update d1 an w))))
     = map_option (\<lambda>a. a\<lparr>time := 0\<rparr>) (currentAnimation (fst (snd (update d2 an w))))"
  by (simp add: time_simps update_time split: option.splits prod.splits outcome.splits)

theorem delta_only_time_witness:
  "fst (update 1 finishedAnimator demoWorld) = fst (update 2 finishedAnimator demoWorld) \<and>
   snd (snd (update 1 finishedAnimator demoWorld)) = demoWorld \<and>
   map_option time (currentAnimation (fst (snd (update 1 finishedAnimator demoWorld)))) = Some 1 \<and>
   map_option time (currentAnimation (fst (snd (update 2 finishedAnimator demoWorld)))) = Some 2"
  using delta_only_time [of 1 finishedAnimator demoWorld 2]
  by (simp add: time_simps update_def dispatch_def updateElasticBreakup_def finishedAnimator_def
      createElasticBreakup_def)

subsection \<open>Phases only move forward\<close>

lemma splitProjectile_keeps:
  "splitProjectile p tb off a w = (a', w') \<Longrightarrow> atype a' = atype a \<and> phase a' = phase a"
  by (auto simp add: splitProjectile_def Let_def split: prod.splits)

lemma breakupFlash_keeps:
  "breakupFlash p a w = (a', w') \<Longrightarrow> atype a' = atype a \<and> phase a' = phase a"
  by (auto simp add: breakupFlash_def Let_def split: prod.splits)

lemma initiateElasticBreakup_keeps:
  "initiateElasticBreakup a w = (r, a', w') \<Longrightarrow> atype a' = atype a \<and> phase a' = phase a"
  by (auto simp add: initiateElasticBreakup_def Let_def split: prod.splits option.splits
      dest!: splitProjectile_keeps breakupFlash_keeps)

lemma pushWave_keeps:
  "pushWave e a w = (r, a', w') \<Longrightarrow> atype a' = atype a \<and> phase a' = phase a"
  by (auto simp add: pushWave_def split: option.splits)

lemma pushGammas_keeps:
  "pushGammas gs a w = (r, a', w') \<Longrightarrow> atype a' = atype a \<and> phase a' = phase a"
  by (induction gs arbitrary: a w) (auto split: option.splits)

lemma initiateInelasticBreakup_keeps:
  "initiateInelasticBreakup a w = (r, a', w') \<Longrightarrow> atype a' = atype a \<and> phase a' = phase a"
  by (auto simp add: initiateInelasticBreakup_def Let_def
      split: prod.splits option.splits outcome.splits
      dest!: splitProjectile_keeps breakupFlash_keeps pushWave_keeps)

lemma emitTargetGammas_keeps:
  "emitTargetGammas a w = (r, a', w') \<Longrightarrow> atype a' = atype a \<and> phase a' = phase a"
  by (auto simp add: emitTargetGammas_def Let_def
      split: prod.splits option.splits outcome.splits
      dest!: pushGammas_keeps pushWave_keeps)

lemma initiateNonelasticBreakup_keeps:
  "initiateNonelasticBreakup a w = (r, a', w') \<Longrightarrow> atype a' = atype a \<and> phase a' = phase a"
  by (auto simp add: initiateNonelasticBreakup_def Let_def
      split: prod.splits option.splits outcome.splits
      dest!: breakupFlash_keeps)

lemma createCompoundNucleusEffect_keeps:
  "createCompoundNucleusEffect a ab w = (r, a', w') \<Longrightarrow>
     atype a' = atype a \<and> phase a' = phase a"
  by (auto simp add: createCompoundNucleusEffect_def Let_def
      split: prod.splits option.splits outcome.splits
      dest!: pushWave_keeps)

lemma emitGammaRays_keeps:
  "emitGammaRays a w = (r, a', w') \<Longrightarrow> atype a' = atype a \<and> phase a' = phase a"
  by (auto simp add: emitGammaRays_def Let_def
      split: prod.splits option.splits outcome.splits
      dest!: pushGammas_keeps)

lemma initiateDecayPhase_keeps:
  "initiateDecayPhase a w = (r, a', w') \<Longrightarrow> atype a' = atype a \<and> phase a' = phase a"
  by (auto simp add: initiateDecayPhase_def Let_def
      split: prod.splits option.splits outcome.splits
      dest!: pushGammas_keeps pushWave_keeps)

lemma updateEffects_keeps:
  "updateEffects a w = (a', w') \<Longrightarrow> atype a' = atype a \<and> phase a' = phase a"
  by (auto simp add: updateEffects_def Let_def split: prod.splits)

lemma updateGammas_keeps:
  "updateGammas a w = (r, a', w') \<Longrightarrow> atype a' = atype a \<and> phase a' = phase a"
  by (auto simp add: updateGammas_def Let_def split: prod.splits option.splits outcome.splits)

lemma updateWaves_keeps:
  "updateWaves a w = (r, a', w') \<Longrightarrow> atype a' = atype a \<and> phase a' = phase a"
  by (auto simp add: updateWaves_def Let_def split: prod.splits option.splits outcome.splits)

lemma excitedStep_keeps:
  "excitedStep a w = (r, a', w') \<Longrightarrow> atype a' = atype a \<and> phase a' = phase a"
  by (auto simp add: excitedStep_def Let_def split: prod.splits option.splits if_splits
      dest!: emitTargetGammas_keeps)

lemma absorbedStep_moves:
  "absorbedStep s a w = (r, a', w') \<Longrightarrow>
     atype a' = atype a \<and> (phase a' = phase a \<or> phase a' = Compound)"
  by (auto simp add: absorbedStep_def Let_def split: prod.splits option.splits if_splits
      dest!: createCompoundNucleusEffect_keeps)

lemma escapingFlight_moves:
  "escapingFlight s a w = (r, a', w') \<Longrightarrow>
     atype a' = atype a \<and> (phase a' = phase a \<or> phase a' = Complete)"
  by (auto simp add: escapingFlight_def Let_def
      split: prod.splits option.splits if_splits outcome.splits)

lemma nucleusStep_keeps:
  "nucleusStep a w = (a', w') \<Longrightarrow> atype a' = atype a \<and> phase a' = phase a"
  by (auto simp add: nucleusStep_def Let_def split: prod.splits option.splits if_splits)

lemma cascadeStep_keeps:
  "cascadeStep a w = (r, a', w') \<Longrightarrow> atype a' = atype a \<and> phase a' = phase a"
  by (auto simp add: cascadeStep_def split: option.splits if_splits
      dest!: emitGammaRays_keeps)

lemma compoundPhase_moves:
  assumes "compoundPhase s a w = (r, a', w')"
  shows "atype a' = atype a \<and> (phase a' = phase a \<or> phase a' = Decay)"
proof -
  obtain a2 w1 where N: "nucleusStep (a\<lparr>resonanceTime := resonanceTime a + s\<rparr>) w = (a2, w1)"
    by (cases "nucleusStep (a\<lparr>resonanceTime := resonanceTime a + s\<rparr>) w") auto
  have k2: "atype a2 = atype a \<and> phase a2 = phase a"
    using nucleusStep_keeps[OF N] by simp
  obtain r2 w2 where E: "escapingDrift s a2 w1 = (r2, w2)"
    by (cases "escapingDrift s a2 w1") auto
  show ?thesis
  proof (cases r2)
    case Threw
    then show ?thesis using assms N E k2 by (simp add: compoundPhase_def)
  next
    case (Returned u)
    obtain r3 a3 w3 where C: "cascadeStep a2 w2 = (r3, a3, w3)"
      by (cases "cascadeStep a2 w2") auto
    have k3: "atype a3 = atype a \<and> phase a3 = phase a"
      using cascadeStep_keeps[OF C] k2 by simp
    show ?thesis
    proof (cases r3)
      case Threw
      then show ?thesis using assms N E C k3 Returned by (simp add: compoundPhase_def)
    next
      case (Returned u3)
      obtain r4 a4 w4 where G: "updateGammas a3 w3 = (r4, a4, w4)"
        by (cases "updateGammas a3 w3") auto
      have k4: "atype a4 = atype a \<and> phase a4 = phase a"
        using updateGammas_keeps[OF G] k3 by simp
      show ?thesis
      proof (cases r4)
        case Threw
        then show ?thesis using assms N E C G k4 \<open>r2 = Returned u\<close> Returned
          by (simp add: compoundPhase_def)
      next
        case (Returned u4)
        show ?thesis
        proof (cases "maxResonanceTime a4 < resonanceTime a4")
          case True
          then have "initiateDecayPhase (a4\<lparr>phase := Decay\<rparr>) w4 = (r, a', w')"
            using assms N E C G \<open>r2 = Returned u\<close> \<open>r3 = Returned u3\<close> Returned
            by (simp add: compoundPhase_def)
          from initiateDecayPhase_keeps[OF this] show ?thesis using k4 by simp
        next
          case False
          then show ?thesis
            using assms N E C G k4 \<open>r2 = Returned u\<close> \<open>r3 = Returned u3\<close> Returned
            by (simp add: compoundPhase_def)
        qed
      qed
    qed
  qed
qed

lemma decayPhase_moves:
  "decayPhase s a w = (r, a', w') \<Longrightarrow>
     atype a' = atype a \<and> (phase a' = phase a \<or> phase a' = Complete)"
  by (auto simp add: decayPhase_def Let_def
      split: prod.splits option.splits if_splits outcome.splits
      dest!: updateWaves_keeps updateGammas_keeps updateEffects_keeps escapingFlight_moves)

lemma absorptionPhase_moves:
  "absorptionPhase s a w = (r, a', w') \<Longrightarrow>
     atype a' = atype a \<and> (phase a' = phase a \<or> phase a' = Complete)"
  by (auto simp add: absorptionPhase_def Let_def
      split: prod.splits option.splits if_splits outcome.splits
      dest!: updateEffects_keeps escapingFlight_moves)

lemma nonelasticSwitch_moves:
  "nonelasticSwitch s a w = (r, a', w') \<Longrightarrow>
     atype a' = atype a \<and>
     (phase a' = phase a \<or> (phase a, phase a') \<in> {(Approach, Breakup), (Breakup, Compound),
        (Compound, Decay), (Decay, Complete), (Absorption, Complete)})"
  by (cases "phase a")
     (auto simp add: nonelasticSwitch_def Let_def
      split: prod.splits option.splits if_splits outcome.splits
      dest!: initiateNonelasticBreakup_keeps absorbedStep_moves compoundPhase_moves
        decayPhase_moves absorptionPhase_moves)

lemma nonelastic_moves:
  "updateNonelasticBreakup s a d w = (r, a', w') \<Longrightarrow>
     atype a' = atype a \<and>
     (phase a' = phase a \<or> (phase a, phase a') \<in> {(Approach, Breakup), (Breakup, Compound),
        (Compound, Decay), (Decay, Complete), (Absorption, Complete)})"
  by (auto simp add: updateNonelasticBreakup_def Let_def
      split: prod.splits if_splits outcome.splits
      dest!: nonelasticSwitch_moves)

lemma elastic_moves:
  "updateElasticBreakup s a d w = (r, a', w') \<Longrightarrow>
     atype a' = atype a \<and>
     (phase a' = phase a \<or> (phase a, phase a') \<in> {(Approach, Breakup), (Breakup, Complete)})"
  by (cases "phase a")
     (auto simp add: updateElasticBreakup_def Let_def
      split: prod.splits if_splits outcome.splits
      dest!: initiateElasticBreakup_keeps)

lemma inelasticApproach_moves:
  "inelasticApproach s a w = (r, a', w') \<Longrightarrow>
     atype a' = atype a \<and> (phase a' = phase a \<or> phase a' = Escape)"
  by (auto simp add: inelasticApproach_def Let_def
      split: prod.splits option.splits if_splits outcome.splits
      dest!: initiateInelasticBreakup_keeps)

lemma inelasticEscape_moves:
  "inelasticEscape s a w = (r, a', w') \<Longrightarrow>
     atype a' = atype a \<and> (phase a' = phase a \<or> phase a' = Complete)"
  by (auto simp add: inelasticEscape_def Let_def
      split: prod.splits option.splits if_splits outcome.splits
      dest!: excitedStep_keeps updateGammas_keeps updateWaves_keeps)

lemma inelastic_moves:
  "updateInelasticBreakup s a d w = (r, a', w') \<Longrightarrow>
     atype a' = atype a \<and>
     (phase a' = phase a \<or> (phase a, phase a') \<in> {(Approach, Escape), (Escape, Complete)})"
  by (cases "phase a")
     (auto simp add: updateInelasticBreakup_def Let_def
      split: prod.splits if_splits outcome.splits
      dest!: inelasticApproach_moves inelasticEscape_moves)

lemma dispatch_moves:
  assumes "dispatch an a d w = (r, a', w')"
  shows "atype a' = atype a \<and>
     (phase a' = phase a \<or> phaseOrder (atype a) (phase a) < phaseOrder (atype a) (phase a'))"
proof -
  consider "atype a = ''elastic''" | "atype a = ''inelastic''"
    | "atype a \<noteq> ''elastic''" "atype a \<noteq> ''inelastic''" by blast
  then show ?thesis
  proof cases
    case 1
    then show ?thesis using assms elastic_moves[of "speed an" a d w r a' w']
      by (auto simp: dispatch_def phaseOrder_def)
  next
    case 2
    then show ?thesis using assms inelastic_moves[of "speed an" a d w r a' w']
      by (auto simp: dispatch_def phaseOrder_def)
  next
    case 3
    then show ?thesis using assms nonelastic_moves[of "speed an" a d w r a' w']
      by (auto simp: dispatch_def phaseOrder_def split: if_splits)
  qed
qed

lemma run_length [simp]: "length (run ticks a w) = Suc (length ticks)"
  by (induction ticks a w rule: run.induct) (auto split: prod.splits)

lemma run_atype: "i < length (run ticks a w) \<Longrightarrow> atype (run ticks a w ! i) = atype a"
proof (induction ticks a w arbitrary: i rule: run.induct)
  case (1 a w)
  then show ?case by simp
next
  case (2 s d ticks a w)
  obtain r a' w' where D: "dispatch (setSpeed s newAnimator) a d w = (r, a', w')"
    by (cases "dispatch (setSpeed s newAnimator) a d w") auto
  show ?case
  proof (cases i)
    case 0
    then show ?thesis by simp
  next
    case (Suc k)
    then show ?thesis using 2 D dispatch_moves[OF D] by simp
  qed
qed

lemma run_forward:
  "i \<le> j \<Longrightarrow> j < length (run ticks a w) \<Longrightarrow>
     phase (run ticks a w ! j) = phase (run ticks a w ! i) \<or>
     phaseOrder (atype a) (phase (run ticks a w ! i))
       < phaseOrder (atype a) (phase (run ticks a w ! j))"
proof (induction ticks a w arbitrary: i j rule: run.induct)
  case (1 a w)
  then show ?case by simp
next
  case (2 s d ticks a w)
  obtain r a' w' where D: "dispatch (setSpeed s newAnimator) a d w = (r, a', w')"
    by (cases "dispatch (setSpeed s newAnimator) a d w") auto
  note M = dispatch_moves[OF D]
  have R: "run ((s, d) # ticks) a w = a # run ticks a' w'" using D by simp
  show ?case
  proof (cases j)
    case 0
    then show ?thesis using 2(2) by simp
  next
    case (Suc j')
    have j': "j' < length (run ticks a' w')" using 2(3) Suc unfolding R by simp
    show ?thesis
    proof (cases i)
      case 0
      have "phase (run ticks a' w' ! j') = phase (run ticks a' w' ! 0) \<or>
            phaseOrder (atype a') (phase (run ticks a' w' ! 0))
              < phaseOrder (atype a') (phase (run ticks a' w' ! j'))"
        using 2(1)[OF D[symmetric] refl, of 0 j'] j' by simp
      moreover have "run ticks a' w' ! 0 = a'" by (cases ticks) (auto split: prod.splits)
      ultimately show ?thesis using M 0 Suc R by auto
    next
      case (Suc i')
      then show ?thesis using 2(1)[OF D[symmetric] refl, of i' j'] 2(2) j' \<open>j = Suc j'\<close> R M
        by simp
    qed
  qed
qed

text \<open>
  C4. Along every sequence of ticks of an animation of any kind, at any speeds and
  deltas, whether ticks return or throw: the kind never changes, a later phase is the
  same as an earlier one or comes strictly after it in the ordering of the kind, and a
  phase that has been left is never entered again.
\<close>

theorem phases_move_forward:
  "i \<le> j \<Longrightarrow> j \<le> k \<Longrightarrow> k < length (run ticks a w) \<Longrightarrow>
     atype (run ticks a w ! j) = atype a \<and>
     (phase (run ticks a w ! j) = phase (run ticks a w ! i) \<or>
      phaseOrder (atype a) (phase (run ticks a w ! i))
        < phaseOrder (atype a) (phase (run ticks a w ! j))) \<and>
     (phase (run ticks a w ! k) = phase (run ticks a w ! i) \<longrightarrow>
      phase (run ticks a w ! j) = phase (run ticks a w ! i))"
proof (intro conjI impI)
  assume h: "i \<le> j" "j \<le> k" "k < length (run ticks a w)"
  show "atype (run ticks a w ! j) = atype a" using h run_atype[of j ticks a w] by simp
  show ij: "phase (run ticks a w ! j) = phase (run ticks a w ! i) \<or>
      phaseOrder (atype a) (phase (run ticks a w ! i))
        < phaseOrder (atype a) (phase (run ticks a w ! j))"
    using h run_forward[of i j ticks a w] by simp
  assume e: "phase (run ticks a w ! k) = phase (run ticks a w ! i)"
  have jk: "phase (run ticks a w ! k) = phase (run ticks a w ! j) \<or>
      phaseOrder (atype a) (phase (run ticks a w ! j))
        < phaseOrder (atype a) (phase (run ticks a w ! k))"
    using h run_forward[of j k ticks a w] by simp
  show "phase (run ticks a w ! j) = phase (run ticks a w ! i)"
    using ij jk e by auto
qed

theorem phases_move_forward_witness:
  "(0::nat) \<le> 1 \<and> (1::nat) \<le> 2 \<and>
   2 < length (run [(1, 0.016), (1, 0.016)] bareBreakup demoWorld) \<and>
   map phase (run [(1, 0.016), (1, 0.016)] bareBreakup demoWorld) = [Breakup, Complete, Complete] \<and>
   phaseOrder (atype bareBreakup) Breakup < phaseOrder (atype bareBreakup) Complete"
  using phases_move_forward [of 0 1 2 "[(1, 0.016), (1, 0.016)]" bareBreakup demoWorld]
  by (simp add: bareBreakup_def createElasticBreakup_def dispatch_def updateElasticBreakup_def
      allBeyond_def phaseOrder_def)

subsection \<open>The factory allocates fresh objects\<close>

lemma sqrt_less_iff: "0 \<le> c \<Longrightarrow> sqrt x < c \<longleftrightarrow> x < c * c"
  by (metis real_sqrt_less_iff real_sqrt_abs2 abs_of_nonneg power2_eq_square real_sqrt_mult_self)

lemma less_sqrt_iff: "0 \<le> c \<Longrightarrow> c < sqrt x \<longleftrightarrow> c * c < x"
  by (metis real_sqrt_less_iff real_sqrt_abs2 abs_of_nonneg power2_eq_square real_sqrt_mult_self)

lemma alloc_simps [simp]:
  "fst (alloc ob w) = nextId w"
  "nextId (snd (alloc ob w)) = Suc (nextId w)"
  "scene (snd (alloc ob w)) = scene w"
  "heap (snd (alloc ob w)) = (heap w)(nextId w := ob)"
  "randoms (snd (alloc ob w)) = randoms w"
  "drawn (snd (alloc ob w)) = drawn w"
  "trailsEnabled (snd (alloc ob w)) = trailsEnabled w"
  by (simp_all add: alloc_def)

lemma scene_add_simps [simp]:
  "nextId (scene_add i w) = nextId w"
  "scene (scene_add i w) = insert i (scene w)"
  "heap (scene_add i w) = heap w"
  "randoms (scene_add i w) = randoms w"
  "drawn (scene_add i w) = drawn w"
  "trailsEnabled (scene_add i w) = trailsEnabled w"
  by (simp_all add: scene_add_def)

lemma scene_remove_simps [simp]:
  "nextId (scene_remove i w) = nextId w"
  "scene (scene_remove i w) = scene w - {i}"
  "heap (scene_remove i w) = heap w"
  "randoms (scene_remove i w) = randoms w"
  "drawn (scene_remove i w) = drawn w"
  "trailsEnabled (scene_remove i w) = trailsEnabled w"
  by (simp_all add: scene_remove_def)

lemma modify_simps [simp]:
  "nextId (modify i f w) = nextId w"
  "randoms (modify i f w) = randoms w"
  "drawn (modify i f w) = drawn w"
  "trailsEnabled (modify i f w) = trailsEnabled w"
  by (simp_all add: modify_def)

lemma random_simps [simp]:
  "fst (random w) = randoms w (drawn w)"
  "nextId (snd (random w)) = nextId w"
  "scene (snd (random w)) = scene w"
  "heap (snd (random w)) = heap w"
  "randoms (snd (random w)) = randoms w"
  "drawn (snd (random w)) = Suc (drawn w)"
  "trailsEnabled (snd (random w)) = trailsEnabled w"
  by (simp_all add: random_def)

lemma scene_add_all_simps [simp]:
  "nextId (scene_add_all is w) = nextId w"
  "scene (scene_add_all is w) = set is \<union> scene w"
  "heap (scene_add_all is w) = heap w"
  "randoms (scene_add_all is w) = randoms w"
  "drawn (scene_add_all is w) = drawn w"
  "trailsEnabled (scene_add_all is w) = trailsEnabled w"
  by (induction "is" arbitrary: w; simp; fail)+

lemma createExplosionParticle_simps [simp]:
  "fst (createExplosionParticle pos w) = nextId w"
  "nextId (snd (createExplosionParticle pos w)) = Suc (nextId w)"
  "scene (snd (createExplosionParticle pos w)) = scene w"
  "i \<noteq> nextId w \<Longrightarrow> heap (snd (createExplosionParticle pos w)) i = heap w i"
  "randoms (snd (createExplosionParticle pos w)) = randoms w"
  "drawn (snd (createExplosionParticle pos w)) = drawn w + 4"
  "trailsEnabled (snd (createExplosionParticle pos w)) = trailsEnabled w"
  by (simp_all add: createExplosionParticle_def Let_def split_def)

lemma createExplosion_loop_all:
  "fst (createExplosion_loop n pos w) = [nextId w ..< nextId w + n] \<and>
   nextId (snd (createExplosion_loop n pos w)) = nextId w + n \<and>
   scene (snd (createExplosion_loop n pos w)) = scene w \<and>
   (\<forall>i < nextId w. heap (snd (createExplosion_loop n pos w)) i = heap w i) \<and>
   randoms (snd (createExplosion_loop n pos w)) = randoms w \<and>
   drawn (snd (createExplosion_loop n pos w)) = drawn w + 4 * n \<and>
   trailsEnabled (snd (createExplosion_loop n pos w)) = trailsEnabled w"
proof (induction n arbitrary: w)
  case 0
  then show ?case by simp
next
  case (Suc n)
  show ?case
    using Suc[of "snd (createExplosionParticle pos w)"]
    by (simp add: Let_def split_def upt_conv_Cons)
qed

lemma createExplosion_loop_simps [simp]:
  "fst (createExplosion_loop n pos w) = [nextId w ..< nextId w + n]"
  "nextId (snd (createExplosion_loop n pos w)) = nextId w + n"
  "scene (snd (createExplosion_loop n pos w)) = scene w"
  "i < nextId w \<Longrightarrow> heap (snd (createExplosion_loop n pos w)) i = heap w i"
  "randoms (snd (createExplosion_loop n pos w)) = randoms w"
  "drawn (snd (createExplosion_loop n pos w)) = drawn w + 4 * n"
  "trailsEnabled (snd (createExplosion_loop n pos w)) = trailsEnabled w"
  using createExplosion_loop_all[of n pos w] by simp_all

lemma createGammaRay_simps [simp]:
  "fst (createGammaRay pos w) = nextId w"
  "nextId (snd (createGammaRay pos w)) = Suc (nextId w)"
  "scene (snd (createGammaRay pos w)) = scene w"
  "i \<noteq> nextId w \<Longrightarrow> heap (snd (createGammaRay pos w)) i = heap w i"
  "randoms (snd (createGammaRay pos w)) = randoms w"
  "drawn (snd (createGammaRay pos w)) = drawn w + 2"
  "trailsEnabled (snd (createGammaRay pos w)) = trailsEnabled w"
  by (simp_all add: createGammaRay_def Let_def split_def)

lemma createGammaRays_all:
  "fst (createGammaRays pos n w) = [nextId w ..< nextId w + n] \<and>
   nextId (snd (createGammaRays pos n w)) = nextId w + n \<and>
   scene (snd (createGammaRays pos n w)) = scene w \<and>
   (\<forall>i < nextId w. heap (snd (createGammaRays pos n w)) i = heap w i) \<and>
   randoms (snd (createGammaRays pos n w)) = randoms w \<and>
   drawn (snd (createGammaRays pos n w)) = drawn w + 2 * n \<and>
   trailsEnabled (snd (createGammaRays pos n w)) = trailsEnabled w"
proof (induction n arbitrary: w)
  case 0
  then show ?case by simp
next
  case (Suc n)
  show ?case
    using Suc[of "snd (createGammaRay pos w)"]
    by (simp add: Let_def split_def upt_conv_Cons)
qed

lemma createGammaRays_simps [simp]:
  "fst (createGammaRays pos n w) = [nextId w ..< nextId w + n]"
  "nextId (snd (createGammaRays pos n w)) = nextId w + n"
  "scene (snd (createGammaRays pos n w)) = scene w"
  "i < nextId w \<Longrightarrow> heap (snd (createGammaRays pos n w)) i = heap w i"
  "randoms (snd (createGammaRays pos n w)) = randoms w"
  "drawn (snd (createGammaRays pos n w)) = drawn w + 2 * n"
  "trailsEnabled (snd (createGammaRays pos n w)) = trailsEnabled w"
  using createGammaRays_all[of pos n w] by simp_all

subsection \<open>Entering the elastic breakup\<close>

lemma createTrail_simps [simp]:
  "fst (createTrail f w) = nextId w"
  "nextId (snd (createTrail f w)) = Suc (nextId w)"
  "scene (snd (createTrail f w)) = scene w"
  "i \<noteq> nextId w \<Longrightarrow> heap (snd (createTrail f w)) i = heap w i"
  "randoms (snd (createTrail f w)) = randoms w"
  "drawn (snd (createTrail f w)) = drawn w"
  "trailsEnabled (snd (createTrail f w)) = trailsEnabled w"
  by (simp_all add: createTrail_def)

lemma group_simps [simp]: "position (group pos) = pos" "utype (group pos) = []"
  by (simp_all add: group_def)

lemma initiateElasticBreakup_result:
  assumes "projectile a = Some p" "p < nextId w"
  shows "fst (initiateElasticBreakup a w) = Returned () \<and>
    fragments (fst (snd (initiateElasticBreakup a w)))
      = fragments a @ [nextId w, Suc (nextId w)] \<and>
    p \<notin> scene (snd (snd (initiateElasticBreakup a w))) \<and>
    nextId w \<in> scene (snd (snd (initiateElasticBreakup a w))) \<and>
    Suc (nextId w) \<in> scene (snd (snd (initiateElasticBreakup a w))) \<and>
    heap (snd (snd (initiateElasticBreakup a w))) p = heap w p \<and>
    position (heap (snd (snd (initiateElasticBreakup a w))) (nextId w))
      = add3 (position (heap w p)) (Vec3 0 0.3 0) \<and>
    position (heap (snd (snd (initiateElasticBreakup a w))) (Suc (nextId w)))
      = add3 (position (heap w p)) (Vec3 0 (- 0.3) 0) \<and>
    (utype (heap (snd (snd (initiateElasticBreakup a w))) (nextId w)),
     utype (heap (snd (snd (initiateElasticBreakup a w))) (Suc (nextId w))))
      = fragmentSpecies (utype (heap w p))"
  using assms
  by (simp add: initiateElasticBreakup_def splitProjectile_def breakupFlash_def
      createExplosion_def elasticDispatch_def fragmentSpecies_def Let_def split_def
      createProton_def createNeutron_def createAlpha_def createDeuteron_def group_simps)

lemma approachMove_frame:
  "approachMove k s a w = (r, w1) \<Longrightarrow> nextId w1 = nextId w \<and> scene w1 = scene w"
  by (auto simp: approachMove_def Let_def split: option.splits if_splits)

text \<open>
  C5. When a tick takes an elastic animation from \<open>approach\<close> to \<open>breakup\<close>, the
  projectile is out of the scene, exactly two fragments have been pushed onto
  \<open>fragments\<close>, both in the scene, at the projectile's position offset by \<open>(0, 0.3, 0)\<close>
  and \<open>(0, -0.3, 0)\<close>, and their species are the pair the dispatch table gives for the
  projectile's species. The impact parameter plays no part. The projectile is an object
  allocated before the tick (\<open>p < nextId w\<close>).
\<close>

theorem elastic_breakup_fragments:
  assumes "phase a = Approach" and "projectile a = Some p" and "p < nextId w"
    and "updateElasticBreakup s a d w = (r, a', w')" and "phase a' = Breakup"
  shows "r = Returned False \<and>
    p \<notin> scene w' \<and>
    fragments a' = fragments a @ [nextId w, Suc (nextId w)] \<and>
    nextId w \<in> scene w' \<and> Suc (nextId w) \<in> scene w' \<and>
    position (heap w' (nextId w)) = add3 (position (heap w' p)) (Vec3 0 0.3 0) \<and>
    position (heap w' (Suc (nextId w))) = add3 (position (heap w' p)) (Vec3 0 (- 0.3) 0) \<and>
    (utype (heap w' (nextId w)), utype (heap w' (Suc (nextId w))))
      = fragmentSpecies (utype (heap w' p))"
proof -
  let ?a = "a\<lparr>time := time a + d * s\<rparr>"
  obtain r1 w1 where M: "approachMove 0.003 s ?a w = (r1, w1)"
    by (cases "approachMove 0.003 s ?a w") auto
  have U: "updateElasticBreakup s a d w =
      (case r1 of Threw \<Rightarrow> (Threw, ?a, w1)
       | Returned dd \<Rightarrow>
           (if dd < 3.5
            then (case initiateElasticBreakup (?a\<lparr>phase := Breakup\<rparr>) w1 of
                    (Threw, a2, w2) \<Rightarrow> (Threw, a2, w2)
                  | (Returned _, a2, w2) \<Rightarrow> (Returned False, a2, w2))
            else (Returned False, ?a, w1)))"
    using assms(1) M by (simp add: updateElasticBreakup_def Let_def split: outcome.splits)
  obtain dd where r1: "r1 = Returned dd" and dd: "dd < 3.5"
    using U assms(1,4,5) by (cases r1) (auto split: if_splits)
  have F: "nextId w1 = nextId w" using approachMove_frame[OF M] by simp
  have P: "projectile (?a\<lparr>phase := Breakup\<rparr>) = Some p" using assms(2) by simp
  have L: "p < nextId w1" using assms(3) F by simp
  note I = initiateElasticBreakup_result[OF P L]
  have R: "(r, a', w') = (Returned False, snd (initiateElasticBreakup (?a\<lparr>phase := Breakup\<rparr>) w1))"
    using U r1 dd assms(4) I by (simp add: split_def)
  have A: "a' = fst (snd (initiateElasticBreakup (?a\<lparr>phase := Breakup\<rparr>) w1))"
    "w' = snd (snd (initiateElasticBreakup (?a\<lparr>phase := Breakup\<rparr>) w1))"
    "r = Returned False"
    using R by (simp_all add: prod_eq_iff)
  show ?thesis unfolding A using I F by simp
qed

lemma near_tick_phase:
  "phase (fst (snd (updateElasticBreakup 1 (fst (createElasticBreakup 1 0 3 demoWorld)) 0.016
      nearWorld))) = Breakup"
proof -
  let ?a = "(fst (createElasticBreakup 1 0 3 demoWorld))\<lparr>time := 0.016\<rparr>"
  have M: "fst (approachMove 0.003 1 ?a nearWorld) = Returned (sqrt (1224 / 100))"
    by (simp add: approachMove_def createElasticBreakup_def nearWorld_def approachingWorld_def
        placeProjectile_def demoWorld_def emptyWorld_def createTargetNucleus_def
        createDeuteron_def alloc_def scene_add_def Let_def distanceTo_def length3_def
        subVectors_def add3_def multiplyScalar_def group_def modify_def)
  have "sqrt (1224 / 100) < (7 / 2 :: real) \<longleftrightarrow> (1224 / 100 :: real) < 7 / 2 * (7 / 2)"
    by (rule sqrt_less_iff) simp
  then have lt: "sqrt (1224 / 100) < (3.5::real)" by simp
  obtain w1 where M': "approachMove 0.003 1 ?a nearWorld = (Returned (sqrt (1224 / 100)), w1)"
    using M by (cases "approachMove 0.003 1 ?a nearWorld") auto
  obtain r2 a2 w2 where I: "initiateElasticBreakup (?a\<lparr>phase := Breakup\<rparr>) w1 = (r2, a2, w2)"
    by (cases "initiateElasticBreakup (?a\<lparr>phase := Breakup\<rparr>) w1") auto
  have "phase a2 = Breakup" using initiateElasticBreakup_keeps[OF I] by simp
  then show ?thesis
    using M' I lt
    by (cases r2) (simp_all add: updateElasticBreakup_def createElasticBreakup_def Let_def)
qed

theorem elastic_breakup_fragments_witness:
  "phase (fst (createElasticBreakup 1 0 3 demoWorld)) = Approach \<and>
   projectile (fst (createElasticBreakup 1 0 3 demoWorld)) = Some 1 \<and>
   1 < nextId nearWorld \<and>
   fragments (fst (snd (updateElasticBreakup 1 (fst (createElasticBreakup 1 0 3 demoWorld))
      0.016 nearWorld))) = [2, 3] \<and>
   1 \<notin> scene (snd (snd (updateElasticBreakup 1 (fst (createElasticBreakup 1 0 3 demoWorld))
      0.016 nearWorld)))"
proof -
  let ?a = "fst (createElasticBreakup 1 0 3 demoWorld)"
  have n: "nextId nearWorld = 2"
    by (simp add: nearWorld_def approachingWorld_def createElasticBreakup_def
        placeProjectile_def demoWorld_def emptyWorld_def createTargetNucleus_def
        createDeuteron_def alloc_def scene_add_def Let_def modify_def)
  have h1: "phase ?a = Approach" and h2: "projectile ?a = Some 1" and h3: "1 < nextId nearWorld"
    using n by (simp_all add: createElasticBreakup_def)
  have h4: "updateElasticBreakup 1 ?a 0.016 nearWorld =
      (fst (updateElasticBreakup 1 ?a 0.016 nearWorld),
       fst (snd (updateElasticBreakup 1 ?a 0.016 nearWorld)),
       snd (snd (updateElasticBreakup 1 ?a 0.016 nearWorld)))" by simp
  show ?thesis
    using elastic_breakup_fragments [OF h1 h2 h3 h4 near_tick_phase] h1 h2 h3 n
    by (simp add: createElasticBreakup_def)
qed

subsection \<open>Effects whose life is over\<close>

lemma updateExplosion_from_dead:
  assumes "updateExplosion_from ps w = (Returned kept, w')"
    and "life (heap w p) = Some l" and "l \<le> 0" and "decay (heap w p) = Some dc" and "0 \<le> dc"
  shows "p \<notin> set kept"
  using assms
proof (induction ps arbitrary: w kept l)
  case Nil
  then show ?case by simp
next
  case (Cons q qs)
  from Cons.prems(1) obtain v where v: "velocity (heap w q) = Some v"
    by (auto split: option.splits)
  let ?w1 = "modify q (\<lambda>ob. ob\<lparr>position := add3 (position ob) v,
      velocity := Some (multiplyScalar v 0.95), life := jsub (life ob) (decay ob)\<rparr>) w"
  let ?w2 = "modify q (\<lambda>ob. ob\<lparr>opacity := life ob\<rparr>) ?w1"
  from Cons.prems(1) v have m: "material (heap ?w1 q)"
    by (auto simp: Let_def split: if_splits)
  from Cons.prems(1) v m obtain kept' where
    rec: "updateExplosion_from qs ?w2 = (Returned kept', w')" and
    k: "kept = (if jnonpos (life (heap ?w2 q)) then kept' else q # kept')"
    by (auto simp: Let_def split: prod.splits outcome.splits)
  show ?case
  proof (cases "q = p")
    case True
    have l2: "life (heap ?w2 p) = Some (l - dc)" "decay (heap ?w2 p) = Some dc"
      using True Cons.prems(2,4) by (simp_all add: modify_def jsub_def)
    have "l - dc \<le> 0" using Cons.prems(3,5) by simp
    from Cons.IH[OF rec l2(1) this l2(2) Cons.prems(5)] have "p \<notin> set kept'" .
    moreover have "jnonpos (life (heap ?w2 q))"
      using True l2 \<open>l - dc \<le> 0\<close> by (simp add: jnonpos_def)
    ultimately show ?thesis using k by simp
  next
    case False
    have l2: "life (heap ?w2 p) = Some l" "decay (heap ?w2 p) = Some dc"
      using False Cons.prems(2,4) by (simp_all add: modify_def)
    from Cons.IH[OF rec l2(1) Cons.prems(3) l2(2) Cons.prems(5)] have "p \<notin> set kept'" .
    then show ?thesis using k False by simp
  qed
qed

lemma updateExplosion_dead:
  assumes "updateExplosion ps w = (Returned kept, w')"
    and "life (heap w p) = Some l" and "l \<le> 0" and "decay (heap w p) = Some dc" and "0 \<le> dc"
  shows "p \<notin> set kept"
proof -
  from assms(1) obtain k where "updateExplosion_from (rev ps) w = (Returned k, w')" "kept = rev k"
    by (auto simp: updateExplosion_def split: prod.splits outcome.splits)
  then show ?thesis using updateExplosion_from_dead[OF _ assms(2-5)] by simp
qed

text \<open>
  C6 fails where it says the handle is not mutated: a gamma ray whose life is 0 is
  reported dead by \<open>updateGammaRay\<close>, and has moved by its velocity.
\<close>

theorem spent_gamma_moves:
  "life spentGamma = Some 0 \<and>
   fst (updateGammaRay_on spentGamma) = Returned False \<and>
   position spentGamma = Vec3 3 0 0 \<and>
   position (snd (updateGammaRay_on spentGamma)) = Vec3 (38 / 10) 0 0"
  by (simp add: spentGamma_def updateGammaRay_on_def group_def jsub_def jpos_def add3_def
      Let_def)

lemma spentWorld_heap: "heap spentWorld 2 = spentParticle" "nextId spentWorld = 3"
  by (simp_all add: spentWorld_def alloc_def scene_add_def demoWorld_def emptyWorld_def
      createTargetNucleus_def createDeuteron_def Let_def)

lemma flash_dead:
  assumes "life ob = Some l" and "l \<le> 0"
  shows "\<not> fst (updateAbsorptionFlash_on ob)"
    "life (snd (updateAbsorptionFlash_on ob)) = Some (l - 0.03)"
    "position (snd (updateAbsorptionFlash_on ob)) = position ob"
  using assms by (simp_all add: updateAbsorptionFlash_on_def Let_def)

lemma flash_ring:
  assumes "life ob = Some l" and "ring ob = Some i" and "i < length (children ob)"
    and "flash ob \<noteq> Some i"
  shows "c_scale (children (snd (updateAbsorptionFlash_on ob)) ! i)
      = Vec3 (1 + (1 - (l - 0.03)) * 2) (1 + (1 - (l - 0.03)) * 2) (1 + (1 - (l - 0.03)) * 2)"
    "c_material (children ob ! i) \<Longrightarrow>
       c_opacity (children (snd (updateAbsorptionFlash_on ob)) ! i) = Some (l - 0.03)"
  using assms
  by (cases "flash ob";
      simp add: updateAbsorptionFlash_on_def Let_def via_def upd_child_def set_scale_def)+

lemma decaying_dead:
  assumes "life ob = Some l" and "l \<le> 0" and "\<forall>dc. decay ob = Some dc \<longrightarrow> 0 \<le> dc"
  shows "\<not> fst (updateEnergyWave_on ob)" "\<not> fst (updateCompoundNucleus_on ob)"
    "\<not> fst (updateExcitedTarget_on ob)"
    "velocity ob \<noteq> None \<Longrightarrow> fst (updateGammaRay_on ob) = Returned False"
proof -
  have "\<not> jpos (jsub (life ob) (decay ob))"
    using assms by (cases "decay ob") (auto simp: jsub_def jpos_def)
  then show "\<not> fst (updateEnergyWave_on ob)" "\<not> fst (updateCompoundNucleus_on ob)"
    "\<not> fst (updateExcitedTarget_on ob)"
    "velocity ob \<noteq> None \<Longrightarrow> fst (updateGammaRay_on ob) = Returned False"
    by (auto simp: updateEnergyWave_on_def updateCompoundNucleus_on_def
        updateExcitedTarget_on_def updateGammaRay_on_def Let_def)
qed

lemma wave_advances:
  assumes "life ob = Some l" and "decay ob = Some dc"
  shows "life (snd (updateEnergyWave_on ob)) = Some (l - dc)"
    "currentRadius (snd (updateEnergyWave_on ob)) = currentRadius ob + 0.15"
    "position (snd (updateEnergyWave_on ob)) = position ob"
    "i < length (children ob) \<Longrightarrow>
       c_scale (children (snd (updateEnergyWave_on ob)) ! i)
         = (let e = max 0.1 (currentRadius ob + 0.15
                      - (case c_delay (children ob ! i) of None \<Rightarrow> 0 | Some x \<Rightarrow> x) * 5)
            in Vec3 e e e)"
  using assms
  by (simp_all add: updateEnergyWave_on_def Let_def jsub_def nth_enumerate_eq set_scale_def)

lemma nucleus_advances:
  assumes "life ob = Some l" and "decay ob = Some dc"
  shows "life (snd (updateCompoundNucleus_on ob)) = Some (l - dc)"
    "pulsePhase (snd (updateCompoundNucleus_on ob)) = pulsePhase ob + 0.15"
    "position (snd (updateCompoundNucleus_on ob)) = position ob"
    "life (snd (updateExcitedTarget_on ob)) = Some (l - dc)"
    "vibPhase (snd (updateExcitedTarget_on ob)) = vibPhase ob + 0.12"
    "position (snd (updateExcitedTarget_on ob)) = position ob"
  using assms
  by (simp_all add: updateCompoundNucleus_on_def updateExcitedTarget_on_def Let_def jsub_def)

lemma gamma_advances:
  assumes "life ob = Some l" and "decay ob = Some dc" and "velocity ob = Some v"
  shows "position (snd (updateGammaRay_on ob)) = add3 (position ob) v"
    "life (snd (updateGammaRay_on ob)) = Some (l - dc)"
    "beam ob = Some i \<Longrightarrow> i < length (children ob) \<Longrightarrow> c_material (children ob ! i) \<Longrightarrow>
       c_opacity (children (snd (updateGammaRay_on ob)) ! i) = Some (l - dc)"
  using assms
  by (simp_all add: updateGammaRay_on_def Let_def jsub_def via_def upd_child_def)

lemma particle_advances:
  assumes "life (heap w p) = Some l" and "l \<le> 0" and "decay (heap w p) = Some dc"
    and "0 \<le> dc" and "velocity (heap w p) = Some v" and "material (heap w p)"
  shows "fst (updateExplosion [p] w) = Returned []"
    "position (heap (snd (updateExplosion [p] w)) p) = add3 (position (heap w p)) v"
    "opacity (heap (snd (updateExplosion [p] w)) p) = Some (l - dc)"
    "life (heap (snd (updateExplosion [p] w)) p) = Some (l - dc)"
  using assms
  by (simp_all add: updateExplosion_def Let_def jsub_def jnonpos_def)

lemma flash_sphere:
  assumes "life ob = Some l" and "flash ob = Some j" and "j < length (children ob)"
  shows "c_scale (children (snd (updateAbsorptionFlash_on ob)) ! j)
      = Vec3 (1 + (1 - (l - 0.03))) (1 + (1 - (l - 0.03))) (1 + (1 - (l - 0.03)))"
    "c_material (children ob ! j) \<Longrightarrow>
       c_opacity (children (snd (updateAbsorptionFlash_on ob)) ! j) = Some ((l - 0.03) * 0.8)"
  using assms
  by (cases "ring ob";
      simp add: updateAbsorptionFlash_on_def Let_def via_def upd_child_def set_scale_def
        nth_list_update)+

text \<open>
  The condition on \<open>decay\<close> below cannot be dropped: an effect whose life is 0 and whose
  decay is negative is reported alive.
\<close>

lemma negative_decay_revives:
  "fst (updateGammaRay_on (spentGamma\<lparr>decay := Some (- 0.025)\<rparr>)) = Returned True"
  by (simp add: spentGamma_def updateGammaRay_on_def group_def jsub_def jpos_def Let_def)

text \<open>
  C6 (amended). Take a handle whose life is a number \<open>l \<le> 0\<close>.

  \<^item> \<open>updateAbsorptionFlash\<close>, which reads no \<open>decay\<close>, returns false. It has set the life
    to \<open>l - 0.03\<close>, the ring's scale to \<open>1 + (1 - life) * 2\<close> and opacity to the life,
    the flash sphere's scale to \<open>1 + (1 - life)\<close> and opacity to \<open>life * 0.8\<close> (for a ring
    and a sphere that are two children with materials), and has left the position.
  \<^item> If the decay is absent or a number \<open>\<ge> 0\<close>, \<open>updateEnergyWave\<close>,
    \<open>updateCompoundNucleus\<close> and \<open>updateExcitedTarget\<close> return false, and so does
    \<open>updateGammaRay\<close> on a handle with a velocity. Without a velocity \<open>updateGammaRay\<close>
    throws and leaves the handle as it was.
  \<^item> If the decay is a number \<open>dc\<close>, each of these four has set the life to \<open>l - dc\<close>;
    the energy wave's radius has grown by 0.15 and every ring is scaled to
    \<open>max(0.1, radius - delay * 5)\<close>; the pulse phase of the compound nucleus has advanced
    by 0.15 and the vibration phase of the excited target by 0.12; these three have left
    the position; the gamma ray has moved by its velocity and the opacity of its beam is
    the new life.
  \<^item> If the decay is a number \<open>dc \<ge> 0\<close>, \<open>updateExplosion\<close> leaves the handle out of the
    array it returns; called on the handle alone (with a velocity and a material) it
    returns the empty array and has moved the particle by its velocity and set its
    opacity and life to \<open>l - dc\<close>.
\<close>

theorem dead_is_reported:
  assumes "life ob = Some l" and "l \<le> 0"
  shows
   "\<not> fst (updateAbsorptionFlash_on ob) \<and>
    life (snd (updateAbsorptionFlash_on ob)) = Some (l - 0.03) \<and>
    position (snd (updateAbsorptionFlash_on ob)) = position ob \<and>
    (\<forall>i. ring ob = Some i \<and> i < length (children ob) \<and> flash ob \<noteq> Some i \<longrightarrow>
       c_scale (children (snd (updateAbsorptionFlash_on ob)) ! i)
         = Vec3 (1 + (1 - (l - 0.03)) * 2) (1 + (1 - (l - 0.03)) * 2)
             (1 + (1 - (l - 0.03)) * 2) \<and>
       (c_material (children ob ! i) \<longrightarrow>
          c_opacity (children (snd (updateAbsorptionFlash_on ob)) ! i) = Some (l - 0.03))) \<and>
    (\<forall>j. flash ob = Some j \<and> j < length (children ob) \<longrightarrow>
       c_scale (children (snd (updateAbsorptionFlash_on ob)) ! j)
         = Vec3 (1 + (1 - (l - 0.03))) (1 + (1 - (l - 0.03))) (1 + (1 - (l - 0.03))) \<and>
       (c_material (children ob ! j) \<longrightarrow>
          c_opacity (children (snd (updateAbsorptionFlash_on ob)) ! j)
            = Some ((l - 0.03) * 0.8))) \<and>
    ((\<forall>dc. decay ob = Some dc \<longrightarrow> 0 \<le> dc) \<longrightarrow>
       \<not> fst (updateEnergyWave_on ob) \<and> \<not> fst (updateCompoundNucleus_on ob) \<and>
       \<not> fst (updateExcitedTarget_on ob) \<and>
       (velocity ob \<noteq> None \<longrightarrow> fst (updateGammaRay_on ob) = Returned False)) \<and>
    (velocity ob = None \<longrightarrow> updateGammaRay_on ob = (Threw, ob)) \<and>
    (\<forall>dc. decay ob = Some dc \<longrightarrow>
       life (snd (updateEnergyWave_on ob)) = Some (l - dc) \<and>
       currentRadius (snd (updateEnergyWave_on ob)) = currentRadius ob + 0.15 \<and>
       position (snd (updateEnergyWave_on ob)) = position ob \<and>
       (\<forall>i<length (children ob).
          c_scale (children (snd (updateEnergyWave_on ob)) ! i)
            = (let e = max 0.1 (currentRadius ob + 0.15
                         - (case c_delay (children ob ! i) of None \<Rightarrow> 0 | Some x \<Rightarrow> x) * 5)
               in Vec3 e e e)) \<and>
       life (snd (updateCompoundNucleus_on ob)) = Some (l - dc) \<and>
       pulsePhase (snd (updateCompoundNucleus_on ob)) = pulsePhase ob + 0.15 \<and>
       position (snd (updateCompoundNucleus_on ob)) = position ob \<and>
       life (snd (updateExcitedTarget_on ob)) = Some (l - dc) \<and>
       vibPhase (snd (updateExcitedTarget_on ob)) = vibPhase ob + 0.12 \<and>
       position (snd (updateExcitedTarget_on ob)) = position ob \<and>
       (\<forall>v. velocity ob = Some v \<longrightarrow>
          position (snd (updateGammaRay_on ob)) = add3 (position ob) v \<and>
          life (snd (updateGammaRay_on ob)) = Some (l - dc) \<and>
          (\<forall>i. beam ob = Some i \<and> i < length (children ob) \<and> c_material (children ob ! i)
             \<longrightarrow> c_opacity (children (snd (updateGammaRay_on ob)) ! i) = Some (l - dc)))) \<and>
    (\<forall>dc p ps w kept w'.
       decay ob = Some dc \<and> 0 \<le> dc \<and> heap w p = ob \<and>
       updateExplosion ps w = (Returned kept, w') \<longrightarrow> p \<notin> set kept) \<and>
    (\<forall>dc v p w.
       decay ob = Some dc \<and> 0 \<le> dc \<and> velocity ob = Some v \<and> material ob \<and> heap w p = ob
       \<longrightarrow> fst (updateExplosion [p] w) = Returned [] \<and>
           position (heap (snd (updateExplosion [p] w)) p) = add3 (position ob) v \<and>
           opacity (heap (snd (updateExplosion [p] w)) p) = Some (l - dc) \<and>
           life (heap (snd (updateExplosion [p] w)) p) = Some (l - dc))"
proof -
  note F = flash_dead[OF assms]
  have c4: "\<forall>i. ring ob = Some i \<and> i < length (children ob) \<and> flash ob \<noteq> Some i \<longrightarrow>
       c_scale (children (snd (updateAbsorptionFlash_on ob)) ! i)
         = Vec3 (1 + (1 - (l - 0.03)) * 2) (1 + (1 - (l - 0.03)) * 2)
             (1 + (1 - (l - 0.03)) * 2) \<and>
       (c_material (children ob ! i) \<longrightarrow>
          c_opacity (children (snd (updateAbsorptionFlash_on ob)) ! i) = Some (l - 0.03))"
    using flash_ring[OF assms(1)] by blast
  have c5: "\<forall>j. flash ob = Some j \<and> j < length (children ob) \<longrightarrow>
       c_scale (children (snd (updateAbsorptionFlash_on ob)) ! j)
         = Vec3 (1 + (1 - (l - 0.03))) (1 + (1 - (l - 0.03))) (1 + (1 - (l - 0.03))) \<and>
       (c_material (children ob ! j) \<longrightarrow>
          c_opacity (children (snd (updateAbsorptionFlash_on ob)) ! j)
            = Some ((l - 0.03) * 0.8))"
    using flash_sphere[OF assms(1)] by blast
  have c6: "(\<forall>dc. decay ob = Some dc \<longrightarrow> 0 \<le> dc) \<longrightarrow>
       \<not> fst (updateEnergyWave_on ob) \<and> \<not> fst (updateCompoundNucleus_on ob) \<and>
       \<not> fst (updateExcitedTarget_on ob) \<and>
       (velocity ob \<noteq> None \<longrightarrow> fst (updateGammaRay_on ob) = Returned False)"
    using decaying_dead[OF assms] by blast
  have c7: "velocity ob = None \<longrightarrow> updateGammaRay_on ob = (Threw, ob)"
    by (simp add: updateGammaRay_on_def)
  have c8: "\<forall>dc. decay ob = Some dc \<longrightarrow>
       life (snd (updateEnergyWave_on ob)) = Some (l - dc) \<and>
       currentRadius (snd (updateEnergyWave_on ob)) = currentRadius ob + 0.15 \<and>
       position (snd (updateEnergyWave_on ob)) = position ob \<and>
       (\<forall>i<length (children ob).
          c_scale (children (snd (updateEnergyWave_on ob)) ! i)
            = (let e = max 0.1 (currentRadius ob + 0.15
                         - (case c_delay (children ob ! i) of None \<Rightarrow> 0 | Some x \<Rightarrow> x) * 5)
               in Vec3 e e e)) \<and>
       life (snd (updateCompoundNucleus_on ob)) = Some (l - dc) \<and>
       pulsePhase (snd (updateCompoundNucleus_on ob)) = pulsePhase ob + 0.15 \<and>
       position (snd (updateCompoundNucleus_on ob)) = position ob \<and>
       life (snd (updateExcitedTarget_on ob)) = Some (l - dc) \<and>
       vibPhase (snd (updateExcitedTarget_on ob)) = vibPhase ob + 0.12 \<and>
       position (snd (updateExcitedTarget_on ob)) = position ob \<and>
       (\<forall>v. velocity ob = Some v \<longrightarrow>
          position (snd (updateGammaRay_on ob)) = add3 (position ob) v \<and>
          life (snd (updateGammaRay_on ob)) = Some (l - dc) \<and>
          (\<forall>i. beam ob = Some i \<and> i < length (children ob) \<and> c_material (children ob ! i)
             \<longrightarrow> c_opacity (children (snd (updateGammaRay_on ob)) ! i) = Some (l - dc)))"
  proof (intro allI impI)
    fix dc assume d: "decay ob = Some dc"
    note W = wave_advances[OF assms(1) d]
    note N = nucleus_advances[OF assms(1) d]
    note G = gamma_advances[OF assms(1) d]
    have g: "\<forall>v. velocity ob = Some v \<longrightarrow>
          position (snd (updateGammaRay_on ob)) = add3 (position ob) v \<and>
          life (snd (updateGammaRay_on ob)) = Some (l - dc) \<and>
          (\<forall>i. beam ob = Some i \<and> i < length (children ob) \<and> c_material (children ob ! i)
             \<longrightarrow> c_opacity (children (snd (updateGammaRay_on ob)) ! i) = Some (l - dc))"
      using G by blast
    have w: "\<forall>i<length (children ob).
          c_scale (children (snd (updateEnergyWave_on ob)) ! i)
            = (let e = max 0.1 (currentRadius ob + 0.15
                         - (case c_delay (children ob ! i) of None \<Rightarrow> 0 | Some x \<Rightarrow> x) * 5)
               in Vec3 e e e)"
      using W(4) by blast
    show "life (snd (updateEnergyWave_on ob)) = Some (l - dc) \<and>
       currentRadius (snd (updateEnergyWave_on ob)) = currentRadius ob + 0.15 \<and>
       position (snd (updateEnergyWave_on ob)) = position ob \<and>
       (\<forall>i<length (children ob).
          c_scale (children (snd (updateEnergyWave_on ob)) ! i)
            = (let e = max 0.1 (currentRadius ob + 0.15
                         - (case c_delay (children ob ! i) of None \<Rightarrow> 0 | Some x \<Rightarrow> x) * 5)
               in Vec3 e e e)) \<and>
       life (snd (updateCompoundNucleus_on ob)) = Some (l - dc) \<and>
       pulsePhase (snd (updateCompoundNucleus_on ob)) = pulsePhase ob + 0.15 \<and>
       position (snd (updateCompoundNucleus_on ob)) = position ob \<and>
       life (snd (updateExcitedTarget_on ob)) = Some (l - dc) \<and>
       vibPhase (snd (updateExcitedTarget_on ob)) = vibPhase ob + 0.12 \<and>
       position (snd (updateExcitedTarget_on ob)) = position ob \<and>
       (\<forall>v. velocity ob = Some v \<longrightarrow>
          position (snd (updateGammaRay_on ob)) = add3 (position ob) v \<and>
          life (snd (updateGammaRay_on ob)) = Some (l - dc) \<and>
          (\<forall>i. beam ob = Some i \<and> i < length (children ob) \<and> c_material (children ob ! i)
             \<longrightarrow> c_opacity (children (snd (updateGammaRay_on ob)) ! i) = Some (l - dc)))"
      by (intro conjI; (rule W(1) | rule W(2) | rule W(3) | rule w | rule N(1) | rule N(2)
            | rule N(3) | rule N(4) | rule N(5) | rule N(6) | rule g))
  qed
  have c9: "\<forall>dc p ps w kept w'.
       decay ob = Some dc \<and> 0 \<le> dc \<and> heap w p = ob \<and>
       updateExplosion ps w = (Returned kept, w') \<longrightarrow> p \<notin> set kept"
    using updateExplosion_dead assms by blast
  have c10: "\<forall>dc v p w.
       decay ob = Some dc \<and> 0 \<le> dc \<and> velocity ob = Some v \<and> material ob \<and> heap w p = ob
       \<longrightarrow> fst (updateExplosion [p] w) = Returned [] \<and>
           position (heap (snd (updateExplosion [p] w)) p) = add3 (position ob) v \<and>
           opacity (heap (snd (updateExplosion [p] w)) p) = Some (l - dc) \<and>
           life (heap (snd (updateExplosion [p] w)) p) = Some (l - dc)"
  proof (intro allI impI)
    fix dc v p and w :: world
    assume h: "decay ob = Some dc \<and> 0 \<le> dc \<and> velocity ob = Some v \<and> material ob \<and>
      heap w p = ob"
    then have e: "heap w p = ob" by simp
    show "fst (updateExplosion [p] w) = Returned [] \<and>
           position (heap (snd (updateExplosion [p] w)) p) = add3 (position ob) v \<and>
           opacity (heap (snd (updateExplosion [p] w)) p) = Some (l - dc) \<and>
           life (heap (snd (updateExplosion [p] w)) p) = Some (l - dc)"
      using particle_advances[of w p l dc v] h assms unfolding e by blast
  qed
  show ?thesis
    by (intro conjI; (rule F(1) | rule F(2) | rule F(3) | rule c4 | rule c5 | rule c6 | rule c7
          | rule c8 | rule c9 | rule c10))
qed

lemma spentFlash_simps:
  "life spentFlash = Some 0" "decay spentFlash = None" "ring spentFlash = Some 0"
  "flash spentFlash = Some 1" "length (children spentFlash) = 2"
  "c_material (children spentFlash ! 0)" "position spentFlash = Vec3 3 0 0"
  by (simp_all add: spentFlash_def createAbsorptionFlash_def emptyWorld_def alloc_def
      group_def mesh_def)

theorem dead_is_reported_witness:
  "life spentFlash = Some 0 \<and> decay spentFlash = None \<and>
   \<not> fst (updateAbsorptionFlash_on spentFlash) \<and>
   life (snd (updateAbsorptionFlash_on spentFlash)) = Some (- 0.03) \<and>
   c_scale (children (snd (updateAbsorptionFlash_on spentFlash)) ! 0) = Vec3 3.06 3.06 3.06 \<and>
   c_opacity (children (snd (updateAbsorptionFlash_on spentFlash)) ! 0) = Some (- 0.03) \<and>
   life spentGamma = Some 0 \<and> decay spentGamma = Some 0.025 \<and>
   fst (updateGammaRay_on spentGamma) = Returned False \<and>
   position (snd (updateGammaRay_on spentGamma)) = Vec3 3.8 0 0 \<and>
   life (snd (updateGammaRay_on spentGamma)) = Some (- 0.025) \<and>
   life spentParticle = Some 0 \<and> decay spentParticle = Some 0.03 \<and>
   heap spentWorld 2 = spentParticle \<and>
   fst (updateExplosion [2] spentWorld) = Returned [] \<and>
   position (heap (snd (updateExplosion [2] spentWorld)) 2) = Vec3 3.1 0 0 \<and>
   opacity (heap (snd (updateExplosion [2] spentWorld)) 2) = Some (- 0.03) \<and>
   \<not> fst (updateEnergyWave_on spentParticle)"
proof -
  have z: "(0::real) \<le> 0" by simp
  note A = dead_is_reported[OF spentFlash_simps(1) z]
  have a1: "\<not> fst (updateAbsorptionFlash_on spentFlash)"
    "life (snd (updateAbsorptionFlash_on spentFlash)) = Some (- 0.03)"
    using A by simp_all
  have "ring spentFlash = Some 0 \<and> 0 < length (children spentFlash) \<and>
      flash spentFlash \<noteq> Some 0" by (simp add: spentFlash_simps)
  then have a2: "c_scale (children (snd (updateAbsorptionFlash_on spentFlash)) ! 0)
      = Vec3 3.06 3.06 3.06"
    "c_opacity (children (snd (updateAbsorptionFlash_on spentFlash)) ! 0) = Some (- 0.03)"
    using A spentFlash_simps(6) by auto
  have g: "life spentGamma = Some 0" "decay spentGamma = Some 0.025"
    "velocity spentGamma = Some (Vec3 0.8 0 0)" "position spentGamma = Vec3 3 0 0"
    by (simp_all add: spentGamma_def group_def)
  note B = dead_is_reported[OF g(1) z]
  have "(\<forall>dc. decay spentGamma = Some dc \<longrightarrow> 0 \<le> dc) \<and> velocity spentGamma \<noteq> None"
    using g by simp
  then have b1: "fst (updateGammaRay_on spentGamma) = Returned False" using B by blast
  have "\<forall>dc. decay spentGamma = Some dc \<longrightarrow> (\<forall>v. velocity spentGamma = Some v \<longrightarrow>
      position (snd (updateGammaRay_on spentGamma)) = add3 (position spentGamma) v \<and>
      life (snd (updateGammaRay_on spentGamma)) = Some (0 - dc))"
    using B by blast
  from this[rule_format, OF g(2) g(3)]
  have b2: "position (snd (updateGammaRay_on spentGamma)) = Vec3 3.8 0 0"
    "life (snd (updateGammaRay_on spentGamma)) = Some (- 0.025)"
    using g(4) by (simp_all add: add3_def)
  note b = b1 b2
  have p: "life spentParticle = Some 0" "decay spentParticle = Some 0.03"
    "velocity spentParticle = Some (Vec3 0.1 0 0)" "material spentParticle"
    "position spentParticle = Vec3 3 0 0"
    by (simp_all add: spentParticle_def group_def)
  note C = dead_is_reported[OF p(1) z]
  have "\<forall>dc v q w.
       decay spentParticle = Some dc \<and> 0 \<le> dc \<and> velocity spentParticle = Some v \<and>
       material spentParticle \<and> heap w q = spentParticle
       \<longrightarrow> fst (updateExplosion [q] w) = Returned [] \<and>
           position (heap (snd (updateExplosion [q] w)) q) = add3 (position spentParticle) v \<and>
           opacity (heap (snd (updateExplosion [q] w)) q) = Some (0 - dc)"
    using C by blast
  from this[rule_format, of "0.03" "Vec3 0.1 0 0" spentWorld 2]
  have c1: "fst (updateExplosion [2] spentWorld) = Returned []"
    "position (heap (snd (updateExplosion [2] spentWorld)) 2) = Vec3 3.1 0 0"
    "opacity (heap (snd (updateExplosion [2] spentWorld)) 2) = Some (- 0.03)"
    using p spentWorld_heap(1) by (simp_all add: add3_def)
  have "\<forall>dc. decay spentParticle = Some dc \<longrightarrow> 0 \<le> dc" using p(2) by simp
  then have c2: "\<not> fst (updateEnergyWave_on spentParticle)"
    using C by blast
  show ?thesis
    using a1 a2 b c1 c2 g(1,2) p(1,2) spentFlash_simps(1,2) spentWorld_heap(1) by simp
qed

subsection \<open>A dead explosion particle outside the \<open>decay\<close> phase\<close>

lemma dyingWorld_simps:
  "heap dyingWorld 2 = dyingParticle" "scene dyingWorld = {0, 1, 2}"
  by (auto simp add: dyingWorld_def alloc_def scene_add_def demoWorld_def emptyWorld_def
      createTargetNucleus_def createDeuteron_def Let_def)

text \<open>
  C7 is broken by the nonelastic update outside the \<open>decay\<close> and \<open>absorption\<close> phases. In
  the \<open>compound\<close> phase, one tick takes the particle's life from 0.01 to -0.02, and the
  particle is still in \<open>effects\<close> and in the scene: \<open>updateExplosion\<close> splices it out of
  the filtered copy it was given. The same tick in the \<open>absorption\<close> phase, where
  \<open>updateEffects\<close> runs, removes it from both.
\<close>

theorem dead_particle_stays:
  "updateNonelasticBreakup 1 dyingAnimation 0.016 dyingWorld
     = (Returned False, fst (snd (updateNonelasticBreakup 1 dyingAnimation 0.016 dyingWorld)),
        snd (snd (updateNonelasticBreakup 1 dyingAnimation 0.016 dyingWorld))) \<and>
   life (heap (snd (snd (updateNonelasticBreakup 1 dyingAnimation 0.016 dyingWorld))) 2)
     = Some (- 0.02) \<and>
   effects (fst (snd (updateNonelasticBreakup 1 dyingAnimation 0.016 dyingWorld))) = [2] \<and>
   2 \<in> scene (snd (snd (updateNonelasticBreakup 1 dyingAnimation 0.016 dyingWorld))) \<and>
   effects (fst (snd (updateNonelasticBreakup 1 (dyingAnimation\<lparr>phase := Absorption\<rparr>) 0.016
      dyingWorld))) = [] \<and>
   2 \<notin> scene (snd (snd (updateNonelasticBreakup 1 (dyingAnimation\<lparr>phase := Absorption\<rparr>)
      0.016 dyingWorld)))"
  by (simp add: updateNonelasticBreakup_def nonelasticSwitch_def compoundPhase_def
      nucleusStep_def escapingDrift_def cascadeStep_def updateGammas_def
      absorptionPhase_def updateEffects_def updateEffect_def escapingFlight_def
      updateExplosion_def dyingAnimation_def createNonelasticBreakup_def
      dyingWorld_simps dyingParticle_def group_def modify_def scene_remove_def
      jsub_def jnonpos_def jmax0_def Let_def)

subsection \<open>What each update touches\<close>

lemma touches_refl [simp]: "touches X w w"
  by (simp add: touches_def)

lemma touches_trans: "touches X w w1 \<Longrightarrow> touches Y w1 w2 \<Longrightarrow> touches (X \<union> Y) w w2"
  by (auto simp: touches_def)

lemma touches_mono: "touches X w w' \<Longrightarrow> X \<subseteq> Y \<Longrightarrow> touches Y w w'"
  by (auto simp: touches_def)

lemma touches_modify [simp]: "touches {i} w (modify i f w)"
  by (simp add: touches_def)

lemma touches_scene_remove [simp]: "touches {i} w (scene_remove i w)"
  by (auto simp add: touches_def)

lemma updateTrail_touches: "updateTrail t w = (r, w') \<Longrightarrow> touches {t} w w'"
  by (auto simp: updateTrail_def split: if_splits option.splits)

lemma trailAt_touches: "trailAt trs i w = (r, w') \<Longrightarrow> touches (set trs) w w'"
  by (auto simp: trailAt_def split: if_splits dest!: updateTrail_touches
      intro: touches_mono)

lemma drift_touches: "drift s f w = (r, w') \<Longrightarrow> touches {f} w w'"
  by (auto simp: drift_def split: option.splits)

lemma fragmentStep_touches: "fragmentStep s tg f w = (r, w') \<Longrightarrow> touches {f} w w'"
  by (auto simp: fragmentStep_def Let_def split: option.splits)

lemma updateGammaRay_touches: "updateGammaRay g w = (r, w') \<Longrightarrow> touches {g} w w'"
  by (auto simp: updateGammaRay_def split: prod.splits)

lemma updateEnergyWave_touches: "updateEnergyWave e w = (r, w') \<Longrightarrow> touches {e} w w'"
  by (auto simp: updateEnergyWave_def split: prod.splits)

lemma updateCompoundNucleus_touches: "updateCompoundNucleus c w = (r, w') \<Longrightarrow> touches {c} w w'"
  by (auto simp: updateCompoundNucleus_def split: prod.splits)

lemma updateExcitedTarget_touches: "updateExcitedTarget c w = (r, w') \<Longrightarrow> touches {c} w w'"
  by (auto simp: updateExcitedTarget_def split: prod.splits)

lemma updateAbsorptionFlash_touches: "updateAbsorptionFlash c w = (r, w') \<Longrightarrow> touches {c} w w'"
  by (auto simp: updateAbsorptionFlash_def split: prod.splits)

lemma filterGammas_touches:
  "filterGammas gs w = (r, w') \<Longrightarrow> touches (set gs) w w'"
proof (induction gs arbitrary: w r w')
  case Nil
  then show ?case by simp
next
  case (Cons g gs)
  obtain r1 w1 where U: "updateGammaRay g w = (r1, w1)" by (cases "updateGammaRay g w") auto
  note T1 = updateGammaRay_touches[OF U]
  show ?case
  proof (cases r1)
    case Threw
    then show ?thesis using Cons.prems U T1 by (auto intro: touches_mono)
  next
    case (Returned alive)
    let ?w2 = "if alive then w1 else scene_remove g w1"
    have T2: "touches {g} w ?w2"
      using T1 touches_trans[OF T1 touches_scene_remove[of g w1]] by simp
    obtain r3 w3 where F: "filterGammas gs ?w2 = (r3, w3)"
      by (cases "filterGammas gs ?w2") auto
    have "w' = w3" using Cons.prems U Returned F by (auto split: outcome.splits)
    then show ?thesis using touches_trans[OF T2 Cons.IH[OF F]] by simp
  qed
qed

lemma filterWaves_touches:
  "filterWaves es w = (r, w') \<Longrightarrow> touches (set es) w w'"
proof (induction es arbitrary: w r w')
  case Nil
  then show ?case by simp
next
  case (Cons e es)
  obtain alive w1 where U: "updateEnergyWave e w = (alive, w1)"
    by (cases "updateEnergyWave e w") auto
  note T1 = updateEnergyWave_touches[OF U]
  let ?w2 = "if alive then w1 else scene_remove e w1"
  have T2: "touches {e} w ?w2"
    using T1 touches_trans[OF T1 touches_scene_remove[of e w1]] by simp
  obtain r3 w3 where F: "filterWaves es ?w2 = (r3, w3)"
    by (cases "filterWaves es ?w2") auto
  have "w' = w3" using Cons.prems U F by (auto split: prod.splits)
  then show ?case using touches_trans[OF T2 Cons.IH[OF F]] by simp
qed

lemma updateEffect_touches: "updateEffect e w = (r, w') \<Longrightarrow> touches {e} w w'"
proof (cases "ring (heap w e) \<noteq> None")
  case True
  assume A: "updateEffect e w = (r, w')"
  obtain alive w1 where U: "updateAbsorptionFlash e w = (alive, w1)"
    by (cases "updateAbsorptionFlash e w") auto
  have "w' = (if alive then w1 else scene_remove e w1)"
    using A True U by (auto simp: updateEffect_def)
  then show ?thesis
    using updateAbsorptionFlash_touches[OF U]
      touches_trans[OF updateAbsorptionFlash_touches[OF U] touches_scene_remove[of e w1]]
    by auto
next
  case False
  assume A: "updateEffect e w = (r, w')"
  show ?thesis
  proof (cases "velocity (heap w e)")
    case None
    then show ?thesis using A False by (simp add: updateEffect_def)
  next
    case (Some v)
    show ?thesis
      using A False Some
      by (auto simp: updateEffect_def Let_def touches_def split: if_splits)
  qed
qed

lemma filterEffects_touches:
  "filterEffects es w = (r, w') \<Longrightarrow> touches (set es) w w'"
proof (induction es arbitrary: w r w')
  case Nil
  then show ?case by simp
next
  case (Cons e es)
  obtain alive w1 where U: "updateEffect e w = (alive, w1)" by (cases "updateEffect e w") auto
  obtain r3 w3 where F: "filterEffects es w1 = (r3, w3)" by (cases "filterEffects es w1") auto
  have "w' = w3" using Cons.prems U F by (auto split: prod.splits)
  then show ?case using touches_trans[OF updateEffect_touches[OF U] Cons.IH[OF F]] by simp
qed

lemma updateExplosion_from_touches:
  "updateExplosion_from ps w = (r, w') \<Longrightarrow> touches (set ps) w w'"
proof (induction ps arbitrary: w r w')
  case Nil
  then show ?case by simp
next
  case (Cons p ps)
  show ?case
  proof (cases "velocity (heap w p)")
    case None
    then show ?thesis using Cons.prems by simp
  next
    case (Some v)
    let ?w1 = "modify p (\<lambda>ob. ob\<lparr>position := add3 (position ob) v,
        velocity := Some (multiplyScalar v 0.95), life := jsub (life ob) (decay ob)\<rparr>) w"
    let ?w2 = "modify p (\<lambda>ob. ob\<lparr>opacity := life ob\<rparr>) ?w1"
    have T1: "touches {p} w ?w1" by simp
    have T2: "touches {p} w ?w2" by (simp add: touches_def)
    show ?thesis
    proof (cases "material (heap ?w1 p)")
      case False
      then have "w' = ?w1" using Cons.prems Some by (simp add: Let_def)
      then show ?thesis by (simp add: touches_def)
    next
      case True
      obtain r3 w3 where F: "updateExplosion_from ps ?w2 = (r3, w3)"
        by (cases "updateExplosion_from ps ?w2") auto
      have "w' = w3" using Cons.prems Some True F by (auto simp: Let_def split: outcome.splits)
      then show ?thesis using touches_trans[OF T2 Cons.IH[OF F]] by simp
    qed
  qed
qed

lemma updateExplosion_touches:
  "updateExplosion ps w = (r, w') \<Longrightarrow> touches (set ps) w w'"
  using updateExplosion_from_touches[of "rev ps" w]
  by (auto simp: updateExplosion_def split: prod.splits outcome.splits)

subsection \<open>The \<open>absorption\<close> phase against the \<open>decay\<close> phase\<close>

lemma touches_agree: "touches X w w' \<Longrightarrow> agree X w' w"
  by (auto simp: touches_def agree_def)

lemma agree_modify:
  "agree X w1 w2 \<Longrightarrow> e \<notin> X \<Longrightarrow> agree X (modify e f w1) (modify e f w2)"
  by (auto simp: agree_def)

lemma agree_scene_remove:
  "agree X w1 w2 \<Longrightarrow> agree X (scene_remove e w1) (scene_remove e w2)"
  by (auto simp: agree_def)

lemma agree_heap: "agree X w1 w2 \<Longrightarrow> e \<notin> X \<Longrightarrow> heap w1 e = heap w2 e"
  by (simp add: agree_def)

lemma updateEffect_agree:
  assumes "agree X w1 w2" and "e \<notin> X"
  shows "fst (updateEffect e w1) = fst (updateEffect e w2) \<and>
         agree X (snd (updateEffect e w1)) (snd (updateEffect e w2))"
proof -
  have h: "heap w1 e = heap w2 e" using assms by (rule agree_heap)
  show ?thesis
    using assms h
    by (auto simp: updateEffect_def updateAbsorptionFlash_def Let_def split_def
        agree_modify agree_scene_remove split: option.splits)
qed

lemma filterEffects_agree:
  assumes "agree X w1 w2" and "set es \<inter> X = {}"
  shows "fst (filterEffects es w1) = fst (filterEffects es w2) \<and>
         agree X (snd (filterEffects es w1)) (snd (filterEffects es w2))"
  using assms
proof (induction es arbitrary: w1 w2)
  case Nil
  then show ?case by simp
next
  case (Cons e es)
  have e: "e \<notin> X" and es: "set es \<inter> X = {}" using Cons.prems(2) by auto
  note U = updateEffect_agree[OF Cons.prems(1) e]
  note I = Cons.IH[OF conjunct2[OF U] es]
  show ?case using U I by (simp add: split_def Let_def)
qed

lemma drift_agree:
  assumes "agree X w1 w2" and "f \<notin> X"
  shows "fst (drift s f w1) = fst (drift s f w2) \<and>
         agree X (snd (drift s f w1)) (snd (drift s f w2))"
proof -
  have h: "heap w1 f = heap w2 f" using assms by (rule agree_heap)
  show ?thesis using assms h by (auto simp: drift_def agree_modify split: option.splits)
qed

lemma updateTrail_agree:
  assumes "agree X w1 w2" and "t \<notin> X" and "set_option (particle (heap w1 t)) \<inter> X = {}"
  shows "fst (updateTrail t w1) = fst (updateTrail t w2) \<and>
         agree X (snd (updateTrail t w1)) (snd (updateTrail t w2))"
proof -
  have h: "heap w1 t = heap w2 t" using assms(1,2) by (rule agree_heap)
  have te: "trailsEnabled w1 = trailsEnabled w2" using assms(1) by (simp add: agree_def)
  have q: "\<And>q. particle (heap w2 t) = Some q \<Longrightarrow> heap w1 q = heap w2 q"
    using assms h by (auto simp: agree_def)
  show ?thesis
    using assms(1,2) h te q
    by (auto simp: updateTrail_def agree_modify split: option.splits)
qed

lemma trailAt_agree:
  assumes "agree X w1 w2" and "set trs \<inter> X = {}"
    and "\<forall>t \<in> set trs. set_option (particle (heap w1 t)) \<inter> X = {}"
  shows "fst (trailAt trs i w1) = fst (trailAt trs i w2) \<and>
         agree X (snd (trailAt trs i w1)) (snd (trailAt trs i w2))"
proof (cases "i < length trs")
  case True
  then have m: "trs ! i \<in> set trs" by simp
  then have "trs ! i \<notin> X" "set_option (particle (heap w1 (trs ! i))) \<inter> X = {}"
    using assms(2,3) by auto
  from updateTrail_agree[OF assms(1) this] show ?thesis using True by (simp add: trailAt_def)
next
  case False
  then show ?thesis using assms(1) by (simp add: trailAt_def)
qed

lemma updateExplosion_from_agree:
  assumes "agree X w1 w2" and "set ps \<inter> X = {}"
  shows "fst (updateExplosion_from ps w1) = fst (updateExplosion_from ps w2) \<and>
         agree X (snd (updateExplosion_from ps w1)) (snd (updateExplosion_from ps w2))"
  using assms
proof (induction ps arbitrary: w1 w2)
  case Nil
  then show ?case by simp
next
  case (Cons p ps)
  have p: "p \<notin> X" and ps: "set ps \<inter> X = {}" using Cons.prems(2) by auto
  have h: "heap w1 p = heap w2 p" using Cons.prems(1) p by (rule agree_heap)
  show ?case
  proof (cases "velocity (heap w2 p)")
    case None
    then show ?thesis using h Cons.prems(1) by simp
  next
    case (Some v)
    let ?f = "\<lambda>ob. ob\<lparr>position := add3 (position ob) v,
        velocity := Some (multiplyScalar v 0.95), life := jsub (life ob) (decay ob)\<rparr>"
    let ?g = "\<lambda>ob. ob\<lparr>opacity := life ob\<rparr>"
    have a1: "agree X (modify p ?f w1) (modify p ?f w2)"
      using Cons.prems(1) p by (rule agree_modify)
    have a2: "agree X (modify p ?g (modify p ?f w1)) (modify p ?g (modify p ?f w2))"
      using a1 p by (rule agree_modify)
    note I = Cons.IH[OF a2 ps]
    show ?thesis
      using Some h a1 I
      by (simp add: Let_def split_def split: outcome.splits)
  qed
qed

lemma updateExplosion_agree:
  assumes "agree X w1 w2" and "set ps \<inter> X = {}"
  shows "fst (updateExplosion ps w1) = fst (updateExplosion ps w2) \<and>
         agree X (snd (updateExplosion ps w1)) (snd (updateExplosion ps w2))"
proof -
  have "set (rev ps) \<inter> X = {}" using assms(2) by simp
  from updateExplosion_from_agree[OF assms(1) this] show ?thesis
    by (auto simp: updateExplosion_def split_def split: outcome.splits)
qed

lemma filterEffects_subset: "set (fst (filterEffects es w)) \<subseteq> set es"
  by (induction es arbitrary: w) (auto simp: split_def Let_def)

lemma updateEffect_particle:
  "particle (heap (snd (updateEffect e w)) i) = particle (heap w i)"
  by (auto simp: updateEffect_def updateAbsorptionFlash_def updateAbsorptionFlash_on_def
      Let_def split_def split: option.splits)

lemma filterEffects_particle:
  "particle (heap (snd (filterEffects es w)) i) = particle (heap w i)"
  by (induction es arbitrary: w) (simp_all add: split_def Let_def updateEffect_particle)

lemma drift_particle: "particle (heap (snd (drift s f w)) i) = particle (heap w i)"
  by (auto simp: drift_def split: option.splits)

lemma updateEnergyWave_velocity:
  "velocity (heap (snd (updateEnergyWave e w)) i) = velocity (heap w i)"
  by (auto simp: updateEnergyWave_def updateEnergyWave_on_def Let_def split_def)

lemma filterWaves_velocity:
  "velocity (heap (snd (filterWaves es w)) i) = velocity (heap w i)"
  by (induction es arbitrary: w) (simp_all add: split_def Let_def updateEnergyWave_velocity)

lemma updateGammaRay_velocity:
  "velocity (heap (snd (updateGammaRay g w)) i) = velocity (heap w i)"
  by (auto simp: updateGammaRay_def updateGammaRay_on_def Let_def split_def
      split: option.splits)

lemma updateGammaRay_returns:
  "velocity (heap w g) \<noteq> None \<Longrightarrow> fst (updateGammaRay g w) \<noteq> Threw"
  by (auto simp: updateGammaRay_def updateGammaRay_on_def Let_def split_def)

lemma filterGammas_returns:
  "\<forall>g \<in> set gs. velocity (heap w g) \<noteq> None \<Longrightarrow> fst (filterGammas gs w) \<noteq> Threw"
proof (induction gs arbitrary: w)
  case Nil
  then show ?case by simp
next
  case (Cons g gs)
  obtain r1 w1 where U: "updateGammaRay g w = (r1, w1)" by (cases "updateGammaRay g w") auto
  have r1: "r1 \<noteq> Threw" using updateGammaRay_returns[of w g] Cons.prems U by simp
  then obtain alive where al: "r1 = Returned alive" by (cases r1) auto
  have v: "\<And>i. velocity (heap w1 i) = velocity (heap w i)"
    using updateGammaRay_velocity[of g w] U by simp
  let ?w2 = "if alive then w1 else scene_remove g w1"
  have "\<forall>g \<in> set gs. velocity (heap ?w2 g) \<noteq> None" using Cons.prems v by simp
  from Cons.IH[OF this] have "fst (filterGammas gs ?w2) \<noteq> Threw" .
  then show ?case using U al
    by (cases "filterGammas gs ?w2"; cases "fst (filterGammas gs ?w2)") auto
qed

lemma escapingFlight_agree:
  assumes "agree X w1 w2"
    and "escapingFragment a1 = escapingFragment a2" and "trails a1 = trails a2"
    and "target a1 = target a2"
    and "set_option (escapingFragment a1) \<inter> X = {}" and "set_option (target a1) \<inter> X = {}"
    and "set (trails a1) \<inter> X = {}"
    and "\<forall>t \<in> set (trails a1). set_option (particle (heap w1 t)) \<inter> X = {}"
  shows "\<exists>r c v1 v2. escapingFlight s a1 w1 = (r, if c then a1\<lparr>phase := Complete\<rparr> else a1, v1) \<and>
           escapingFlight s a2 w2 = (r, if c then a2\<lparr>phase := Complete\<rparr> else a2, v2) \<and>
           agree X v1 v2"
proof (cases "escapingFragment a1")
  case None
  then have "escapingFlight s a1 w1 = (Returned (), if False then a1\<lparr>phase := Complete\<rparr> else a1, w1)"
    "escapingFlight s a2 w2 = (Returned (), if False then a2\<lparr>phase := Complete\<rparr> else a2, w2)"
    using assms(2) by (simp_all add: escapingFlight_def)
  then show ?thesis using assms(1) by blast
next
  case (Some f)
  have f: "f \<notin> X" using Some assms(5) by simp
  have f2: "escapingFragment a2 = Some f" using Some assms(2) by simp
  note D = drift_agree[OF assms(1) f, of s]
  obtain r1 v1 where d1: "drift s f w1 = (r1, v1)" by (cases "drift s f w1") auto
  obtain r2 v2 where d2: "drift s f w2 = (r2, v2)" by (cases "drift s f w2") auto
  have r: "r2 = r1" and av: "agree X v1 v2" using D d1 d2 by simp_all
  show ?thesis
  proof (cases r1)
    case Threw
    then have "escapingFlight s a1 w1 = (Threw, if False then a1\<lparr>phase := Complete\<rparr> else a1, v1)"
      "escapingFlight s a2 w2 = (Threw, if False then a2\<lparr>phase := Complete\<rparr> else a2, v2)"
      using Some f2 d1 d2 r by (simp_all add: escapingFlight_def)
    then show ?thesis using av by blast
  next
    case (Returned u)
    have pv: "\<forall>t \<in> set (trails a1). set_option (particle (heap v1 t)) \<inter> X = {}"
      using assms(8) drift_particle[of s f w1] d1 by simp
    note T = trailAt_agree[OF av assms(7) pv, of 0]
    obtain q1 x1 where t1: "trailAt (trails a1) 0 v1 = (q1, x1)"
      by (cases "trailAt (trails a1) 0 v1") auto
    obtain q2 x2 where t2: "trailAt (trails a1) 0 v2 = (q2, x2)"
      by (cases "trailAt (trails a1) 0 v2") auto
    have q: "q2 = q1" and ax: "agree X x1 x2" using T t1 t2 by simp_all
    have t2': "trailAt (trails a2) 0 v2 = (q1, x2)" using t2 q assms(3) by simp
    show ?thesis
    proof (cases q1)
      case Threw
      then have "escapingFlight s a1 w1 = (Threw, if False then a1\<lparr>phase := Complete\<rparr> else a1, x1)"
        "escapingFlight s a2 w2 = (Threw, if False then a2\<lparr>phase := Complete\<rparr> else a2, x2)"
        using Some f2 d1 d2 r Returned t1 t2' by (simp_all add: escapingFlight_def)
      then show ?thesis using ax by blast
    next
      case Q: (Returned u')
      show ?thesis
      proof (cases "target a1")
        case None
        then have "escapingFlight s a1 w1 = (Threw, if False then a1\<lparr>phase := Complete\<rparr> else a1, x1)"
          "escapingFlight s a2 w2 = (Threw, if False then a2\<lparr>phase := Complete\<rparr> else a2, x2)"
          using Some f2 d1 d2 r Returned t1 t2' Q assms(4) by (simp_all add: escapingFlight_def)
        then show ?thesis using ax by blast
      next
        case T: (Some t)
        have t: "t \<notin> X" using T assms(6) by simp
        have h: "heap x2 f = heap x1 f" "heap x2 t = heap x1 t"
          using ax f t by (auto simp: agree_def)
        let ?c = "15 < distanceTo (position (heap x1 f)) (position (heap x1 t))"
        have "escapingFlight s a1 w1 = (Returned (), if ?c then a1\<lparr>phase := Complete\<rparr> else a1, x1)"
          "escapingFlight s a2 w2 = (Returned (), if ?c then a2\<lparr>phase := Complete\<rparr> else a2, x2)"
          using Some f2 d1 d2 r Returned t1 t2' Q T assms(4) h
          by (simp_all add: escapingFlight_def)
        then show ?thesis using ax by blast
      qed
    qed
  qed
qed

lemma nonelastic_tail:
  assumes "agree X w1 w2" and "effects a1 = effects a2" and "set (effects a1) \<inter> X = {}"
  shows "fst (updateExplosion (filter (\<lambda>e. velocity (heap w1 e) \<noteq> None) (effects a1)) w1)
           = fst (updateExplosion (filter (\<lambda>e. velocity (heap w2 e) \<noteq> None) (effects a2)) w2) \<and>
         agree X (snd (updateExplosion (filter (\<lambda>e. velocity (heap w1 e) \<noteq> None) (effects a1)) w1))
           (snd (updateExplosion (filter (\<lambda>e. velocity (heap w2 e) \<noteq> None) (effects a2)) w2))"
proof -
  have "filter (\<lambda>e. velocity (heap w1 e) \<noteq> None) (effects a1)
      = filter (\<lambda>e. velocity (heap w2 e) \<noteq> None) (effects a2)"
    using assms by (auto simp: agree_def intro!: filter_cong)
  moreover have "set (filter (\<lambda>e. velocity (heap w2 e) \<noteq> None) (effects a2)) \<inter> X = {}"
    using assms(2,3) by auto
  ultimately show ?thesis using updateExplosion_agree[OF assms(1)] by simp
qed

text \<open>
  C9. Take a nonelastic animation whose gamma rays and energy waves are objects of their
  own (\<open>apart\<close>) and whose gamma rays have a velocity. One tick from the same animation
  and world in the \<open>absorption\<close> phase and in the \<open>decay\<close> phase gives the same outcome
  (returned or thrown), the same \<open>effects\<close> collection, the same escaping fragment and
  trails, the transition to \<open>complete\<close> in both or in neither, and worlds that agree on
  every object and on the scene, the gamma rays and energy waves apart: the effects, the
  fragment and the trail are in the same state.
\<close>

theorem absorption_like_decay:
  assumes G: "gammaRays a = Some gs" and E: "energyWaves a = Some es"
    and S: "apart a w (set gs \<union> set es)"
    and V: "\<forall>g \<in> set gs. velocity (heap w g) \<noteq> None"
  shows "fst (updateNonelasticBreakup s (a\<lparr>phase := Absorption\<rparr>) d w)
           = fst (updateNonelasticBreakup s (a\<lparr>phase := Decay\<rparr>) d w) \<and>
    effects (fst (snd (updateNonelasticBreakup s (a\<lparr>phase := Absorption\<rparr>) d w)))
      = effects (fst (snd (updateNonelasticBreakup s (a\<lparr>phase := Decay\<rparr>) d w))) \<and>
    escapingFragment (fst (snd (updateNonelasticBreakup s (a\<lparr>phase := Absorption\<rparr>) d w)))
      = escapingFragment (fst (snd (updateNonelasticBreakup s (a\<lparr>phase := Decay\<rparr>) d w))) \<and>
    trails (fst (snd (updateNonelasticBreakup s (a\<lparr>phase := Absorption\<rparr>) d w)))
      = trails (fst (snd (updateNonelasticBreakup s (a\<lparr>phase := Decay\<rparr>) d w))) \<and>
    (phase (fst (snd (updateNonelasticBreakup s (a\<lparr>phase := Absorption\<rparr>) d w))) = Complete)
      = (phase (fst (snd (updateNonelasticBreakup s (a\<lparr>phase := Decay\<rparr>) d w))) = Complete) \<and>
    agree (set gs \<union> set es)
      (snd (snd (updateNonelasticBreakup s (a\<lparr>phase := Absorption\<rparr>) d w)))
      (snd (snd (updateNonelasticBreakup s (a\<lparr>phase := Decay\<rparr>) d w)))"
proof -
  define X where "X = set gs \<union> set es"
  define aD where "aD = a\<lparr>phase := Decay, time := time a + d * s\<rparr>"
  define aA where "aA = a\<lparr>phase := Absorption, time := time a + d * s\<rparr>"
  have sep: "set (effects a) \<inter> X = {}" "set_option (escapingFragment a) \<inter> X = {}"
    "set_option (target a) \<inter> X = {}" "set (trails a) \<inter> X = {}"
    "\<forall>t \<in> set (trails a). set_option (particle (heap w t)) \<inter> X = {}"
    using S by (simp_all add: apart_def X_def)
  \<comment> \<open>the decay phase first updates the waves and the gamma rays\<close>
  obtain keptE wW where W: "filterWaves es w = (keptE, wW)" by (cases "filterWaves es w") auto
  have tW: "touches (set es) w wW" using filterWaves_touches[OF W] .
  have "\<forall>g \<in> set gs. velocity (heap wW g) \<noteq> None"
    using V filterWaves_velocity[of es w] W by simp
  from filterGammas_returns[OF this] obtain keptG wG where
    Gm: "filterGammas gs wW = (Returned keptG, wG)"
    by (cases "filterGammas gs wW"; cases "fst (filterGammas gs wW)") auto
  have tG: "touches (set gs) wW wG" using filterGammas_touches[OF Gm] .
  have "touches (set es \<union> set gs) w wG" using touches_trans[OF tW tG] .
  then have ag: "agree X wG w" using touches_agree[of "set es \<union> set gs" w wG]
    by (simp add: X_def Un_commute)
  define a2 where "a2 = aD\<lparr>energyWaves := Some keptE, gammaRays := Some keptG\<rparr>"
  \<comment> \<open>from here on both phases run the same code\<close>
  note FE = filterEffects_agree[OF ag sep(1)]
  define kept where "kept = fst (filterEffects (effects a) w)"
  define w3 where "w3 = snd (filterEffects (effects a) wG)"
  define u3 where "u3 = snd (filterEffects (effects a) w)"
  have k: "fst (filterEffects (effects a) wG) = kept" and a3: "agree X w3 u3"
    using FE by (simp_all add: kept_def w3_def u3_def)
  have ksub: "set kept \<inter> X = {}" using filterEffects_subset[of "effects a" w] sep(1)
    by (auto simp: kept_def)
  define a3 where "a3 = a2\<lparr>effects := kept\<rparr>"
  define b3 where "b3 = aA\<lparr>effects := kept\<rparr>"
  have p3: "\<forall>t \<in> set (trails a3). set_option (particle (heap w3 t)) \<inter> X = {}"
  proof
    fix t assume "t \<in> set (trails a3)"
    then have t: "t \<in> set (trails a)" by (simp add: a3_def a2_def aD_def)
    then have "t \<notin> X" using sep(4) by auto
    then have "heap wG t = heap w t" using ag by (simp add: agree_def)
    then have "particle (heap w3 t) = particle (heap w t)"
      using filterEffects_particle[of "effects a" wG t] by (simp add: w3_def)
    then show "set_option (particle (heap w3 t)) \<inter> X = {}" using sep(5) t by simp
  qed
  have "\<exists>r c v1 v2. escapingFlight s a3 w3 = (r, if c then a3\<lparr>phase := Complete\<rparr> else a3, v1) \<and>
           escapingFlight s b3 u3 = (r, if c then b3\<lparr>phase := Complete\<rparr> else b3, v2) \<and>
           agree X v1 v2"
    using p3 sep
    by (intro escapingFlight_agree[OF a3])
       (simp_all add: a3_def b3_def a2_def aD_def aA_def)
  then obtain r c v1 v2 where
    F1: "escapingFlight s a3 w3 = (r, if c then a3\<lparr>phase := Complete\<rparr> else a3, v1)" and
    F2: "escapingFlight s b3 u3 = (r, if c then b3\<lparr>phase := Complete\<rparr> else b3, v2)" and
    av: "agree X v1 v2" by blast
  define a4 where "a4 = (if c then a3\<lparr>phase := Complete\<rparr> else a3)"
  define b4 where "b4 = (if c then b3\<lparr>phase := Complete\<rparr> else b3)"
  have e4: "effects a4 = kept" "effects b4 = kept"
    by (simp_all add: a4_def b4_def a3_def b3_def)
  have DP: "decayPhase s aD w = (r, a4, v1)"
    using W Gm F1 G E k
    by (simp add: decayPhase_def updateWaves_def updateGammas_def updateEffects_def aD_def
        a2_def a3_def a4_def w3_def Let_def split_def)
  have AP: "absorptionPhase s aA w = (r, b4, v2)"
    using F2 by (simp add: absorptionPhase_def updateEffects_def aA_def b3_def b4_def
        kept_def u3_def Let_def split_def)
  have tail: "fst (updateExplosion (filter (\<lambda>e. velocity (heap v1 e) \<noteq> None) (effects a4)) v1)
           = fst (updateExplosion (filter (\<lambda>e. velocity (heap v2 e) \<noteq> None) (effects b4)) v2) \<and>
         agree X (snd (updateExplosion (filter (\<lambda>e. velocity (heap v1 e) \<noteq> None) (effects a4)) v1))
           (snd (updateExplosion (filter (\<lambda>e. velocity (heap v2 e) \<noteq> None) (effects b4)) v2))"
    using nonelastic_tail[OF av, of a4 b4] e4 ksub by simp
  define xD where "xD = updateExplosion (filter (\<lambda>e. velocity (heap v1 e) \<noteq> None) (effects a4)) v1"
  define xA where "xA = updateExplosion (filter (\<lambda>e. velocity (heap v2 e) \<noteq> None) (effects b4)) v2"
  have UD: "updateNonelasticBreakup s (a\<lparr>phase := Decay\<rparr>) d w =
      (case r of Threw \<Rightarrow> (Threw, a4, v1)
       | Returned _ \<Rightarrow> (case fst xD of Threw \<Rightarrow> (Threw, a4, snd xD)
           | Returned _ \<Rightarrow> (Returned False, a4, snd xD)))"
    using DP
    by (simp add: updateNonelasticBreakup_def nonelasticSwitch_def aD_def xD_def Let_def
        split_def split: outcome.splits)
  have UA: "updateNonelasticBreakup s (a\<lparr>phase := Absorption\<rparr>) d w =
      (case r of Threw \<Rightarrow> (Threw, b4, v2)
       | Returned _ \<Rightarrow> (case fst xA of Threw \<Rightarrow> (Threw, b4, snd xA)
           | Returned _ \<Rightarrow> (Returned False, b4, snd xA)))"
    using AP
    by (simp add: updateNonelasticBreakup_def nonelasticSwitch_def aA_def xA_def Let_def
        split_def split: outcome.splits)
  have x: "fst xD = fst xA" "agree X (snd xA) (snd xD)"
    using tail by (auto simp: xD_def xA_def agree_def)
  have f4: "escapingFragment b4 = escapingFragment a4" "trails b4 = trails a4"
    "(phase b4 = Complete) = (phase a4 = Complete)"
    by (simp_all add: a4_def b4_def a3_def b3_def a2_def aD_def aA_def)
  have av': "agree X v2 v1" using av by (auto simp: agree_def)
  show ?thesis
    unfolding UD UA X_def[symmetric]
    using x e4 f4 av'
    by (cases r; cases "fst xA") simp_all
qed

lemma decayWorld_simps:
  "heap decayWorld 3 = spentGamma" "heap decayWorld 2 = dyingParticle"
  "heap decayWorld 0 = heap demoWorld 0"
  by (simp_all add: decayWorld_def dyingWorld_def alloc_def scene_add_def demoWorld_def
      emptyWorld_def createTargetNucleus_def createDeuteron_def Let_def)

theorem absorption_like_decay_witness:
  "gammaRays decayAnimation = Some [3] \<and> energyWaves decayAnimation = Some [] \<and>
   apart decayAnimation decayWorld (set [3] \<union> set []) \<and>
   velocity (heap decayWorld 3) \<noteq> None \<and>
   effects (fst (snd (updateNonelasticBreakup 1 (decayAnimation\<lparr>phase := Decay\<rparr>) 0.016
      decayWorld))) = [] \<and>
   fst (updateNonelasticBreakup 1 (decayAnimation\<lparr>phase := Decay\<rparr>) 0.016 decayWorld)
     = Returned False"
proof -
  have h1: "gammaRays decayAnimation = Some [3]" and h2: "energyWaves decayAnimation = Some []"
    by (simp_all add: decayAnimation_def dyingAnimation_def createNonelasticBreakup_def)
  have h3: "apart decayAnimation decayWorld (set [3] \<union> set [])"
    by (simp add: apart_def decayAnimation_def dyingAnimation_def createNonelasticBreakup_def)
  have h4: "\<forall>g \<in> set [3]. velocity (heap decayWorld g) \<noteq> None"
    by (simp add: decayWorld_simps spentGamma_def)
  have A: "effects (fst (snd (updateNonelasticBreakup 1 (decayAnimation\<lparr>phase := Absorption\<rparr>)
      0.016 decayWorld))) = [] \<and>
     fst (updateNonelasticBreakup 1 (decayAnimation\<lparr>phase := Absorption\<rparr>) 0.016 decayWorld)
       = Returned False"
    by (simp add: updateNonelasticBreakup_def nonelasticSwitch_def
      absorptionPhase_def updateEffects_def updateEffect_def escapingFlight_def
      updateExplosion_def decayAnimation_def dyingAnimation_def createNonelasticBreakup_def
      decayWorld_simps dyingParticle_def group_def modify_def scene_remove_def
      jsub_def jnonpos_def jmax0_def Let_def)
  show ?thesis
    using absorption_like_decay [OF h1 h2 h3 h4, of 1 "0.016"] h1 h2 h3 h4 A by simp
qed

subsection \<open>The gamma-ray cascade\<close>

lemma gammaCount_bounds: "0 \<le> r \<Longrightarrow> r < 1 \<Longrightarrow> 3 \<le> gammaCount r \<and> gammaCount r \<le> 5"
proof -
  assume r: "0 \<le> r" "r < 1"
  then have "0 \<le> \<lfloor>r * 3\<rfloor>" "\<lfloor>r * 3\<rfloor> < 3" by (simp_all add: floor_less_iff)
  then show ?thesis by (auto simp: gammaCount_def nat_le_iff)
qed

lemma createGammaRay_fresh:
  "life (heap (snd (createGammaRay pos w)) (nextId w)) = Some 1 \<and>
   decay (heap (snd (createGammaRay pos w)) (nextId w)) = Some 0.025 \<and>
   velocity (heap (snd (createGammaRay pos w)) (nextId w)) \<noteq> None"
  by (simp add: createGammaRay_def Let_def split_def)

lemma createGammaRays_fresh:
  "nextId w \<le> g \<Longrightarrow> g < nextId w + n \<Longrightarrow>
     life (heap (snd (createGammaRays pos n w)) g) = Some 1 \<and>
     decay (heap (snd (createGammaRays pos n w)) g) = Some 0.025 \<and>
     velocity (heap (snd (createGammaRays pos n w)) g) \<noteq> None"
proof (induction n arbitrary: w)
  case 0
  then show ?case by simp
next
  case (Suc n)
  let ?w1 = "snd (createGammaRay pos w)"
  show ?case
  proof (cases "g = nextId w")
    case True
    then have "g < nextId ?w1" by simp
    then have "heap (snd (createGammaRays pos n ?w1)) g = heap ?w1 g" by simp
    then show ?thesis using True createGammaRay_fresh[of pos w] by (simp add: split_def Let_def)
  next
    case False
    then have "nextId ?w1 \<le> g" "g < nextId ?w1 + n" using Suc.prems by simp_all
    from Suc.IH[OF this] show ?thesis by (simp add: split_def Let_def)
  qed
qed

lemma pushGammas_result:
  "gammaRays a = Some old \<Longrightarrow>
     pushGammas gs a w = (Returned (), a\<lparr>gammaRays := Some (old @ gs)\<rparr>, scene_add_all gs w)"
  by (induction gs arbitrary: a w old) simp_all

lemma emitGammaRays_result:
  assumes "target a = Some t" and "gammaRays a = Some old"
  shows "emitGammaRays a w =
     (Returned (),
      a\<lparr>gammaRays := Some (old @ [nextId w ..< nextId w + gammaCount (randoms w (drawn w))])\<rparr>,
      scene_add_all [nextId w ..< nextId w + gammaCount (randoms w (drawn w))]
        (snd (createGammaRays (position (heap w t)) (gammaCount (randoms w (drawn w)))
           (snd (random w)))))"
  using assms by (simp add: emitGammaRays_def Let_def split_def pushGammas_result)

lemma updateGammaRay_alive:
  assumes "velocity (heap w g) \<noteq> None" and "life (heap w g) = Some l"
    and "decay (heap w g) = Some dc"
  shows "fst (updateGammaRay g w) = Returned (0 < l - dc) \<and>
    life (heap (snd (updateGammaRay g w)) g) = Some (l - dc) \<and>
    decay (heap (snd (updateGammaRay g w)) g) = Some dc \<and>
    velocity (heap (snd (updateGammaRay g w)) g) \<noteq> None"
  using assms
  by (auto simp: updateGammaRay_def updateGammaRay_on_def Let_def split_def jsub_def jpos_def)

lemma updateGammaRay_scene: "scene (snd (updateGammaRay g w)) = scene w"
  by (simp add: updateGammaRay_def split_def Let_def)

lemma filterGammas_uniform:
  assumes "distinct gs"
    and "\<forall>g \<in> set gs. velocity (heap w g) \<noteq> None \<and> life (heap w g) = Some l \<and>
           decay (heap w g) = Some dc"
  shows "fst (filterGammas gs w) = Returned (if 0 < l - dc then gs else []) \<and>
    (\<forall>g \<in> set gs. velocity (heap (snd (filterGammas gs w)) g) \<noteq> None \<and>
        life (heap (snd (filterGammas gs w)) g) = Some (l - dc) \<and>
        decay (heap (snd (filterGammas gs w)) g) = Some dc) \<and>
    scene (snd (filterGammas gs w)) = (if 0 < l - dc then scene w else scene w - set gs)"
  using assms
proof (induction gs arbitrary: w)
  case Nil
  then show ?case by simp
next
  case (Cons g gs)
  obtain r1 w1 where U: "updateGammaRay g w = (r1, w1)" by (cases "updateGammaRay g w") auto
  have pre: "velocity (heap w g) \<noteq> None" "life (heap w g) = Some l" "decay (heap w g) = Some dc"
    using Cons.prems(2) by simp_all
  note A = updateGammaRay_alive[OF pre]
  have r1: "r1 = Returned (0 < l - dc)" using A U by simp
  have T1: "touches {g} w w1" using updateGammaRay_touches[OF U] .
  let ?w2 = "if 0 < l - dc then w1 else scene_remove g w1"
  have T2: "touches {g} w ?w2"
    using T1 touches_trans[OF T1 touches_scene_remove[of g w1]] by simp
  have g: "g \<notin> set gs" and d: "distinct gs" using Cons.prems(1) by simp_all
  have rest: "\<forall>g' \<in> set gs. velocity (heap ?w2 g') \<noteq> None \<and> life (heap ?w2 g') = Some l \<and>
           decay (heap ?w2 g') = Some dc"
  proof
    fix g' assume m: "g' \<in> set gs"
    then have "g' \<noteq> g" using g by auto
    then have "heap ?w2 g' = heap w g'" using T2 by (simp add: touches_def)
    then show "velocity (heap ?w2 g') \<noteq> None \<and> life (heap ?w2 g') = Some l \<and>
           decay (heap ?w2 g') = Some dc" using Cons.prems(2) m by simp
  qed
  note I = Cons.IH[OF d rest]
  obtain r3 w3 where F: "filterGammas gs ?w2 = (r3, w3)" by (cases "filterGammas gs ?w2") auto
  have T3: "touches (set gs) ?w2 w3" using filterGammas_touches[OF F] .
  have hg: "heap w3 g = heap w1 g" using T3 g by (simp add: touches_def)
  have R: "filterGammas (g # gs) w =
      (Returned (if 0 < l - dc then g # gs else []), w3)"
    using U r1 F I by (simp split: if_splits)
  have sc: "scene ?w2 = (if 0 < l - dc then scene w else scene w - {g})"
    using updateGammaRay_scene[of g w] U by simp
  show ?case
    unfolding R using A U I F hg sc by (auto split: if_splits)
qed

lemma nucleusStep_facts:
  assumes "nucleusStep a w = (a', w')"
  shows "a' = a\<lparr>compoundNucleus := compoundNucleus a'\<rparr> \<and>
         touches (set_option (compoundNucleus a)) w w'"
proof (cases "compoundNucleus a")
  case None
  then show ?thesis using assms by (auto simp: nucleusStep_def)
next
  case (Some c)
  obtain alive w1 where U: "updateCompoundNucleus c w = (alive, w1)"
    by (cases "updateCompoundNucleus c w") auto
  note T = updateCompoundNucleus_touches[OF U]
  show ?thesis
    using assms Some U T touches_trans[OF T touches_scene_remove[of c w1]]
    by (auto simp: nucleusStep_def Let_def split: if_splits)
qed

lemma escapingDrift_touches:
  "escapingDrift s a w = (r, w') \<Longrightarrow>
     touches (set_option (escapingFragment a) \<union> set (trails a)) w w'"
proof (cases "escapingFragment a")
  case None
  assume "escapingDrift s a w = (r, w')"
  then show ?thesis using None by (simp add: escapingDrift_def)
next
  case (Some f)
  assume A: "escapingDrift s a w = (r, w')"
  obtain r1 w1 where D: "drift s f w = (r1, w1)" by (cases "drift s f w") auto
  note T1 = drift_touches[OF D]
  show ?thesis
  proof (cases r1)
    case Threw
    then show ?thesis using A Some D T1 by (auto simp: escapingDrift_def intro: touches_mono)
  next
    case (Returned u)
    then have "trailAt (trails a) 0 w1 = (r, w')" using A Some D by (simp add: escapingDrift_def)
    from touches_trans[OF T1 trailAt_touches[OF this]] show ?thesis using Some by simp
  qed
qed

lemma initiateDecayPhase_result:
  assumes "initiateDecayPhase a w = (Returned u, a', w')" and "gammaRays a = Some old"
  shows "nextId w' = nextId w + 3 \<and>
         gammaRays a' = Some (old @ [Suc (nextId w), Suc (Suc (nextId w))]) \<and>
         phase a' = phase a"
proof -
  obtain a1 w1 where C: "(case compoundNucleus a of None \<Rightarrow> (a, w)
      | Some c \<Rightarrow> (a\<lparr>compoundNucleus := None\<rparr>, scene_remove c w)) = (a1, w1)"
    by (cases "compoundNucleus a") auto
  have f1: "gammaRays a1 = Some old" "nextId w1 = nextId w" "phase a1 = phase a"
    "energyWaves a1 = energyWaves a"
    using C assms(2) by (auto split: option.splits)
  obtain t where t: "target a1 = Some t"
    using assms(1) C by (cases "target a1") (auto simp: initiateDecayPhase_def Let_def)
  obtain es where es: "energyWaves a1 = Some es"
    using assms(1) C t
    by (cases "energyWaves a1")
       (auto simp: initiateDecayPhase_def Let_def split_def pushWave_def)
  show ?thesis
    using assms(1) C t es f1
    by (auto simp: initiateDecayPhase_def Let_def split_def pushWave_def pushGammas_result
        createEnergyWave_def eval_nat_numeral upt_rec)
qed

text \<open>
  C3 (amended). In a tick of the \<open>compound\<close> phase that returns, a cascade is emitted
  exactly when, with the resonance counter advanced by the speed, \<open>resonanceTime >
  0.6 * maxResonanceTime\<close> and \<open>gammaRays\<close> is empty. It then creates between 3 and 5 gamma
  rays, all in \<open>gammaRays\<close> after the tick. The objects created by the tick are those of
  the cascade, if any, and the three of the decay phase (a wave and two gamma rays), if
  the tick enters it. The random draws are values in \<open>[0, 1)\<close>.
\<close>

theorem cascade_per_tick:
  assumes P: "phase a = Compound" and G: "gammaRays a = Some gs"
    and R0: "0 \<le> randoms w (drawn w)" and R1: "randoms w (drawn w) < 1"
    and C: "compoundPhase s a w = (Returned u, a', w')"
  shows "(maxResonanceTime a * 0.6 < resonanceTime a + s \<and> gs = [] \<longrightarrow>
      3 \<le> gammaCount (randoms w (drawn w)) \<and> gammaCount (randoms w (drawn w)) \<le> 5 \<and>
      nextId w' = nextId w + gammaCount (randoms w (drawn w))
        + (if phase a' = Decay then 3 else 0) \<and>
      (\<exists>gs'. gammaRays a' = Some gs' \<and>
         set [nextId w ..< nextId w + gammaCount (randoms w (drawn w))] \<subseteq> set gs')) \<and>
    (\<not> (maxResonanceTime a * 0.6 < resonanceTime a + s \<and> gs = []) \<longrightarrow>
      nextId w' = nextId w + (if phase a' = Decay then 3 else 0))"
proof -
  define a1 where "a1 = a\<lparr>resonanceTime := resonanceTime a + s\<rparr>"
  define n where "n = gammaCount (randoms w (drawn w))"
  obtain a2 w1 where N: "nucleusStep a1 w = (a2, w1)" by (cases "nucleusStep a1 w") auto
  note NF = nucleusStep_facts[OF N]
  obtain c2 where c2: "a2 = a1\<lparr>compoundNucleus := c2\<rparr>" using NF by blast
  have a2: "gammaRays a2 = Some gs" "resonanceTime a2 = resonanceTime a + s"
    "maxResonanceTime a2 = maxResonanceTime a" "phase a2 = Compound" "target a2 = target a"
    using P G by (simp_all add: c2 a1_def)
  have w1: "nextId w1 = nextId w" "drawn w1 = drawn w" "randoms w1 = randoms w"
    using NF by (simp_all add: touches_def)
  obtain r2 w2 where E: "escapingDrift s a2 w1 = (r2, w2)" by (cases "escapingDrift s a2 w1") auto
  have w2: "nextId w2 = nextId w" "drawn w2 = drawn w" "randoms w2 = randoms w"
    using escapingDrift_touches[OF E] w1 by (simp_all add: touches_def)
  have r2: "r2 = Returned ()"
    using C N E by (cases r2) (auto simp: compoundPhase_def a1_def)
  obtain r3 a3 w3 where S: "cascadeStep a2 w2 = (r3, a3, w3)" by (cases "cascadeStep a2 w2") auto
  have r3: "r3 = Returned ()"
    using C N E r2 S by (cases r3) (auto simp: compoundPhase_def a1_def)
  obtain r4 a4 w4 where U: "updateGammas a3 w3 = (r4, a4, w4)" by (cases "updateGammas a3 w3") auto
  have r4: "r4 = Returned ()"
    using C N E r2 S r3 U by (cases r4) (auto simp: compoundPhase_def a1_def)
  have fin: "(if maxResonanceTime a4 < resonanceTime a4
              then initiateDecayPhase (a4\<lparr>phase := Decay\<rparr>) w4
              else (Returned (), a4, w4)) = (Returned u, a', w')"
    using C N E r2 S r3 U r4 by (simp add: compoundPhase_def a1_def)
  define trig where "trig \<longleftrightarrow> maxResonanceTime a * 0.6 < resonanceTime a + s \<and> gs = []"
  have nb: "3 \<le> n \<and> n \<le> 5" using gammaCount_bounds[OF R0 R1] by (simp add: n_def)
  \<comment> \<open>the cascade step\<close>
  have step: "(trig \<longrightarrow> gammaRays a3 = Some [nextId w ..< nextId w + n] \<and>
                 nextId w3 = nextId w + n \<and>
                 (\<forall>g \<in> set [nextId w ..< nextId w + n]. velocity (heap w3 g) \<noteq> None \<and>
                     life (heap w3 g) = Some 1 \<and> decay (heap w3 g) = Some 0.025)) \<and>
              (\<not> trig \<longrightarrow> gammaRays a3 = Some gs \<and> nextId w3 = nextId w) \<and>
              phase a3 = Compound \<and> resonanceTime a3 = resonanceTime a + s \<and>
              maxResonanceTime a3 = maxResonanceTime a"
  proof (cases trig)
    case True
    have "target a2 \<noteq> None"
    proof
      assume "target a2 = None"
      then have "cascadeStep a2 w2 = (Threw, a2, w2)"
        using True a2(1,2,3) by (simp add: cascadeStep_def emitGammaRays_def trig_def)
      then show False using S r3 by simp
    qed
    then obtain t where t: "target a2 = Some t" by auto
    have gs: "gs = []" using True by (simp add: trig_def)
    have "cascadeStep a2 w2 = emitGammaRays a2 w2"
      using True a2 by (simp add: cascadeStep_def trig_def)
    then have e: "(r3, a3, w3) = (Returned (),
        a2\<lparr>gammaRays := Some ([] @ [nextId w ..< nextId w + n])\<rparr>,
        scene_add_all [nextId w ..< nextId w + n]
          (snd (createGammaRays (position (heap w2 t)) n (snd (random w2)))))"
      using S emitGammaRays_result[OF t, of "[]" w2] a2 gs w2 by (simp add: n_def)
    have fresh: "\<forall>g \<in> set [nextId w ..< nextId w + n]. velocity (heap w3 g) \<noteq> None \<and>
                     life (heap w3 g) = Some 1 \<and> decay (heap w3 g) = Some 0.025"
    proof
      fix g assume "g \<in> set [nextId w ..< nextId w + n]"
      then have "nextId (snd (random w2)) \<le> g" "g < nextId (snd (random w2)) + n"
        using w2 by simp_all
      from createGammaRays_fresh[OF this, of "position (heap w2 t)"]
      show "velocity (heap w3 g) \<noteq> None \<and> life (heap w3 g) = Some 1 \<and>
            decay (heap w3 g) = Some 0.025" using e by simp
    qed
    show ?thesis using True e fresh a2 w2 by simp
  next
    case False
    then have "cascadeStep a2 w2 = (Returned (), a2, w2)"
      using S r3 a2 by (auto simp: cascadeStep_def trig_def split: if_splits)
    then show ?thesis using False S a2 w2 by simp
  qed
  \<comment> \<open>the update of the gamma rays\<close>
  obtain g3 where g3: "gammaRays a3 = Some g3" using step by (cases trig) auto
  obtain kept where F: "filterGammas g3 w3 = (Returned kept, w4)" and a4: "a4 = a3\<lparr>gammaRays := Some kept\<rparr>"
    using U r4 g3 by (auto simp: updateGammas_def split: prod.splits outcome.splits)
  have w4: "nextId w4 = nextId w3" using filterGammas_touches[OF F] by (simp add: touches_def)
  have keptT: "trig \<longrightarrow> kept = [nextId w ..< nextId w + n]"
  proof
    assume T: trig
    then have g3': "g3 = [nextId w ..< nextId w + n]" using step g3 by simp
    have "fst (filterGammas g3 w3) = Returned (if (0::real) < 1 - 0.025 then g3 else [])"
      using filterGammas_uniform[of g3 w3 1 "0.025"] step T g3' by simp
    then show "kept = [nextId w ..< nextId w + n]" using F g3' by simp
  qed
  \<comment> \<open>the end of the resonance\<close>
  have last: "nextId w' = nextId w4 + (if phase a' = Decay then 3 else 0) \<and>
              (\<exists>gs'. gammaRays a' = Some gs' \<and> set kept \<subseteq> set gs')"
  proof (cases "maxResonanceTime a4 < resonanceTime a4")
    case True
    then have "initiateDecayPhase (a4\<lparr>phase := Decay\<rparr>) w4 = (Returned u, a', w')"
      using fin by simp
    from initiateDecayPhase_result[OF this, of kept] show ?thesis by (auto simp: a4)
  next
    case False
    then have "a' = a4" "w' = w4" using fin by simp_all
    then show ?thesis using a4 step by simp
  qed
  show ?thesis
    unfolding trig_def[symmetric] n_def[symmetric]
    using step last w4 keptT nb by (cases trig) auto
qed

lemma gammaRays_same: "gammaRays a = Some gs \<Longrightarrow> a\<lparr>gammaRays := Some gs\<rparr> = a"
  by (cases a) simp

lemma resonating_compound:
  assumes I: "resonating n gs l r (a, w)" and le: "r + s \<le> 80"
  shows "fst (compoundPhase s a w) = Returned () \<and>
         resonating (if 48 < r + s \<and> gs = [] then n + 4 else n)
           (if 48 < r + s \<and> gs = [] then [n ..< n + 4] else if 0 < l - 0.025 then gs else [])
           (if 48 < r + s \<and> gs = [] then 0.975 else l - 0.025)
           (r + s) (snd (compoundPhase s a w))"
proof -
  define a1 where "a1 = a\<lparr>resonanceTime := r + s\<rparr>"
  have A: "atype a = ''nonelastic''" "phase a = Compound" "compoundNucleus a = None"
    "escapingFragment a = None" "effects a = []" "maxResonanceTime a = 80"
    "resonanceTime a = r" "gammaRays a = Some gs" "distinct gs" "nextId w = n"
    "randoms w = (\<lambda>_. 1 / 2)"
    and L: "\<forall>g \<in> set gs. velocity (heap w g) \<noteq> None \<and> life (heap w g) = Some l \<and>
        decay (heap w g) = Some 0.025"
    using I by (simp_all add: resonating_def)
  obtain t where t: "target a = Some t" using I by (auto simp: resonating_def)
  obtain r3 a3 w3 where S: "cascadeStep a1 w = (r3, a3, w3)" by (cases "cascadeStep a1 w") auto
  define trig where "trig \<longleftrightarrow> 48 < r + s \<and> gs = []"
  define g3 where "g3 = (if trig then [n ..< n + 4] else gs)"
  define l3 where "l3 = (if trig then 1 else l)"
  have gc: "gammaCount (1 / 2) = 4" by (simp add: gammaCount_def)
  have step: "r3 = Returned () \<and> a3 = a1\<lparr>gammaRays := Some g3\<rparr> \<and>
      nextId w3 = (if trig then n + 4 else n) \<and> randoms w3 = (\<lambda>_. 1 / 2) \<and>
      (\<forall>g \<in> set g3. velocity (heap w3 g) \<noteq> None \<and> life (heap w3 g) = Some l3 \<and>
          decay (heap w3 g) = Some 0.025)"
  proof (cases trig)
    case True
    then have gs: "gs = []" and r: "48 < r + s" by (simp_all add: trig_def)
    have "cascadeStep a1 w = emitGammaRays a1 w"
      using r gs A by (simp add: cascadeStep_def a1_def)
    then have e: "(r3, a3, w3) = (Returned (), a1\<lparr>gammaRays := Some ([] @ [n ..< n + 4])\<rparr>,
        scene_add_all [n ..< n + 4]
          (snd (createGammaRays (position (heap w t)) 4 (snd (random w)))))"
      using S emitGammaRays_result[of a1 t "[]" w] A t gs gc by (simp add: a1_def)
    have fresh: "\<forall>g \<in> set [n ..< n + 4]. velocity (heap w3 g) \<noteq> None \<and>
        life (heap w3 g) = Some 1 \<and> decay (heap w3 g) = Some 0.025"
    proof
      fix g assume "g \<in> set [n ..< n + 4]"
      then have "nextId (snd (random w)) \<le> g" "g < nextId (snd (random w)) + 4"
        using A by simp_all
      from createGammaRays_fresh[OF this, of "position (heap w t)"]
      show "velocity (heap w3 g) \<noteq> None \<and> life (heap w3 g) = Some 1 \<and>
            decay (heap w3 g) = Some 0.025" using e by simp
    qed
    show ?thesis using True e fresh A by (simp add: g3_def l3_def)
  next
    case False
    then have "cascadeStep a1 w = (Returned (), a1, w)"
      using A by (auto simp: cascadeStep_def a1_def trig_def)
    moreover have "a1\<lparr>gammaRays := Some gs\<rparr> = a1"
      using A by (intro gammaRays_same) (simp add: a1_def)
    ultimately show ?thesis using False S A L by (simp add: g3_def l3_def)
  qed
  have d3: "distinct g3" using A by (simp add: g3_def)
  note F = filterGammas_uniform[OF d3, of w3 l3 "0.025"]
  define kept where "kept = (if 0 < l3 - 0.025 then g3 else [])"
  define w4 where "w4 = snd (filterGammas g3 w3)"
  have F1: "filterGammas g3 w3 = (Returned kept, w4)"
    using F step by (simp add: kept_def w4_def prod_eq_iff)
  have T4: "touches (set g3) w3 w4" using filterGammas_touches[OF F1] .
  have U: "updateGammas a3 w3 = (Returned (), a1\<lparr>gammaRays := Some kept\<rparr>, w4)"
    using step F1 by (simp add: updateGammas_def)
  have CP: "compoundPhase s a w = (Returned (), a1\<lparr>gammaRays := Some kept\<rparr>, w4)"
    using A S step U le
    by (simp add: compoundPhase_def nucleusStep_def escapingDrift_def a1_def)
  have k: "kept = (if trig then [n ..< n + 4] else if 0 < l - 0.025 then gs else [])"
    by (simp add: kept_def g3_def l3_def)
  have ks: "set kept \<subseteq> set g3" by (auto simp: kept_def)
  have lives: "\<forall>g \<in> set kept. velocity (heap w4 g) \<noteq> None \<and>
      life (heap w4 g) = Some (l3 - 0.025) \<and> decay (heap w4 g) = Some 0.025"
    using F step ks by (auto simp: w4_def)
  have w4n: "nextId w4 = (if trig then n + 4 else n)" "randoms w4 = (\<lambda>_. 1 / 2)"
    using T4 step by (simp_all add: touches_def)
  have dk: "distinct kept" using d3 by (simp add: kept_def)
  show ?thesis
    unfolding CP trig_def[symmetric]
    using A t lives w4n dk k
    by (cases trig) (simp_all add: resonating_def a1_def l3_def)
qed

lemma resonating_time [simp]:
  "resonating n gs l r (a\<lparr>time := x\<rparr>, w) = resonating n gs l r (a, w)"
  by (simp add: resonating_def)

lemma resonating_tick:
  assumes I: "resonating n gs l r (a, w)" and le: "r + s \<le> 80"
  shows "resonating (if 48 < r + s \<and> gs = [] then n + 4 else n)
           (if 48 < r + s \<and> gs = [] then [n ..< n + 4] else if 0 < l - 0.025 then gs else [])
           (if 48 < r + s \<and> gs = [] then 0.975 else l - 0.025)
           (r + s) (tick s d (a, w))"
proof -
  let ?a = "a\<lparr>time := time a + d * s\<rparr>"
  have I': "resonating n gs l r (?a, w)" using I by simp
  note C = resonating_compound[OF I' le]
  obtain a' w' where CP: "compoundPhase s ?a w = (Returned (), a', w')"
    using C by (cases "compoundPhase s ?a w") auto
  have e: "effects a' = []" using C CP by (auto simp: resonating_def split: if_splits)
  have A: "atype a = ''nonelastic''" "phase a = Compound"
    using I by (simp_all add: resonating_def)
  have "tick s d (a, w) = (a', w')"
    using A CP e
    by (simp add: tick_def dispatch_def setSpeed_def newAnimator_def
        updateNonelasticBreakup_def nonelasticSwitch_def updateExplosion_def Let_def)
  then show ?thesis using C CP by simp
qed

lemma resonating_run:
  assumes "resonating n gs l r x" and "gs \<noteq> []" and "0 < l - real k * 0.025"
    and "r + real k * s \<le> 80" and "0 \<le> s"
  shows "resonating n gs (l - real k * 0.025) (r + real k * s) ((tick s d ^^ k) x)"
  using assms(3,4)
proof (induction k)
  case 0
  then show ?case using assms(1) by simp
next
  case (Suc k)
  have "0 < l - real k * 0.025" using Suc.prems(1) by (simp add: algebra_simps)
  moreover have "r + real k * s \<le> 80"
    using Suc.prems(2) assms(5) by (simp add: algebra_simps)
  ultimately have I: "resonating n gs (l - real k * 0.025) (r + real k * s) ((tick s d ^^ k) x)"
    using Suc.IH by simp
  obtain a w where x: "(tick s d ^^ k) x = (a, w)" by (cases "(tick s d ^^ k) x") auto
  have le: "r + real k * s + s \<le> 80" using Suc.prems(2) by (simp add: algebra_simps)
  have pos: "0 < l - real k * 0.025 - 0.025" using Suc.prems(1) by (simp add: algebra_simps)
  from resonating_tick[OF I[unfolded x] le, of d]
  have H: "resonating n gs (l - real k * 0.025 - 0.025) (r + real k * s + s) (tick s d (a, w))"
    using assms(2) pos by simp
  have e: "l - real (Suc k) * 0.025 = l - real k * 0.025 - 0.025"
    "r + real (Suc k) * s = r + real k * s + s" by (simp_all add: algebra_simps)
  have R: "(tick s d ^^ Suc k) x = tick s d (a, w)" using x by simp
  show ?case unfolding R e by (rule H)
qed

lemma demoWorld_simps:
  "nextId demoWorld = 2" "scene demoWorld = {0, 1}" "drawn demoWorld = 0"
  "randoms demoWorld = (\<lambda>_. 1 / 2)" "trailsEnabled demoWorld"
  "position (heap demoWorld 0) = Vec3 3 0 0"
  by (auto simp add: alloc_def scene_add_def demoWorld_def emptyWorld_def
      createTargetNucleus_def createDeuteron_def Let_def)

text \<open>
  C3 fails at low speed. At speed 0.5, from a resonance counter of 48 (of 80) and no gamma
  ray, the first tick emits a cascade (objects 2 to 5); its rays are gone after 40 ticks,
  while the counter is at 68; the 41st tick, still in the \<open>compound\<close> phase, emits a
  second cascade (objects 6 to 9).
\<close>

theorem second_cascade:
  "phase cascadeAnimation = Compound \<and> gammaRays cascadeAnimation = Some [] \<and>
   gammaRays (fst ((tick (1 / 2) 0.016 ^^ 1) (cascadeAnimation, demoWorld))) = Some [2, 3, 4, 5] \<and>
   gammaRays (fst ((tick (1 / 2) 0.016 ^^ 40) (cascadeAnimation, demoWorld))) = Some [] \<and>
   phase (fst ((tick (1 / 2) 0.016 ^^ 40) (cascadeAnimation, demoWorld))) = Compound \<and>
   gammaRays (fst ((tick (1 / 2) 0.016 ^^ 41) (cascadeAnimation, demoWorld))) = Some [6, 7, 8, 9] \<and>
   phase (fst ((tick (1 / 2) 0.016 ^^ 41) (cascadeAnimation, demoWorld))) = Compound"
proof -
  let ?t = "tick (1 / 2) 0.016"
  define x0 where "x0 = (cascadeAnimation, demoWorld)"
  define x1 where "x1 = ?t x0"
  define x39 where "x39 = (?t ^^ 38) x1"
  define x40 where "x40 = ?t x39"
  define x41 where "x41 = ?t x40"
  have I0: "resonating 2 [] 0 48 x0"
    by (simp add: resonating_def x0_def cascadeAnimation_def createNonelasticBreakup_def
        demoWorld_simps)
  have u: "[2 ..< 6] = [2, 3, 4, 5::nat]" "[6 ..< 10] = [6, 7, 8, 9::nat]"
    by (simp_all add: upt_rec)
  have I1: "resonating 6 [2, 3, 4, 5] 0.975 (48 + 1 / 2) x1"
    using resonating_tick[OF I0[unfolded x0_def], of "1 / 2" "0.016"] u
    by (simp add: x1_def x0_def)
  have I39: "resonating 6 [2, 3, 4, 5] (0.975 - real (38::nat) * 0.025)
      (48 + 1 / 2 + real (38::nat) * (1 / 2)) x39"
    unfolding x39_def by (rule resonating_run[OF I1]) simp_all
  then have I39': "resonating 6 [2, 3, 4, 5] 0.025 (135 / 2) x39" by simp
  obtain a39 w39 where p39: "x39 = (a39, w39)" by (cases x39) auto
  have I40: "resonating 6 [] 0 68 x40"
    using resonating_tick[OF I39'[unfolded p39], of "1 / 2" "0.016"]
    by (simp add: x40_def p39)
  obtain a40 w40 where p40: "x40 = (a40, w40)" by (cases x40) auto
  have I41: "resonating 10 [6, 7, 8, 9] 0.975 (68 + 1 / 2) x41"
    using resonating_tick[OF I40[unfolded p40], of "1 / 2" "0.016"] u
    by (simp add: x41_def p40)
  have e1: "(?t ^^ 1) (cascadeAnimation, demoWorld) = x1" by (simp add: x1_def x0_def)
  have "(40::nat) = Suc (38 + 1)" "(41::nat) = Suc (Suc (38 + 1))" by simp_all
  then have e40: "(?t ^^ 40) (cascadeAnimation, demoWorld) = x40"
    and e41: "(?t ^^ 41) (cascadeAnimation, demoWorld) = x41"
    by (simp_all only: funpow.simps funpow_add o_apply x41_def x40_def x39_def x1_def x0_def
        funpow_0 One_nat_def id_apply)
  show ?thesis
    unfolding e1 e40 e41
    using I1 I40 I41
    by (auto simp: resonating_def cascadeAnimation_def createNonelasticBreakup_def
        split: prod.splits)
qed

theorem cascade_per_tick_witness:
  "phase cascadeAnimation = Compound \<and> gammaRays cascadeAnimation = Some [] \<and>
   (0::real) \<le> randoms demoWorld (drawn demoWorld) \<and> randoms demoWorld (drawn demoWorld) < 1 \<and>
   fst (compoundPhase (1 / 2) cascadeAnimation demoWorld) = Returned () \<and>
   maxResonanceTime cascadeAnimation * 0.6 < resonanceTime cascadeAnimation + 1 / 2 \<and>
   gammaCount (randoms demoWorld (drawn demoWorld)) = 4 \<and>
   nextId (snd (snd (compoundPhase (1 / 2) cascadeAnimation demoWorld))) = 6"
proof -
  have I0: "resonating 2 [] 0 48 (cascadeAnimation, demoWorld)"
    by (simp add: resonating_def cascadeAnimation_def createNonelasticBreakup_def
        demoWorld_simps)
  have h: "phase cascadeAnimation = Compound" "gammaRays cascadeAnimation = Some []"
    "(0::real) \<le> randoms demoWorld (drawn demoWorld)" "randoms demoWorld (drawn demoWorld) < 1"
    by (simp_all add: cascadeAnimation_def createNonelasticBreakup_def demoWorld_simps)
  have g: "maxResonanceTime cascadeAnimation * 0.6 < resonanceTime cascadeAnimation + 1 / 2"
    "gammaCount (randoms demoWorld (drawn demoWorld)) = 4"
    by (simp_all add: cascadeAnimation_def createNonelasticBreakup_def demoWorld_simps
        gammaCount_def)
  have r: "fst (compoundPhase (1 / 2) cascadeAnimation demoWorld) = Returned ()"
    and p: "phase (fst (snd (compoundPhase (1 / 2) cascadeAnimation demoWorld))) = Compound"
    using resonating_compound[OF I0, of "1 / 2"] by (auto simp: resonating_def split_def)
  have C: "compoundPhase (1 / 2) cascadeAnimation demoWorld =
      (Returned (), fst (snd (compoundPhase (1 / 2) cascadeAnimation demoWorld)),
       snd (snd (compoundPhase (1 / 2) cascadeAnimation demoWorld)))"
    using r by (simp add: prod_eq_iff)
  show ?thesis
    using cascade_per_tick [OF h(1) h(2) h(3) h(4) C] h g r p demoWorld_simps(1) by simp
qed

subsection \<open>Vectors\<close>







subsection \<open>A fragment in flight\<close>








subsection \<open>The approach\<close>







subsection \<open>The ticks of an elastic animation, on the objects\<close>












subsection \<open>Runs of ticks\<close>




subsection \<open>From ticks to frames\<close>





subsection \<open>An elastic animation from its creation to \<open>complete\<close>\<close>





subsection \<open>A target off the line of flight\<close>





end
